theory Spec2Isabelle
  imports Main "HOL-Library.Word"
begin

section \<open>Sieve action handlers of lmtpd (imap/lmtp\_sieve.c)\<close>

text \<open>
  A shallow embedding of the sieve callbacks that lmtpd registers with the script engine.
  A C string is a \<open>string\<close> (a list of bytes without the terminating NUL); a pointer that
  the code tests against, or may find, NULL is a \<open>string option\<close>.  A \<open>time_t\<close> is an
  \<open>int\<close>.  Every handler takes the state of the external collaborators (duplicate
  database, mailbox list, the calls made so far) as a \<open>world\<close> and returns the new one.
\<close>

subsection \<open>Return codes\<close>

text \<open>
  The handlers return C \<open>int\<close> codes.  \<open>SIEVE_OK\<close> is the value 0, which is also the success
  value of the mailbox store and of the SMTP client (the code tests them with \<open>!r\<close>).
  \<open>ERR n\<close> stands for any other non-zero code \<open>n\<close>, for instance \<open>ERR (-1)\<close>.
\<close>

datatype rc = SIEVE_OK | SIEVE_FAIL | SIEVE_DONE | IMAP_MAILBOX_NONEXISTENT | ERR int

text \<open>What the handler stores through \<open>*errmsg\<close>: a literal, or \<open>error_message(r)\<close>.\<close>

datatype errmsg = Literal string | Error_message rc

text \<open>
  \<open>strlcat\<close>, \<open>strlcpy\<close> and \<open>strlen\<close> dereference their argument: called on NULL the
  process faults and the handler does not return.  \<open>snprintf(fname+len, size-len, ...)\<close>
  with \<open>len > size\<close> writes outside the buffer.
\<close>

datatype fault = NullDeref | BufferOverrun

subsection \<open>Characters and C library helpers\<close>

definition SP :: char where "SP = CHR 0x20"
definition HTAB :: char where "HTAB = CHR 0x09"
definition CR :: char where "CR = CHR 0x0D"
definition LF :: char where "LF = CHR 0x0A"
definition CRLF :: string where "CRLF = [CR, LF]"

definition isblank :: "char \<Rightarrow> bool" where
  "isblank c \<longleftrightarrow> c = SP \<or> c = HTAB"

definition isspace :: "char \<Rightarrow> bool" where
  "isspace c \<longleftrightarrow> c = SP \<or> (9 \<le> (of_char c :: nat) \<and> (of_char c :: nat) \<le> 13)"

definition isascii :: "char \<Rightarrow> bool" where
  "isascii c \<longleftrightarrow> (of_char c :: nat) < 128"

definition tolower :: "char \<Rightarrow> char" where
  "tolower c = (if 65 \<le> (of_char c :: nat) \<and> (of_char c :: nat) \<le> 90
                then char_of ((of_char c :: nat) + 32) else c)"

definition lcase :: "string \<Rightarrow> string" where
  "lcase s = map tolower s"

text \<open>\<open>strstr(hay, needle) != NULL\<close>.\<close>

fun strstr :: "string \<Rightarrow> string \<Rightarrow> bool" where
  "strstr [] needle = (needle = [])"
| "strstr (c # cs) needle = (take (length needle) (c # cs) = needle \<or> strstr cs needle)"

text \<open>What \<open>printf\<close> of the C library in use renders for a NULL \<open>%s\<close> argument.\<close>

definition printf_s :: "string option \<Rightarrow> string" where
  "printf_s s = (case s of None \<Rightarrow> ''(null)'' | Some x \<Rightarrow> x)"

text \<open>\<open>%d\<close> of a value cast to a 32-bit \<open>int\<close>.\<close>

function dec_nat :: "nat \<Rightarrow> string" where
  "dec_nat n = (if n < 10 then [char_of (48 + n)] else dec_nat (n div 10) @ [char_of (48 + n mod 10)])"
  by pat_completeness auto
termination
  by (relation "measure (\<lambda>n. n)") auto

declare dec_nat.simps [simp del]

definition printf_d :: "int \<Rightarrow> string" where
  "printf_d i = (let v = sint (word_of_int i :: 32 word)
                 in if v < 0 then CHR ''-'' # dec_nat (nat (- v)) else dec_nat (nat v))"

text \<open>
  \<open>strlcat(dst, src, sz)\<close>: the result holds at most \<open>sz - 1\<close> bytes; a destination that
  already fills the buffer is left as it is.
\<close>

definition strlcat :: "string \<Rightarrow> string \<Rightarrow> nat \<Rightarrow> string" where
  "strlcat dst src sz = (if length dst < sz then take (sz - 1) (dst @ src) else dst)"

text \<open>\<open>snprintf(buf, sz, ...)\<close> of the text \<open>s\<close>.\<close>

definition snprintf :: "nat \<Rightarrow> string \<Rightarrow> string" where
  "snprintf sz s = take (sz - 1) s"

subsection \<open>Data of a delivery\<close>

record mbname =
  mbname_userid :: "string option"
  mbname_localpart :: "string option"
  mbname_domain :: "string option"

text \<open>\<open>script_data_t\<close>; \<open>authstate\<close> and \<open>ns\<close> are only handed on to the mailbox store.\<close>

record script_data =
  sd_mbname :: mbname
  sd_edited_header :: bool

record sieve_interp_ctx =
  ctx_userid :: "string option"

datatype rcpt_status = LMTP_MESSAGE_REJECTED

text \<open>
  \<open>message_data_t\<close>: \<open>m_f\<close> is the content of the spool file \<open>m->f\<close> (which \<open>m->data\<close>
  streams), \<open>m_hdrcache\<close> the header cache in enumeration order, \<open>m_rcpt_status\<close> the
  status and response lines set per recipient number.
\<close>

record message_data =
  m_id :: "string option"
  m_return_path :: "string option"
  m_date :: "string option"
  m_f :: string
  m_body_offset :: nat
  m_size :: nat
  m_hdrcache :: "(string \<times> string) list"
  m_rcpt_status :: "nat \<rightharpoonup> (rcpt_status \<times> string list)"

text \<open>
  The staged files: the one the inbound message arrived in, the one
  \<open>setup_special_delivery\<close> opens for a header-edited copy, the one \<open>do_fcc\<close> opens for a
  copy of a reply.
\<close>

datatype stagemsg = Inbound_stage | Special_stage | Fcc_stage

text \<open>\<open>deliver_data_t\<close>: \<open>dd_stage\<close> is the staged file the message is appended from.\<close>

record deliver_data =
  dd_m :: message_data
  dd_cur_rcpt :: nat
  dd_stage :: stagemsg
  dd_authuser :: "string option"
  dd_notifyheader :: "string option"

record duplicate_key =
  dk_id :: "string option"
  dk_to :: "string option"
  dk_date :: "string option"

definition DUPLICATE_INITIALIZER :: duplicate_key where
  "DUPLICATE_INITIALIZER = \<lparr>dk_id = None, dk_to = None, dk_date = None\<rparr>"

record smtp_envelope =
  se_from :: "string option"
  se_rcpts :: "string list"

definition SMTP_ENVELOPE_INITIALIZER :: smtp_envelope where
  "SMTP_ENVELOPE_INITIALIZER = \<lparr>se_from = None, se_rcpts = []\<rparr>"

definition smtp_envelope_set_from :: "string \<Rightarrow> smtp_envelope \<Rightarrow> smtp_envelope" where
  "smtp_envelope_set_from a e = e\<lparr>se_from := Some a\<rparr>"

definition smtp_envelope_add_rcpt :: "string \<Rightarrow> smtp_envelope \<Rightarrow> smtp_envelope" where
  "smtp_envelope_add_rcpt a e = e\<lparr>se_rcpts := se_rcpts e @ [a]\<rparr>"

subsection \<open>The external collaborators\<close>

text \<open>
  Every call on a collaborator is recorded, oldest first.  A log entry is its format
  string with the rendered arguments.
\<close>

datatype event =
    Ev_syslog string "string list"
  | Ev_duplicate_log duplicate_key string
  | Ev_smtp_send "string option" smtp_envelope string
  | Ev_deliver_mailbox stagemsg string string
  | Ev_deliver_local stagemsg string
  | Ev_createmailbox string
  | Ev_changesub string
  | Ev_annotate string string
  | Ev_newstage stagemsg
  | Ev_removestage stagemsg
  | Ev_append_fromstage string string
  | Ev_notify string string "string list" string
  | Ev_getpwnam string
  | Ev_rebuild string
  | Ev_stat string

record world =
  dupdb :: "duplicate_key \<rightharpoonup> int"
  mboxlist :: "string list"
  trace :: "event list"
  global_outgoing_count :: int

definition emit :: "event \<Rightarrow> world \<Rightarrow> world" where
  "emit ev w = w\<lparr>trace := trace w @ [ev]\<rparr>"

text \<open>
  The configuration options the handlers read and the constants of headers that are not
  part of these sources.
\<close>

record config =
  MAX_MAILBOX_PATH :: nat
  FNAME_DOMAINDIR :: string
  CYRUS_VERSION :: string
  SIEVE_VERSION :: string
  config_servername :: string
  config_auditlog :: bool
  config_postmaster :: string
  config_sieve_use_lmtp_reject :: bool
  config_anysievefolder :: bool
  config_autocreate_sieve_folders :: "string option"
  config_sievenotifier :: "string option"
  config_sieveusehomedir :: bool
  config_sievedir :: "string option"

text \<open>
  The answers of the collaborators that the model cannot compute: process and clock
  formatting, SMTP client, address rewriting, address book, staging area, mailbox store,
  name and charset conversion, password database, file system and the text of an error
  code.
\<close>

record answers =
  getpid :: int
  session_id :: string
  time_to_rfc5322 :: "int \<Rightarrow> string"
  smtpclient_open_r :: rc
  smtpclient_send_r :: rc
  sieve_srs_forward :: "string option \<Rightarrow> string option"
  addrbook_members :: "string \<Rightarrow> string option \<Rightarrow> string list option"
  newstage_ok :: bool
  deliver_r :: "string \<Rightarrow> rc"
  deliver_local_r :: rc
  createmailbox_r :: "string \<Rightarrow> rc"
  append_setup_r :: rc
  append_fromstage_r :: rc
  append_commit_r :: rc
  specialuse_validate :: "string \<Rightarrow> string option"
  mboxname_from_external :: "string \<Rightarrow> string option \<Rightarrow> string"
  mboxname_user_mbox :: "string \<Rightarrow> string \<Rightarrow> string"
  charset_qpencode_mimebody :: "string \<Rightarrow> string"
  charset_encode_mimeheader :: "string \<Rightarrow> string"
  dir_hash_c :: "string \<Rightarrow> char"
  getpwnam :: "string \<Rightarrow> string option"
  sieve_getdefaultbcfname :: "string \<Rightarrow> string option"
  file_exists :: "string \<Rightarrow> bool"
  error_message :: "rc \<Rightarrow> string"

record env =
  cfg :: config
  ans :: answers

text \<open>\<open>md->id ? md->id : "<nomsgid>"\<close>\<close>

definition id_or_nomsgid :: "message_data \<Rightarrow> string" where
  "id_or_nomsgid m = (case m_id m of None \<Rightarrow> ''<nomsgid>'' | Some i \<Rightarrow> i)"

subsection \<open>The duplicate database\<close>

text \<open>
  Modelled from the spec: \<open>duplicate_check\<close> and \<open>duplicate_mark\<close> (duplicate.c is not part
  of these sources).  The ledger is a key to expiry store; \<open>check\<close> returns the stored expiry
  or "absent", \<open>mark\<close> is an overwriting upsert.  The C function returns a \<open>time_t\<close> that the
  callers test for truth, so "absent" is the value 0.
\<close>

definition duplicate_check :: "duplicate_key \<Rightarrow> world \<Rightarrow> int" where
  "duplicate_check k w = (case dupdb w k of None \<Rightarrow> 0 | Some t \<Rightarrow> t)"

definition duplicate_mark :: "duplicate_key \<Rightarrow> int \<Rightarrow> world \<Rightarrow> world" where
  "duplicate_mark k t w = w\<lparr>dupdb := (dupdb w)(k \<mapsto> t)\<rparr>"

definition duplicate_log :: "duplicate_key \<Rightarrow> string \<Rightarrow> world \<Rightarrow> world" where
  "duplicate_log k action w = emit (Ev_duplicate_log k action) w"

text \<open>
  \<open>make_sieve_db\<close>: "." then the user then ".sieve.", each \<open>strlcat\<close> cutting the result
  to the \<open>MAX_MAILBOX_PATH\<close> bytes that fit the static buffer.
\<close>

definition make_sieve_db :: "env \<Rightarrow> string \<Rightarrow> string" where
  "make_sieve_db e user =
     strlcat (strlcat ''.'' user (MAX_MAILBOX_PATH (cfg e) + 1)) ''.sieve.''
       (MAX_MAILBOX_PATH (cfg e) + 1)"

subsection \<open>Vacation: autorespond\<close>

record sieve_autorespond_context =
  arc_hash :: "8 word list"
  arc_seconds :: int

definition hex :: string where
  "hex = ''0123456789ABCDEF''"

text \<open>The loop over \<open>SIEVE_HASHLEN\<close> bytes: two hex digits per byte of the hash.\<close>

fun hash_id :: "8 word list \<Rightarrow> string" where
  "hash_id [] = []"
| "hash_id (b # bs) = hex ! (unat b div 16) # hex ! (unat b mod 16) # hash_id bs"

definition autorespond_key :: "sieve_autorespond_context \<Rightarrow> script_data \<Rightarrow> duplicate_key" where
  "autorespond_key arc sd =
     DUPLICATE_INITIALIZER\<lparr>dk_id := Some (hash_id (arc_hash arc)),
                            dk_to := mbname_userid (sd_mbname sd),
                            dk_date := Some ''''\<rparr>"

definition autorespond ::
  "sieve_autorespond_context \<Rightarrow> script_data \<Rightarrow> int \<Rightarrow> world \<Rightarrow> rc \<times> world" where
  "autorespond arc sd now w =
     (let dkey = autorespond_key arc sd;
          t = duplicate_check dkey w;
          ret = (if t \<noteq> 0 then (if now \<ge> t then SIEVE_OK else SIEVE_DONE) else SIEVE_OK)
      in if ret = SIEVE_OK then (ret, duplicate_mark dkey (now + arc_seconds arc) w)
         else (ret, w))"

subsection \<open>The duplicate extension\<close>

record sieve_duplicate_context =
  dtc_id :: string
  dtc_seconds :: int

definition duplicate_ext_key :: "env \<Rightarrow> sieve_duplicate_context \<Rightarrow> string \<Rightarrow> duplicate_key" where
  "duplicate_ext_key e dtc user =
     DUPLICATE_INITIALIZER\<lparr>dk_id := Some (dtc_id dtc),
                            dk_to := Some (make_sieve_db e user),
                            dk_date := Some ''''\<rparr>"

definition sieve_duplicate_check ::
  "env \<Rightarrow> sieve_duplicate_context \<Rightarrow> script_data \<Rightarrow> int \<Rightarrow> world \<Rightarrow> fault + (int \<times> world)" where
  "sieve_duplicate_check e dtc sd now w =
     (case mbname_userid (sd_mbname sd) of
        None \<Rightarrow> Inl NullDeref
      | Some user \<Rightarrow>
          (let dkey = duplicate_ext_key e dtc user;
               t = duplicate_check dkey w
           in if t \<noteq> 0 \<and> now < t then Inr (1, duplicate_log dkey ''sieve-duplicate'' w)
              else Inr (0, w)))"

definition sieve_duplicate_track ::
  "env \<Rightarrow> sieve_duplicate_context \<Rightarrow> script_data \<Rightarrow> int \<Rightarrow> world \<Rightarrow> fault + (rc \<times> world)" where
  "sieve_duplicate_track e dtc sd now w =
     (case mbname_userid (sd_mbname sd) of
        None \<Rightarrow> Inl NullDeref
      | Some user \<Rightarrow>
          Inr (SIEVE_OK, duplicate_mark (duplicate_ext_key e dtc user) (now + dtc_seconds dtc) w))"

subsection \<open>The header cache\<close>

text \<open>
  Modelled from the spec: the header cache of a message (spool.c and lmtpengine.c are not
  part of these sources).  It is the current (edited) header set: the header actions add
  to and delete from it, header tests read it, and the materializer re-serializes it.
  Header names compare without regard to case.
\<close>

definition spool_getheader :: "(string \<times> string) list \<Rightarrow> string \<Rightarrow> string list option" where
  "spool_getheader cache head =
     (let bodies = map snd (filter (\<lambda>(h, b). lcase h = lcase head) cache)
      in if bodies = [] then None else Some bodies)"

definition msg_getheader :: "message_data \<Rightarrow> string \<Rightarrow> string list option" where
  "msg_getheader m phead = spool_getheader (m_hdrcache m) phead"






subsection \<open>Header tests and header edits\<close>




subsection \<open>Serializing a header: \<open>dump_header\<close>\<close>

text \<open>
  The inner \<open>for\<close> loop of \<open>dump_header\<close>.  \<open>mimehdr\<close> is the text from the start of the
  current chunk, \<open>p\<close> and \<open>last_sp\<close> are offsets into it.  The loop stops at a HTAB, at a SP
  followed by a SP, or at the end of the text.
\<close>

function scan :: "string \<Rightarrow> nat \<Rightarrow> nat \<Rightarrow> nat option \<Rightarrow> nat \<times> nat option" where
  "scan mimehdr maxlen p last_sp =
     (if length mimehdr \<le> p then (p, last_sp)
      else if mimehdr ! p = HTAB then (p, last_sp)
      else if mimehdr ! p = SP then
        (if Suc p < length mimehdr \<and> mimehdr ! Suc p = SP then (p, last_sp)
         else if length mimehdr \<le> maxlen then scan mimehdr maxlen (Suc p) last_sp
         else if last_sp = None then scan mimehdr maxlen (Suc p) (Some p)
         else if p \<le> maxlen then scan mimehdr maxlen (Suc p) (Some p)
         else scan mimehdr maxlen (Suc p) last_sp)
      else scan mimehdr maxlen (Suc p) last_sp)"
  by pat_completeness auto
termination
  by (relation "measure (\<lambda>(mimehdr, maxlen, p, last_sp). length mimehdr - p)") auto

declare scan.simps [simp del]

text \<open>
  One turn of the \<open>while\<close> loop up to the chunk boundary: skip the folding white space the
  chunk starts with, scan, and fall back to the tracked SP when the scan reached the end.
\<close>

definition skip_fws :: "string \<Rightarrow> nat" where
  "skip_fws mimehdr =
     (case mimehdr of [] \<Rightarrow> 0
      | c # cs \<Rightarrow> if isblank c then Suc (length (takeWhile isblank cs)) else 0)"

definition fold_point :: "nat \<Rightarrow> string \<Rightarrow> nat" where
  "fold_point maxlen mimehdr =
     (case scan mimehdr maxlen (skip_fws mimehdr) None of
        (p, last_sp) \<Rightarrow>
          (case last_sp of
             Some l \<Rightarrow> if length mimehdr \<le> p then l else p
           | None \<Rightarrow> p))"

text \<open>\<open>fprintf("%.*s", (int) n, s)\<close>: a negative precision is taken as if it were omitted.\<close>

definition printf_prec :: "nat \<Rightarrow> string \<Rightarrow> string" where
  "printf_prec n s = (let k = sint (word_of_nat n :: 32 word) in if k < 0 then s else take (nat k) s)"

lemma scan_ge: "scan mimehdr maxlen p last_sp = (q, l) \<Longrightarrow> p \<le> q"
proof (induction mimehdr maxlen p last_sp rule: scan.induct)
  case (1 mimehdr maxlen p last_sp)
  show ?case using "1.prems" "1.IH"
    by (subst (asm) scan.simps) (auto split: if_splits dest: Suc_leD)
qed

lemma scan_last_sp:
  "scan mimehdr maxlen p last_sp = (q, Some l) \<Longrightarrow> last_sp = Some l \<or> (p \<le> l \<and> mimehdr ! l = SP)"
proof (induction mimehdr maxlen p last_sp rule: scan.induct)
  case (1 mimehdr maxlen p last_sp)
  show ?case using "1.prems" "1.IH"
    by (subst (asm) scan.simps) (auto split: if_splits dest: Suc_leD)
qed

lemma scan_first_nonblank:
  assumes "mimehdr \<noteq> []" "\<not> isblank (hd mimehdr)"
  shows "scan mimehdr maxlen 0 None = scan mimehdr maxlen (Suc 0) None"
  using assms by (subst scan.simps) (auto simp: isblank_def hd_conv_nth)

lemma fold_point_pos: "mimehdr \<noteq> [] \<Longrightarrow> 0 < fold_point maxlen mimehdr"
proof (cases "isblank (hd mimehdr)")
  case True
  assume ne: "mimehdr \<noteq> []"
  then obtain c cs where m: "mimehdr = c # cs" by (cases mimehdr) auto
  with True have s: "skip_fws mimehdr = Suc (length (takeWhile isblank cs))"
    by (simp add: skip_fws_def)
  obtain q l where sc: "scan mimehdr maxlen (skip_fws mimehdr) None = (q, l)" by (cases "scan mimehdr maxlen (skip_fws mimehdr) None")
  from scan_ge [OF sc] s have "0 < q" by simp
  moreover have "l = Some k \<Longrightarrow> 0 < k" for k
    using scan_last_sp [of mimehdr maxlen "skip_fws mimehdr" None q k] sc s by auto
  ultimately show ?thesis by (auto simp: fold_point_def sc split: option.splits)
next
  case False
  assume ne: "mimehdr \<noteq> []"
  then obtain c cs where m: "mimehdr = c # cs" by (cases mimehdr) auto
  with False have s: "skip_fws mimehdr = 0" by (simp add: skip_fws_def)
  obtain q l where sc: "scan mimehdr maxlen (Suc 0) None = (q, l)" by (cases "scan mimehdr maxlen (Suc 0) None")
  have sc0: "scan mimehdr maxlen 0 None = (q, l)"
    using scan_first_nonblank [OF ne False] sc by simp
  from scan_ge [OF sc] have "0 < q" by simp
  moreover have "l = Some k \<Longrightarrow> 0 < k" for k
    using scan_last_sp [of mimehdr maxlen "Suc 0" None q k] sc by auto
  ultimately show ?thesis by (auto simp: fold_point_def s sc0 split: option.splits)
qed

text \<open>
  The \<open>while\<close> loop: each turn writes CRLF when the chunk starts with white space, then
  the chunk; the next chunk starts at the boundary, with \<open>maxlen = 78\<close>.
\<close>

function fold_value :: "nat \<Rightarrow> string \<Rightarrow> string" where
  "fold_value maxlen mimehdr =
     (if mimehdr = [] then []
      else (if isblank (hd mimehdr) then CRLF else [])
           @ printf_prec (fold_point maxlen mimehdr) mimehdr
           @ fold_value 78 (drop (fold_point maxlen mimehdr) mimehdr))"
  by pat_completeness auto
termination
  by (relation "measure (\<lambda>(maxlen, mimehdr). length mimehdr)") (auto simp: fold_point_pos)

declare fold_value.simps [simp del]

text \<open>\<open>size_t maxlen = 78 - (strlen(name) + 2)\<close>, in the unsigned 64-bit arithmetic of \<open>size_t\<close>.\<close>

definition first_maxlen :: "string \<Rightarrow> nat" where
  "first_maxlen name = unat ((78 :: 64 word) - (word_of_nat (length name) + 2))"

definition dump_header :: "env \<Rightarrow> string \<Rightarrow> string \<Rightarrow> string" where
  "dump_header e name val =
     (let mimehdr = charset_encode_mimeheader (ans e) val;
          maxlen = first_maxlen name
      in name @ '': '' @ fold_value maxlen mimehdr @ CRLF)"

subsection \<open>The special-delivery materializer\<close>

text \<open>
  \<open>setup_special_delivery\<close> copies the delivery and message structures, opens a new staged
  file, writes every header of the cache with \<open>dump_header\<close>, notes the body offset and
  copies the body of the original file from its body offset.  The copy shares the header
  cache of the original (\<open>memcpy\<close>); the original structures are only read.  The result is
  NULL when the staged file cannot be opened.
\<close>

definition setup_special_delivery :: "env \<Rightarrow> deliver_data \<Rightarrow> world \<Rightarrow> deliver_data option \<times> world" where
  "setup_special_delivery e mydata w =
     (if newstage_ok (ans e) then
        (let m = dd_m mydata;
             hdrs = concat (map (\<lambda>(name, val). dump_header e name val) (m_hdrcache m));
             f = hdrs @ drop (m_body_offset m) (m_f m);
             md = m\<lparr>m_f := f, m_body_offset := length hdrs, m_size := length f\<rparr>
         in (Some (mydata\<lparr>dd_m := md, dd_stage := Special_stage\<rparr>), emit (Ev_newstage Special_stage) w))
      else (None, w))"

definition cleanup_special_delivery :: "deliver_data \<Rightarrow> world \<Rightarrow> world" where
  "cleanup_special_delivery mydata w = emit (Ev_removestage (dd_stage mydata)) w"

subsection \<open>Redirect\<close>

record sieve_redirect_context =
  rc_addr :: string
  rc_is_ext_list :: bool

text \<open>The lines \<open>prot_fgets\<close> reads: each runs through its LF; the last may lack one.\<close>

fun split_lines :: "string \<Rightarrow> string \<Rightarrow> string list" where
  "split_lines cur [] = (if cur = [] then [] else [cur])"
| "split_lines cur (c # cs) =
     (if c = LF then (cur @ [c]) # split_lines [] cs else split_lines (cur @ [c]) cs)"

text \<open>
  The copy loop of \<open>send_forward\<close>: a line that starts with CRLF ends the header; before
  it, a line whose first 12 bytes are "Return-Path:" in any case is dropped.
\<close>

fun forward_lines :: "bool \<Rightarrow> string list \<Rightarrow> string" where
  "forward_lines body [] = []"
| "forward_lines body (buf # rest) =
     (let body' = (body \<or> take 2 buf = CRLF);
          skip = (\<not> body' \<and> lcase (take 12 buf) = lcase ''Return-Path:'')
      in (if skip then [] else buf) @ forward_lines body' rest)"

text \<open>
  \<open>send_forward\<close>.  The envelope sender is the rewritten return path, else the return
  path when it is not empty, else the null sender.  For an address-book list the address
  book lookup answers with the member addresses, or with nothing when the address book or
  its database cannot be opened (then \<open>SIEVE_FAIL\<close>).  The message is sent only when the
  SMTP client opens.
\<close>

definition send_forward ::
  "env \<Rightarrow> sieve_redirect_context \<Rightarrow> sieve_interp_ctx \<Rightarrow> string option \<Rightarrow> string \<Rightarrow> world
     \<Rightarrow> rc \<times> world" where
  "send_forward e rc ctx return_path file w =
     (let sm_from =
            (case sieve_srs_forward (ans e) return_path of
               Some srs_return_path \<Rightarrow> smtp_envelope_set_from srs_return_path SMTP_ENVELOPE_INITIALIZER
             | None \<Rightarrow>
                 (case return_path of
                    Some rp \<Rightarrow> if rp \<noteq> [] then smtp_envelope_set_from rp SMTP_ENVELOPE_INITIALIZER
                               else smtp_envelope_set_from ''<>'' SMTP_ENVELOPE_INITIALIZER
                  | None \<Rightarrow> smtp_envelope_set_from ''<>'' SMTP_ENVELOPE_INITIALIZER));
          sm_rcpt =
            (if rc_is_ext_list rc then
               (case addrbook_members (ans e) (rc_addr rc) (ctx_userid ctx) of
                  None \<Rightarrow> None
                | Some emails \<Rightarrow> Some (foldl (\<lambda>sm a. smtp_envelope_add_rcpt a sm) sm_from emails))
             else Some (smtp_envelope_add_rcpt (rc_addr rc) sm_from))
      in case sm_rcpt of
           None \<Rightarrow> (SIEVE_FAIL, w)
         | Some sm_env \<Rightarrow>
             (let msgbuf = forward_lines False (split_lines [] file)
              in if smtpclient_open_r (ans e) \<noteq> SIEVE_OK then (smtpclient_open_r (ans e), w)
                 else (smtpclient_send_r (ans e),
                       emit (Ev_smtp_send (ctx_userid ctx) sm_env msgbuf) w)))"

text \<open>
  The key under which \<open>sieve_redirect\<close> tracks a redirect: the message id, "-" and the
  target address in a buffer of 8192 bytes; the sieve database name of the script's user;
  the date of the message.
\<close>

definition redirect_key ::
  "env \<Rightarrow> message_data \<Rightarrow> sieve_redirect_context \<Rightarrow> string \<Rightarrow> string \<Rightarrow> duplicate_key" where
  "redirect_key e m rc msgid user =
     DUPLICATE_INITIALIZER\<lparr>dk_id := Some (snprintf 8192 (msgid @ ''-'' @ rc_addr rc)),
                            dk_to := Some (make_sieve_db e user),
                            dk_date := m_date m\<rparr>"

text \<open>The part of \<open>sieve_redirect\<close> after the duplicate check.\<close>

definition redirect_send ::
  "env \<Rightarrow> sieve_redirect_context \<Rightarrow> sieve_interp_ctx \<Rightarrow> script_data \<Rightarrow> deliver_data
     \<Rightarrow> duplicate_key option \<Rightarrow> int \<Rightarrow> world \<Rightarrow> rc \<times> errmsg option \<times> world" where
  "redirect_send e rc ctx sd mdata sievedb_dkey now w =
     (case (if sd_edited_header sd then setup_special_delivery e mdata w else (Some mdata, w)) of
        (None, w1) \<Rightarrow> (SIEVE_FAIL, None, w1)
      | (Some mdata', w1) \<Rightarrow>
          (let m = dd_m mdata' in
           case send_forward e rc ctx (m_return_path m) (m_f m) w1 of
             (res, w2) \<Rightarrow>
               (let w3 = (if sd_edited_header sd then cleanup_special_delivery mdata' w2 else w2)
                in if res = SIEVE_OK then
                     (let w4 = (case sievedb_dkey of Some dkey \<Rightarrow> duplicate_mark dkey now w3
                                | None \<Rightarrow> w3);
                          w5 = emit (Ev_syslog ''sieve redirected: %s to: %s''
                                       [id_or_nomsgid m, rc_addr rc]) w4;
                          w6 = (if config_auditlog (cfg e)
                                then emit (Ev_syslog
                                  ''auditlog: redirect sessionid=<%s> message-id=%s target=<%s>''
                                  [session_id (ans e), id_or_nomsgid m, rc_addr rc]) w5
                                else w5)
                      in (SIEVE_OK, None, w6))
                   else if res = ERR (- 1)
                     then (SIEVE_FAIL, Some (Literal ''Could not spawn sendmail process''), w3)
                     else (SIEVE_FAIL, Some (Error_message res), w3))))"

definition sieve_redirect ::
  "env \<Rightarrow> sieve_redirect_context \<Rightarrow> sieve_interp_ctx \<Rightarrow> script_data \<Rightarrow> deliver_data
     \<Rightarrow> int \<Rightarrow> world \<Rightarrow> fault + (rc \<times> errmsg option \<times> world)" where
  "sieve_redirect e rc ctx sd mdata now w =
     (let m = dd_m mdata in
      case m_id m of
        None \<Rightarrow> Inr (redirect_send e rc ctx sd mdata None now w)
      | Some msgid \<Rightarrow>
          (case mbname_userid (sd_mbname sd) of
             None \<Rightarrow> Inl NullDeref
           | Some user \<Rightarrow>
               (let dkey = redirect_key e m rc msgid user
                in if duplicate_check dkey w \<noteq> 0
                   then Inr (SIEVE_OK, None, duplicate_log dkey ''redirect'' w)
                   else Inr (redirect_send e rc ctx sd mdata (Some dkey) now w))))"

subsection \<open>Reject\<close>

record sieve_reject_context =
  rjc_msg :: string
  rjc_is_extended :: bool

text \<open>The loop that looks for a byte outside US-ASCII.\<close>

definition need_encode :: "string \<Rightarrow> bool" where
  "need_encode msg = list_ex (\<lambda>c. \<not> isascii c) msg"

text \<open>
  Modelled from the spec: the tokenizer (tok.c is not part of these sources), initialised
  with the separators CR and LF and no flags.  It yields each line of the reason: the
  maximal runs of bytes other than CR and LF, in order; an empty run is no token.
\<close>

fun tok_split :: "string \<Rightarrow> string \<Rightarrow> string list" where
  "tok_split cur [] = (if cur = [] then [] else [cur])"
| "tok_split cur (c # cs) =
     (if c = CR \<or> c = LF then (if cur = [] then tok_split [] cs else cur # tok_split [] cs)
      else tok_split (cur @ [c]) cs)"

definition tok_lines :: "string \<Rightarrow> string list" where
  "tok_lines msg = tok_split [] msg"

text \<open>
  The response loop: \<open>cur\<close> is the token in hand (NULL when the text has none), the list
  holds the tokens \<open>tok_next\<close> still yields.  Every token but the last becomes a
  continuation line, the last the final line.
\<close>

fun reject_resp :: "string option \<Rightarrow> string list \<Rightarrow> string list" where
  "reject_resp cur [] = [''550 5.7.1 '' @ printf_s cur @ CRLF]"
| "reject_resp cur (next # rest) =
     (''550-5.7.1 '' @ printf_s cur @ CRLF) # reject_resp (Some next) rest"

definition lmtp_reject_resp :: "string list \<Rightarrow> string list" where
  "lmtp_reject_resp toks =
     (case toks of [] \<Rightarrow> reject_resp None [] | cur # rest \<Rightarrow> reject_resp (Some cur) rest)"

text \<open>
  Modelled from the spec: the recipient status of lmtpengine.c (not part of these
  sources).  The status and the response lines of a recipient are recorded under its
  number.
\<close>

definition msg_setrcpt_status ::
  "message_data \<Rightarrow> nat \<Rightarrow> rcpt_status \<Rightarrow> string list \<Rightarrow> message_data" where
  "msg_setrcpt_status m rcpt_num status resp =
     m\<lparr>m_rcpt_status := (m_rcpt_status m)(rcpt_num \<mapsto> (status, resp))\<rparr>"

text \<open>
  \<open>send_rejection\<close>: the bounce (MDN) to \<open>rejto\<close> from the null sender.  The outgoing
  message id is marked in the duplicate database before the message is composed; the
  message is sent only when the SMTP client opens.
\<close>

definition outgoing_msgid :: "env \<Rightarrow> int \<Rightarrow> int \<Rightarrow> string" where
  "outgoing_msgid e t count =
     snprintf 8192 (''<cmu-sieve-'' @ printf_d (getpid (ans e)) @ ''-'' @ printf_d t @ ''-''
                    @ printf_d count @ ''@'' @ config_servername (cfg e) @ ''>'')"

definition mime_boundary :: "env \<Rightarrow> string" where
  "mime_boundary e = printf_d (getpid (ans e)) @ ''/'' @ config_servername (cfg e)"

definition rejection_msgbuf ::
  "env \<Rightarrow> string \<Rightarrow> string \<Rightarrow> string option \<Rightarrow> string \<Rightarrow> string option \<Rightarrow> string \<Rightarrow> string
     \<Rightarrow> string \<Rightarrow> string" where
  "rejection_msgbuf e msgid datestr origid rejto origreceip mailreceip reason file =
     ''Message-ID: '' @ msgid @ CRLF
     @ ''Date: '' @ datestr @ CRLF
     @ ''X-Sieve: '' @ SIEVE_VERSION (cfg e) @ CRLF
     @ ''From: Mail Sieve Subsystem <'' @ config_postmaster (cfg e) @ ''>'' @ CRLF
     @ ''To: <'' @ rejto @ ''>'' @ CRLF
     @ ''MIME-Version: 1.0'' @ CRLF
     @ ''Content-Type: multipart/report; report-type=disposition-notification;'' @ CRLF
     @ [HTAB] @ ''boundary='' @ [CHR 0x22] @ mime_boundary e @ [CHR 0x22] @ CRLF
     @ ''Subject: Automatically rejected mail'' @ CRLF
     @ ''Auto-Submitted: auto-replied (rejected)'' @ CRLF
     @ CRLF @ ''This is a MIME-encapsulated message'' @ CRLF @ CRLF
     @ ''--'' @ mime_boundary e @ CRLF
     @ ''Content-Type: text/plain; charset=utf-8'' @ CRLF
     @ ''Content-Disposition: inline'' @ CRLF
     @ ''Content-Transfer-Encoding: 8bit'' @ CRLF @ CRLF
     @ ''Your message was automatically rejected by Sieve, a mail'' @ CRLF
     @ ''filtering language.'' @ CRLF @ CRLF
     @ ''The following reason was given:'' @ CRLF @ reason @ CRLF @ CRLF
     @ ''--'' @ mime_boundary e @ CRLF
     @ ''Content-Type: message/disposition-notification'' @ CRLF @ CRLF
     @ ''Reporting-UA: '' @ config_servername (cfg e) @ ''; Cyrus '' @ CYRUS_VERSION (cfg e)
       @ ''/'' @ SIEVE_VERSION (cfg e) @ CRLF
     @ (case origreceip of None \<Rightarrow> []
        | Some r \<Rightarrow> ''Original-Recipient: rfc822; '' @ r @ CRLF)
     @ ''Final-Recipient: rfc822; '' @ mailreceip @ CRLF
     @ (case origid of None \<Rightarrow> [] | Some i \<Rightarrow> ''Original-Message-ID: '' @ i @ CRLF)
     @ ''Disposition: automatic-action/MDN-sent-automatically; deleted'' @ CRLF
     @ CRLF
     @ ''--'' @ mime_boundary e @ CRLF @ ''Content-Type: message/rfc822'' @ CRLF @ CRLF
     @ file
     @ CRLF @ CRLF
     @ ''--'' @ mime_boundary e @ ''--'' @ CRLF"

definition send_rejection ::
  "env \<Rightarrow> string option \<Rightarrow> string option \<Rightarrow> string \<Rightarrow> string option \<Rightarrow> string option
     \<Rightarrow> string \<Rightarrow> string \<Rightarrow> int \<Rightarrow> world \<Rightarrow> fault + (rc \<times> world)" where
  "send_rejection e userid origid rejto origreceip mailreceip reason file t w =
     (case mailreceip of
        None \<Rightarrow> Inl NullDeref
      | Some mailrcpt \<Rightarrow>
          (let sm_env = smtp_envelope_add_rcpt rejto
                          (smtp_envelope_set_from ''<>'' SMTP_ENVELOPE_INITIALIZER);
               buf = outgoing_msgid e t (global_outgoing_count w);
               w1 = w\<lparr>global_outgoing_count := global_outgoing_count w + 1\<rparr>;
               namebuf = make_sieve_db e mailrcpt;
               datestr = time_to_rfc5322 (ans e) t;
               dkey = DUPLICATE_INITIALIZER\<lparr>dk_id := Some buf, dk_to := Some namebuf,
                                             dk_date := Some datestr\<rparr>;
               w2 = duplicate_mark dkey t w1;
               msgbuf = rejection_msgbuf e buf datestr origid rejto origreceip mailrcpt reason file;
               r = (if smtpclient_open_r (ans e) = SIEVE_OK then smtpclient_send_r (ans e)
                    else smtpclient_open_r (ans e));
               w3 = (if smtpclient_open_r (ans e) = SIEVE_OK
                     then emit (Ev_smtp_send userid sm_env msgbuf) w2 else w2);
               w4 = (if r \<noteq> SIEVE_OK
                     then emit (Ev_syslog ''sieve: send_rejection: SMTP error: %s''
                                 [error_message (ans e) r]) w3
                     else w3)
           in Inr (r, w4)))"

text \<open>
  The part of \<open>sieve_reject\<close> after the protocol-level branch: the bounce by mail.  No
  return path at all is a failure; an empty return path is logged and dropped; otherwise
  \<open>send_rejection\<close> mails the bounce.
\<close>

definition reject_by_mail ::
  "env \<Rightarrow> sieve_reject_context \<Rightarrow> sieve_interp_ctx \<Rightarrow> script_data \<Rightarrow> deliver_data
     \<Rightarrow> int \<Rightarrow> world \<Rightarrow> fault + (rc \<times> errmsg option \<times> deliver_data \<times> world)" where
  "reject_by_mail e rc ctx sd mydata now w =
     (let md = dd_m mydata in
      case m_return_path md of
        None \<Rightarrow> Inr (SIEVE_FAIL, Some (Literal ''No return-path for reply''), mydata, w)
      | Some return_path \<Rightarrow>
          if length return_path = 0 then
            (let w1 = emit (Ev_syslog ''sieve: discarded reject to <> for %s id %s''
                              [printf_s (mbname_userid (sd_mbname sd)), id_or_nomsgid md]) w;
                 w2 = (if config_auditlog (cfg e)
                       then emit (Ev_syslog
                              ''auditlog: discard-reject sessionid=<%s> message-id=%s''
                              [session_id (ans e), id_or_nomsgid md]) w1
                       else w1)
             in Inr (SIEVE_OK, None, mydata, w2))
          else
            (let body = msg_getheader md ''original-recipient'';
                 origreceip = (case body of None \<Rightarrow> None
                               | Some bs \<Rightarrow> (case bs of [] \<Rightarrow> None | b # _ \<Rightarrow> Some b))
             in case send_rejection e (ctx_userid ctx) (m_id md) return_path origreceip
                       (mbname_userid (sd_mbname sd)) (rjc_msg rc) (m_f md) now w of
                  Inl flt \<Rightarrow> Inl flt
                | Inr (res, w1) \<Rightarrow>
                    if res = SIEVE_OK then
                      (let w2 = emit (Ev_syslog ''sieve rejected: %s to: %s''
                                        [id_or_nomsgid md, return_path]) w1;
                           w3 = (if config_auditlog (cfg e)
                                 then emit (Ev_syslog
                                   ''auditlog: reject sessionid=<%s> message-id=%s target=<%s>''
                                   [session_id (ans e), id_or_nomsgid md, return_path]) w2
                                 else w2)
                       in Inr (SIEVE_OK, None, mydata, w3))
                    else if res = ERR (- 1)
                      then Inr (SIEVE_FAIL, Some (Literal ''Could not spawn sendmail process''),
                                mydata, w1)
                      else Inr (SIEVE_FAIL, Some (Error_message res), mydata, w1)))"

text \<open>
  \<open>sieve_reject\<close>.  The protocol-level rejection is chosen for the extended form, or when
  the configuration enables it and the reason needs no encoding; otherwise a bounce is
  mailed to the return path.
\<close>

text \<open>
  The text whose lines are sent in a protocol-level rejection: the reason, in its
  quoted-printable encoding when it is not pure US-ASCII.
\<close>

definition reject_text :: "env \<Rightarrow> sieve_reject_context \<Rightarrow> string" where
  "reject_text e rc =
     (if need_encode (rjc_msg rc) then charset_qpencode_mimebody (ans e) (rjc_msg rc)
      else rjc_msg rc)"

definition sieve_reject ::
  "env \<Rightarrow> sieve_reject_context \<Rightarrow> sieve_interp_ctx \<Rightarrow> script_data \<Rightarrow> deliver_data
     \<Rightarrow> int \<Rightarrow> world \<Rightarrow> fault + (rc \<times> errmsg option \<times> deliver_data \<times> world)" where
  "sieve_reject e rc ctx sd mydata now w =
     (let md = dd_m mydata in
      if rjc_is_extended rc \<or> (config_sieve_use_lmtp_reject (cfg e) \<and> \<not> need_encode (rjc_msg rc))
      then
        (let msg = reject_text e rc;
             resp = lmtp_reject_resp (tok_lines msg);
             md' = msg_setrcpt_status md (dd_cur_rcpt mydata) LMTP_MESSAGE_REJECTED resp;
             w1 = emit (Ev_syslog ''sieve LMTP rejected: %s'' [id_or_nomsgid md]) w;
             w2 = (if config_auditlog (cfg e)
                   then emit (Ev_syslog ''auditlog: LMTP reject sessionid=<%s> message-id=%s''
                                [session_id (ans e), id_or_nomsgid md]) w1
                   else w1)
         in Inr (SIEVE_OK, None, mydata\<lparr>dd_m := md'\<rparr>, w2))
      else reject_by_mail e rc ctx sd mydata now w)"

subsection \<open>The mailbox store\<close>

text \<open>
  Modelled from the spec: the mailbox store (mboxlist.c, append.c and lmtpd.c are not part
  of these sources), with the interface \<open>lookup(name) -> exists|absent\<close>,
  \<open>create(name, owner, policy) -> Result\<close>, \<open>append(message, target, flags, owner) -> Result\<close>
  and \<open>write_annotation\<close>.  A mailbox that is not in the list answers an append with
  "mailbox does not exist"; for one that is, and for a create, the store's answer is
  given by the environment.  A successful create adds the mailbox to the list.
\<close>

definition mboxlist_lookup :: "string \<Rightarrow> world \<Rightarrow> rc" where
  "mboxlist_lookup name w = (if name \<in> set (mboxlist w) then SIEVE_OK else IMAP_MAILBOX_NONEXISTENT)"

definition append_result :: "env \<Rightarrow> string \<Rightarrow> world \<Rightarrow> rc" where
  "append_result e mailboxname w =
     (if mailboxname \<in> set (mboxlist w) then deliver_r (ans e) mailboxname
      else IMAP_MAILBOX_NONEXISTENT)"

definition deliver_mailbox :: "env \<Rightarrow> stagemsg \<Rightarrow> string \<Rightarrow> string \<Rightarrow> world \<Rightarrow> rc \<times> world" where
  "deliver_mailbox e stage content mailboxname w =
     (append_result e mailboxname w, emit (Ev_deliver_mailbox stage mailboxname content) w)"


definition mboxlist_createmailbox :: "env \<Rightarrow> string \<Rightarrow> world \<Rightarrow> rc \<times> world" where
  "mboxlist_createmailbox e name w =
     (let w1 = emit (Ev_createmailbox name) w
      in if createmailbox_r (ans e) name = SIEVE_OK
         then (SIEVE_OK, w1\<lparr>mboxlist := mboxlist w1 @ [name]\<rparr>)
         else (createmailbox_r (ans e) name, w1))"

definition annotatemore_write :: "string \<Rightarrow> string \<Rightarrow> world \<Rightarrow> world" where
  "annotatemore_write name val w = emit (Ev_annotate name val) w"

subsection \<open>Folder autocreation\<close>

text \<open>
  Modelled from the spec: the configured auto-create name list (\<open>strarray_split\<close> with
  \<open>STRARRAY_TRIM\<close> is not part of these sources): the names between the separators "|",
  white space around each removed, empty names left out.
\<close>

fun split_sep :: "string \<Rightarrow> string \<Rightarrow> string list" where
  "split_sep cur [] = [cur]"
| "split_sep cur (c # cs) =
     (if c = CHR ''|'' then cur # split_sep [] cs else split_sep (cur @ [c]) cs)"

definition trim :: "string \<Rightarrow> string" where
  "trim s = rev (dropWhile isspace (rev (dropWhile isspace s)))"

definition strarray_split :: "string \<Rightarrow> string list" where
  "strarray_split subf = filter (\<lambda>s. s \<noteq> []) (map trim (split_sep [] subf))"

text \<open>
  The loop over the configured names: a name whose user mailbox is the target sets the
  flag; the loop ends as soon as the flag is set.
\<close>

fun folder_listed :: "env \<Rightarrow> string \<Rightarrow> string \<Rightarrow> bool \<Rightarrow> string list \<Rightarrow> bool" where
  "folder_listed e userid internalname createsievefolder [] = createsievefolder"
| "folder_listed e userid internalname createsievefolder (name # rest) =
     (let foldername = mboxname_user_mbox (ans e) userid name;
          createsievefolder' = (if foldername = internalname then True else createsievefolder)
      in if createsievefolder' then createsievefolder'
         else folder_listed e userid internalname createsievefolder' rest)"

definition autosieve_createfolder ::
  "env \<Rightarrow> string option \<Rightarrow> string option \<Rightarrow> bool \<Rightarrow> world \<Rightarrow> rc \<times> world" where
  "autosieve_createfolder e userid internalname createsievefolder w =
     (case (userid, internalname) of
        (Some user, Some iname) \<Rightarrow>
          (let w1 = emit (Ev_syslog
                      ''autosievefolder: autosieve_createfolder() was called for user %s, folder %s''
                      [user, iname]) w;
               create =
                 (if config_anysievefolder (cfg e) then True
                  else (case config_autocreate_sieve_folders (cfg e) of
                          Some subf \<Rightarrow> folder_listed e user iname createsievefolder (strarray_split subf)
                        | None \<Rightarrow> createsievefolder))
           in if create then
                (case mboxlist_createmailbox e iname w1 of
                   (r, w2) \<Rightarrow>
                     if r = SIEVE_OK then
                       (SIEVE_OK,
                        emit (Ev_syslog ''autosievefolder: User %s, folder %s creation succeeded''
                                [user, iname])
                          (emit (Ev_changesub iname) w2))
                     else
                       (r, emit (Ev_syslog ''autosievefolder: User %s, folder %s creation failed. %s''
                                   [user, iname, error_message (ans e) r]) w2))
              else (IMAP_MAILBOX_NONEXISTENT, w1))
      | _ \<Rightarrow> (IMAP_MAILBOX_NONEXISTENT, w))"

subsection \<open>Fileinto and keep\<close>

record sieve_fileinto_context =
  fc_mailbox :: string
  fc_specialuse :: "string option"
  fc_do_create :: bool
  fc_imapflags :: "string list"

text \<open>The target: the special-use folder when one is asked for and exists, else the named folder.\<close>

definition fileinto_target :: "env \<Rightarrow> sieve_fileinto_context \<Rightarrow> string option \<Rightarrow> world \<Rightarrow> string" where
  "fileinto_target e fc userid w =
     (case fc_specialuse fc of
        Some su \<Rightarrow>
          if mboxlist_lookup (mboxname_from_external (ans e) su userid) w = SIEVE_OK
          then mboxname_from_external (ans e) su userid
          else mboxname_from_external (ans e) (fc_mailbox fc) userid
      | None \<Rightarrow> mboxname_from_external (ans e) (fc_mailbox fc) userid)"

text \<open>The special-use annotation of a newly created folder, when the use validates.\<close>

definition annotate_specialuse :: "env \<Rightarrow> sieve_fileinto_context \<Rightarrow> string \<Rightarrow> world \<Rightarrow> world" where
  "annotate_specialuse e fc intname w =
     (case fc_specialuse fc of
        None \<Rightarrow> w
      | Some su \<Rightarrow>
          (case specialuse_validate (ans e) su of
             Some specialuse \<Rightarrow> annotatemore_write intname specialuse w
           | None \<Rightarrow> w))"

text \<open>
  The part of \<open>sieve_fileinto\<close> between setting up and cleaning up the message: the
  delivery, and after "mailbox does not exist" the autocreation and, when that succeeds,
  the annotation and the second delivery.
\<close>

definition fileinto_deliver ::
  "env \<Rightarrow> sieve_fileinto_context \<Rightarrow> string option \<Rightarrow> deliver_data \<Rightarrow> string \<Rightarrow> world
     \<Rightarrow> rc \<times> world" where
  "fileinto_deliver e fc userid mdata intname w =
     (case deliver_mailbox e (dd_stage mdata) (m_f (dd_m mdata)) intname w of
        (ret, w2) \<Rightarrow>
          if ret = IMAP_MAILBOX_NONEXISTENT then
            (case autosieve_createfolder e userid (Some intname) (fc_do_create fc) w2 of
               (ret', w3) \<Rightarrow>
                 if ret' = SIEVE_OK
                 then deliver_mailbox e (dd_stage mdata) (m_f (dd_m mdata)) intname
                        (annotate_specialuse e fc intname w3)
                 else (ret', w3))
          else (ret, w2))"

definition sieve_fileinto ::
  "env \<Rightarrow> sieve_fileinto_context \<Rightarrow> script_data \<Rightarrow> deliver_data \<Rightarrow> world
     \<Rightarrow> rc \<times> errmsg option \<times> world" where
  "sieve_fileinto e fc sd mdata w =
     (let userid = mbname_userid (sd_mbname sd) in
      case (if sd_edited_header sd then setup_special_delivery e mdata w else (Some mdata, w)) of
        (None, w1) \<Rightarrow> (SIEVE_FAIL, None, w1)
      | (Some mdata', w1) \<Rightarrow>
          (case fileinto_deliver e fc userid mdata' (fileinto_target e fc userid w1) w1 of
             (ret, w4) \<Rightarrow>
               (let w5 = (if sd_edited_header sd then cleanup_special_delivery mdata' w4 else w4)
                in if ret = SIEVE_OK then (SIEVE_OK, None, w5)
                   else (SIEVE_FAIL, Some (Error_message ret), w5))))"



subsection \<open>Vacation: sending the response\<close>

record sieve_send_response_context =
  src_addr :: string
  src_fromaddr :: string
  src_subj :: string
  src_msg :: string
  src_mime :: bool
  src_fcc :: "sieve_fileinto_context option"

text \<open>
  \<open>do_fcc\<close>: a copy of the reply into the fcc mailbox, created on the way when the
  autocreate policy allows.  Failures are only logged.
\<close>

definition do_fcc ::
  "env \<Rightarrow> script_data \<Rightarrow> sieve_fileinto_context \<Rightarrow> string \<Rightarrow> string \<Rightarrow> string \<Rightarrow> world \<Rightarrow> world" where
  "do_fcc e sdata fcc header msg footer w =
     (let userid = mbname_userid (sd_mbname sdata);
          intname = fileinto_target e fcc userid w
      in case (if mboxlist_lookup intname w = IMAP_MAILBOX_NONEXISTENT then
                 (case autosieve_createfolder e userid (Some intname) (fc_do_create fcc) w of
                    (r, w1) \<Rightarrow>
                      if r = SIEVE_OK then (r, annotate_specialuse e fcc intname w1) else (r, w1))
               else (mboxlist_lookup intname w, w)) of
           (r1, w2) \<Rightarrow>
             (let r2 = (if r1 = SIEVE_OK then append_setup_r (ans e) else r1)
              in case (if r2 = SIEVE_OK then
                         (if newstage_ok (ans e) then
                            (let w3 = emit (Ev_newstage Fcc_stage) w2;
                                 w4 = emit (Ev_append_fromstage intname (header @ msg @ footer)) w3;
                                 r3 = (if append_fromstage_r (ans e) = SIEVE_OK
                                       then append_commit_r (ans e) else append_fromstage_r (ans e))
                             in (r3, emit (Ev_removestage Fcc_stage) w4))
                          else (r2, w2))
                       else (r2, w2)) of
                   (r4, w5) \<Rightarrow>
                     if r4 \<noteq> SIEVE_OK
                     then emit (Ev_syslog (''sieve fcc '' @ [CHR 0x27] @ ''%s'' @ [CHR 0x27] @ '' failed: %s'')
                                  [fc_mailbox fcc, error_message (ans e) r4]) w5
                     else w5))"

text \<open>\<open>Uiscntrl\<close>: the subject is cut at its first control character.\<close>

definition iscntrl :: "char \<Rightarrow> bool" where
  "iscntrl c \<longleftrightarrow> (of_char c :: nat) < 32 \<or> (of_char c :: nat) = 127"

definition response_header :: "env \<Rightarrow> sieve_send_response_context \<Rightarrow> message_data \<Rightarrow> string \<Rightarrow> int \<Rightarrow> string" where
  "response_header e src md outmsgid t =
     ''Message-ID: '' @ outmsgid @ CRLF
     @ ''Date: '' @ time_to_rfc5322 (ans e) t @ CRLF
     @ ''X-Sieve: '' @ SIEVE_VERSION (cfg e) @ CRLF
     @ (if CHR ''<'' \<in> set (src_fromaddr src) then ''From: '' @ src_fromaddr src @ CRLF
        else ''From: <'' @ src_fromaddr src @ ''>'' @ CRLF)
     @ ''To: <'' @ src_addr src @ ''>'' @ CRLF
     @ ''Subject: ''
       @ charset_encode_mimeheader (ans e) (takeWhile (\<lambda>c. \<not> iscntrl c) (src_subj src)) @ CRLF
     @ (case m_id md of None \<Rightarrow> [] | Some i \<Rightarrow> ''In-Reply-To: '' @ i @ CRLF)
     @ ''Auto-Submitted: auto-replied (vacation)'' @ CRLF
     @ ''MIME-Version: 1.0'' @ CRLF
     @ (if src_mime src then
          ''Content-Type: multipart/mixed;'' @ CRLF
          @ [HTAB] @ ''boundary='' @ [CHR 0x22] @ mime_boundary e @ [CHR 0x22] @ CRLF
          @ CRLF
          @ ''This is a MIME-encapsulated message'' @ CRLF
          @ CRLF @ ''--'' @ mime_boundary e @ CRLF
        else
          ''Content-Type: text/plain; charset=utf-8'' @ CRLF
          @ ''Content-Transfer-Encoding: 8bit'' @ CRLF
          @ CRLF)"

definition response_footer :: "env \<Rightarrow> sieve_send_response_context \<Rightarrow> string" where
  "response_footer e src =
     CRLF @ (if src_mime src then CRLF @ ''--'' @ mime_boundary e @ ''--'' @ CRLF else [])"

definition send_response ::
  "env \<Rightarrow> sieve_send_response_context \<Rightarrow> sieve_interp_ctx \<Rightarrow> script_data \<Rightarrow> deliver_data
     \<Rightarrow> int \<Rightarrow> world \<Rightarrow> fault + (rc \<times> errmsg option \<times> world)" where
  "send_response e src ctx sdata mc t w =
     (let md = dd_m mc;
          sm_env = smtp_envelope_add_rcpt (src_addr src)
                     (smtp_envelope_set_from ''<>'' SMTP_ENVELOPE_INITIALIZER);
          outmsgid = outgoing_msgid e t (global_outgoing_count w);
          w1 = w\<lparr>global_outgoing_count := global_outgoing_count w + 1\<rparr>;
          header = response_header e src md outmsgid t;
          footer = response_footer e src;
          msgbuf = header @ src_msg src @ footer;
          r = (if smtpclient_open_r (ans e) = SIEVE_OK then smtpclient_send_r (ans e)
               else smtpclient_open_r (ans e));
          w2 = (if smtpclient_open_r (ans e) = SIEVE_OK
                then emit (Ev_smtp_send (ctx_userid ctx) sm_env msgbuf) w1 else w1)
      in if r = SIEVE_OK then
           (case mbname_userid (sd_mbname sdata) of
              None \<Rightarrow> Inl NullDeref
            | Some user \<Rightarrow>
                (let dkey = DUPLICATE_INITIALIZER\<lparr>dk_id := Some outmsgid,
                                                   dk_to := Some (make_sieve_db e user),
                                                   dk_date := m_date md\<rparr>;
                     w3 = duplicate_mark dkey t w2;
                     w4 = (case src_fcc src of
                             Some fcc \<Rightarrow> do_fcc e sdata fcc header (src_msg src) footer w3
                           | None \<Rightarrow> w3)
                 in Inr (SIEVE_OK, None, w4)))
         else Inr (SIEVE_FAIL, Some (Error_message r), w2))"

text \<open>
  Modelled from the spec: the vacation action as the script engine runs it (the engine is
  not part of these sources): the autorespond and send\_response pair, the response being
  composed and sent when autorespond allows it and not when it suppresses.
\<close>

definition vacation ::
  "env \<Rightarrow> sieve_autorespond_context \<Rightarrow> sieve_send_response_context \<Rightarrow> sieve_interp_ctx
     \<Rightarrow> script_data \<Rightarrow> deliver_data \<Rightarrow> int \<Rightarrow> world \<Rightarrow> fault + (rc \<times> errmsg option \<times> world)" where
  "vacation e arc src ctx sd mc now w =
     (case autorespond arc sd now w of
        (ret, w1) \<Rightarrow>
          if ret = SIEVE_OK then send_response e src ctx sd mc now w1
          else Inr (ret, None, w1))"

subsection \<open>Included scripts\<close>

text \<open>
  \<open>snprintf(fname+len, size-len, ...)\<close>: \<open>fname\<close> is the buffer content and \<open>len\<close> the
  length the path would have without truncation.
\<close>

definition snprintf_at :: "string \<times> nat \<Rightarrow> nat \<Rightarrow> string \<Rightarrow> fault + (string \<times> nat)" where
  "snprintf_at st sz text =
     (case st of (fname, len) \<Rightarrow>
        if sz < len then Inl BufferOverrun
        else Inr (take (sz - 1) (fname @ text), len + length text))"

text \<open>\<open>ext = strrchr(fname, '.'); if (ext && !strcmp(ext, ".bc")) sieve_rebuild(...)\<close>\<close>

definition rebuild_bc :: "string \<Rightarrow> world \<Rightarrow> world" where
  "rebuild_bc fname w =
     (if 3 \<le> length fname \<and> drop (length fname - 3) fname = ''.bc''
      then emit (Ev_rebuild fname) w else w)"

text \<open>The static \<open>sieve_dir\<close> as \<open>setup_sieve\<close> sets it.\<close>

definition sieve_dir :: "env \<Rightarrow> string option" where
  "sieve_dir e = (if config_sieveusehomedir (cfg e) then None else config_sievedir (cfg e))"

definition sieve_find_script ::
  "env \<Rightarrow> string option \<Rightarrow> string option \<Rightarrow> string option \<Rightarrow> nat \<Rightarrow> world
     \<Rightarrow> fault + (rc \<times> string option \<times> world)" where
  "sieve_find_script e user domain script sz w =
     (if user = None \<and> script = None then Inr (ERR (- 1), None, w)
      else if (case user of Some u \<Rightarrow> 900 < length u | None \<Rightarrow> False) then Inr (ERR (- 1), None, w)
      else
        (case (if config_sieveusehomedir (cfg e) then user else None) of
           Some u \<Rightarrow>
             (case getpwnam (ans e) u of
                None \<Rightarrow> Inr (ERR (- 1), None, emit (Ev_getpwnam u) w)
              | Some pw_dir \<Rightarrow>
                  (let fname = snprintf sz
                         (pw_dir @ ''/'' @ (case script of Some s \<Rightarrow> s | None \<Rightarrow> ''.sieve''))
                   in Inr (SIEVE_OK, Some fname, rebuild_bc fname (emit (Ev_getpwnam u) w))))
         | None \<Rightarrow>
             (case sieve_dir e of
                None \<Rightarrow> Inl NullDeref
              | Some dir \<Rightarrow>
                  (case (case domain of
                           Some d \<Rightarrow>
                             snprintf_at (take (sz - 1) dir, length dir) sz
                               (FNAME_DOMAINDIR (cfg e) @ [dir_hash_c (ans e) d] @ ''/'' @ d)
                         | None \<Rightarrow> Inr (take (sz - 1) dir, length dir)) of
                     Inl flt \<Rightarrow> Inl flt
                   | Inr (fname1, len1) \<Rightarrow>
                       (case user of
                          None \<Rightarrow>
                            (case snprintf_at (strlcat fname1 ''/global/'' sz, length fname1 + 8)
                                    sz (printf_s script @ ''.bc'') of
                               Inl flt \<Rightarrow> Inl flt
                             | Inr (fname2, len2) \<Rightarrow> Inr (SIEVE_OK, Some fname2, rebuild_bc fname2 w))
                        | Some u \<Rightarrow>
                            (case snprintf_at (fname1, len1) sz
                                    (''/'' @ [dir_hash_c (ans e) u] @ ''/'' @ u @ ''/'') of
                               Inl flt \<Rightarrow> Inl flt
                             | Inr (fname2, len2) \<Rightarrow>
                                 (case script of
                                    None \<Rightarrow>
                                      (let fname3 = strlcat fname2 ''defaultbc'' sz
                                       in Inr (SIEVE_OK, Some fname3,
                                               (case sieve_getdefaultbcfname (ans e) fname3 of
                                                  Some bc_fname \<Rightarrow> emit (Ev_rebuild bc_fname) w
                                                | None \<Rightarrow> w)))
                                  | Some s \<Rightarrow>
                                      (case snprintf_at (fname2, len2) sz (s @ ''.bc'') of
                                         Inl flt \<Rightarrow> Inl flt
                                       | Inr (fname3, len3) \<Rightarrow>
                                           Inr (SIEVE_OK, Some fname3, rebuild_bc fname3 w)))))))))"

definition getinclude ::
  "env \<Rightarrow> script_data \<Rightarrow> string \<Rightarrow> bool \<Rightarrow> nat \<Rightarrow> world \<Rightarrow> fault + (rc \<times> string option \<times> world)" where
  "getinclude e sdata script isglobal sz w =
     (if strstr script ''../'' then
        Inr (SIEVE_FAIL, None,
             emit (Ev_syslog (''Illegal script name '' @ [CHR 0x27] @ ''%s'' @ [CHR 0x27]
                              @ '' for user '' @ [CHR 0x27] @ ''%s'' @ [CHR 0x27])
                     [script, printf_s (mbname_userid (sd_mbname sdata))]) w)
      else
        (case sieve_find_script e
                (if isglobal then None else mbname_localpart (sd_mbname sdata))
                (mbname_domain (sd_mbname sdata)) (Some script) sz w of
           Inl flt \<Rightarrow> Inl flt
         | Inr (r, fname, w1) \<Rightarrow>
             if r = SIEVE_OK \<and> isglobal \<and> mbname_domain (sd_mbname sdata) \<noteq> None then
               (case fname of
                  None \<Rightarrow> Inr (r, fname, w1)
                | Some fn \<Rightarrow>
                    if file_exists (ans e) fn then Inr (r, fname, emit (Ev_stat fn) w1)
                    else sieve_find_script e None None (Some script) sz (emit (Ev_stat fn) w1))
             else Inr (r, fname, w1)))"

subsection \<open>Discard and notify\<close>

definition sieve_discard :: "env \<Rightarrow> deliver_data \<Rightarrow> world \<Rightarrow> rc \<times> world" where
  "sieve_discard e mc w =
     (let md = dd_m mc;
          w1 = emit (Ev_syslog ''sieve discarded: %s'' [id_or_nomsgid md]) w;
          w2 = (if config_auditlog (cfg e)
                then emit (Ev_syslog ''auditlog: discard sessionid=<%s> message-id=%s''
                             [session_id (ans e), id_or_nomsgid md]) w1
                else w1)
      in (SIEVE_OK, w2))"

record sieve_notify_context =
  nc_method :: string
  nc_priority :: string
  nc_options :: "string list"
  nc_message :: string

text \<open>The method "default" stands for the configured notifier; without one nothing is done.\<close>

definition sieve_notify :: "env \<Rightarrow> sieve_notify_context \<Rightarrow> script_data \<Rightarrow> world \<Rightarrow> rc \<times> world" where
  "sieve_notify e nc sd w =
     (case config_sievenotifier (cfg e) of
        Some notifier \<Rightarrow>
          (SIEVE_OK,
           emit (Ev_notify (if nc_method nc = ''default'' then notifier else nc_method nc)
                   (nc_priority nc) (nc_options nc) (nc_message nc)) w)
      | None \<Rightarrow> (SIEVE_OK, w))"

section \<open>Observations and example data\<close>

text \<open>The outbound sends, mailbox deliveries and create calls among the recorded calls.\<close>

fun is_smtp_send :: "event \<Rightarrow> bool" where
  "is_smtp_send (Ev_smtp_send u sm_env msgbuf) = True"
| "is_smtp_send ev = False"

definition smtp_sends :: "world \<Rightarrow> event list" where
  "smtp_sends w = filter is_smtp_send (trace w)"

fun is_deliver_mailbox :: "event \<Rightarrow> bool" where
  "is_deliver_mailbox (Ev_deliver_mailbox stage name content) = True"
| "is_deliver_mailbox ev = False"

fun is_createmailbox :: "event \<Rightarrow> bool" where
  "is_createmailbox (Ev_createmailbox name) = True"
| "is_createmailbox ev = False"

text \<open>The calls a handler added to the record.\<close>

definition new_calls :: "world \<Rightarrow> world \<Rightarrow> event list" where
  "new_calls w w' = drop (length (trace w)) (trace w')"

definition example_cfg :: config where
  "example_cfg =
     \<lparr>MAX_MAILBOX_PATH = 4096, FNAME_DOMAINDIR = ''/domain/'', CYRUS_VERSION = ''3.0'',
      SIEVE_VERSION = ''CMU Sieve 3.0'', config_servername = ''mail.example.org'',
      config_auditlog = False, config_postmaster = ''postmaster'',
      config_sieve_use_lmtp_reject = True, config_anysievefolder = False,
      config_autocreate_sieve_folders = Some ''Junk | Lists'', config_sievenotifier = None,
      config_sieveusehomedir = False, config_sievedir = Some ''/var/lib/sieve''\<rparr>"

definition example_ans :: answers where
  "example_ans =
     \<lparr>getpid = 4711, session_id = ''s1'', time_to_rfc5322 = (\<lambda>t. ''Thu, 01 Jan 1970 00:00:00 +0000''),
      smtpclient_open_r = SIEVE_OK, smtpclient_send_r = SIEVE_OK,
      sieve_srs_forward = (\<lambda>rp. None), addrbook_members = (\<lambda>l u. None),
      newstage_ok = True, deliver_r = (\<lambda>n. SIEVE_OK), deliver_local_r = SIEVE_OK,
      createmailbox_r = (\<lambda>n. SIEVE_OK), append_setup_r = SIEVE_OK,
      append_fromstage_r = SIEVE_OK, append_commit_r = SIEVE_OK,
      specialuse_validate = (\<lambda>s. Some s),
      mboxname_from_external = (\<lambda>n u. ''user.'' @ printf_s u @ ''.'' @ n),
      mboxname_user_mbox = (\<lambda>u n. ''user.'' @ u @ ''.'' @ n),
      charset_qpencode_mimebody = (\<lambda>s. s), charset_encode_mimeheader = (\<lambda>s. s),
      dir_hash_c = (\<lambda>s. case s of [] \<Rightarrow> CHR ''q'' | c # cs \<Rightarrow> c),
      getpwnam = (\<lambda>u. None), sieve_getdefaultbcfname = (\<lambda>f. None),
      file_exists = (\<lambda>f. True),
      error_message = (\<lambda>r. if r = IMAP_MAILBOX_NONEXISTENT then ''Mailbox does not exist''
                           else ''Unknown error'')\<rparr>"

definition example_env :: env where
  "example_env = \<lparr>cfg = example_cfg, ans = example_ans\<rparr>"

definition example_sd :: script_data where
  "example_sd = \<lparr>sd_mbname = \<lparr>mbname_userid = Some ''ann'', mbname_localpart = Some ''ann'',
                                  mbname_domain = None\<rparr>,
                  sd_edited_header = False\<rparr>"

definition example_m :: message_data where
  "example_m =
     \<lparr>m_id = Some ''<m1@example.org>'', m_return_path = Some ''carl@example.com'',
      m_date = Some ''Thu, 01 Jan 1970 00:00:00 +0000'',
      m_f = ''Subject: hi'' @ CRLF @ CRLF @ ''text'' @ CRLF, m_body_offset = 13, m_size = 21,
      m_hdrcache = [(''Subject'', ''hi'')], m_rcpt_status = Map.empty\<rparr>"

definition example_mc :: deliver_data where
  "example_mc = \<lparr>dd_m = example_m, dd_cur_rcpt = 0, dd_stage = Inbound_stage,
                  dd_authuser = None, dd_notifyheader = None\<rparr>"

definition example_ctx :: sieve_interp_ctx where
  "example_ctx = \<lparr>ctx_userid = Some ''ann''\<rparr>"

definition empty_world :: world where
  "empty_world = \<lparr>dupdb = Map.empty, mboxlist = [], trace = [], global_outgoing_count = 0\<rparr>"

fun is_syslog :: "event \<Rightarrow> bool" where
  "is_syslog (Ev_syslog fmt args) = True"
| "is_syslog ev = False"

definition example_rc :: sieve_redirect_context where
  "example_rc = \<lparr>rc_addr = ''bob@example.net'', rc_is_ext_list = False\<rparr>"

definition example_key :: duplicate_key where
  "example_key = \<lparr>dk_id = Some ''<m1@example.org>-bob@example.net'', dk_to = Some ''.ann.sieve.'',
                  dk_date = Some ''Thu, 01 Jan 1970 00:00:00 +0000''\<rparr>"

definition example_rjc :: sieve_reject_context where
  "example_rjc = \<lparr>rjc_msg = ''go away'' @ CRLF @ ''spammer'', rjc_is_extended = False\<rparr>"

definition example_rjc_8bit :: sieve_reject_context where
  "example_rjc_8bit = \<lparr>rjc_msg = [CHR 0xC3, CHR 0xA9], rjc_is_extended = False\<rparr>"

text \<open>A text made of lines: the lines joined by CRLF.\<close>

fun join_crlf :: "string list \<Rightarrow> string" where
  "join_crlf [] = []"
| "join_crlf [l] = l"
| "join_crlf (l # ls) = l @ CRLF @ join_crlf ls"

text \<open>A reason of three lines, the second one empty.\<close>

definition example_rjc_blank :: sieve_reject_context where
  "example_rjc_blank = \<lparr>rjc_msg = ''go away'' @ CRLF @ CRLF @ ''spammer'', rjc_is_extended = False\<rparr>"

text \<open>The numbers of mailbox deliveries and of create calls recorded so far.\<close>

definition deliver_mailbox_calls :: "world \<Rightarrow> nat" where
  "deliver_mailbox_calls w = length (filter is_deliver_mailbox (trace w))"

definition createmailbox_calls :: "world \<Rightarrow> nat" where
  "createmailbox_calls w = length (filter is_createmailbox (trace w))"

text \<open>
  The autocreate policy in the words of the spec: a global "any folder" override, or the
  target matches a configured auto-create name, or the per-rule create flag.
\<close>

definition autocreate_policy :: "env \<Rightarrow> sieve_fileinto_context \<Rightarrow> string \<Rightarrow> string \<Rightarrow> bool" where
  "autocreate_policy e fc user intname \<longleftrightarrow>
     config_anysievefolder (cfg e)
     \<or> (case config_autocreate_sieve_folders (cfg e) of
           Some subf \<Rightarrow> list_ex (\<lambda>name. mboxname_user_mbox (ans e) user name = intname)
                          (strarray_split subf)
         | None \<Rightarrow> False)
     \<or> fc_do_create fc"

text \<open>
  Whether \<open>autosieve_createfolder\<close> goes on to the create: the script has an owner and the
  policy holds for the owner's folder.
\<close>

definition autocreate_attempt :: "env \<Rightarrow> sieve_fileinto_context \<Rightarrow> string option \<Rightarrow> string \<Rightarrow> bool" where
  "autocreate_attempt e fc userid intname \<longleftrightarrow>
     (case userid of None \<Rightarrow> False | Some user \<Rightarrow> autocreate_policy e fc user intname)"

definition example_fc :: sieve_fileinto_context where
  "example_fc = \<lparr>fc_mailbox = ''Lists'', fc_specialuse = None, fc_do_create = False, fc_imapflags = []\<rparr>"

text \<open>A mailbox store that refuses every create.\<close>

definition refusing_env :: env where
  "refusing_env = example_env\<lparr>ans := example_ans\<lparr>createmailbox_r := (\<lambda>n. ERR 13)\<rparr>\<rparr>"




text \<open>
  Fold points in the words of the spec.  An existing fold point of a header text is a
  HTAB, or a SP that is followed by a SP.
\<close>

definition fold_mark :: "string \<Rightarrow> nat \<Rightarrow> bool" where
  "fold_mark m i \<longleftrightarrow>
     i < length m \<and> (m ! i = HTAB \<or> (m ! i = SP \<and> Suc i < length m \<and> m ! Suc i = SP))"

text \<open>An executable test for a fold mark anywhere in a text.\<close>

fun has_mark :: "string \<Rightarrow> bool" where
  "has_mark [] = False"
| "has_mark (c # cs) = (c = HTAB \<or> (c = SP \<and> cs \<noteq> [] \<and> hd cs = SP) \<or> has_mark cs)"

definition example_value :: string where
  "example_value = ''aaaaaaaaaaaaaaaaaaaaaaaaaaaaaaaaaaaaaaaaaaaaaaaaaaaaaaaaaaaa bbbbbbbbbbbbbb cccccccccccccccccccccccc''"

text \<open>A value whose only SP comes after 80 other bytes.\<close>

definition example_long_word :: string where
  "example_long_word = ''xxxxxxxxxxxxxxxxxxxxxxxxxxxxxxxxxxxxxxxxxxxxxxxxxxxxxxxxxxxxxxxxxxxxxxxxxxxxxxxx yyyyyyyyyy''"




text \<open>
  The script of a shared mailbox: \<open>run_sieve\<close> runs it with a mailbox name that has no
  user id.
\<close>

definition shared_sd :: script_data where
  "shared_sd = \<lparr>sd_mbname = \<lparr>mbname_userid = None, mbname_localpart = None,
                                 mbname_domain = None\<rparr>,
                 sd_edited_header = False\<rparr>"

definition example_dtc :: sieve_duplicate_context where
  "example_dtc = \<lparr>dtc_id = ''k1'', dtc_seconds = 60\<rparr>"

text \<open>The script of a second recipient of the same message.\<close>

definition example_sd_bob :: script_data where
  "example_sd_bob = \<lparr>sd_mbname = \<lparr>mbname_userid = Some ''bob'', mbname_localpart = Some ''bob'',
                                      mbname_domain = None\<rparr>,
                      sd_edited_header = False\<rparr>"

definition example_ctx_bob :: sieve_interp_ctx where
  "example_ctx_bob = \<lparr>ctx_userid = Some ''bob''\<rparr>"

section \<open>Properties\<close>

lemma make_sieve_db_ann: "make_sieve_db example_env ''ann'' = ''.ann.sieve.''"
  by (simp add: make_sieve_db_def strlcat_def example_env_def example_cfg_def)

lemma strstr_iff: "strstr hay needle \<longleftrightarrow> (\<exists>ps ss. hay = ps @ needle @ ss)"
proof (induction hay)
  case Nil
  then show ?case by auto
next
  case (Cons c cs)
  show ?case
  proof
    assume "strstr (c # cs) needle"
    then consider "take (length needle) (c # cs) = needle" | "strstr cs needle" by auto
    then show "\<exists>ps ss. c # cs = ps @ needle @ ss"
    proof cases
      case 1
      then have "c # cs = [] @ needle @ drop (length needle) (c # cs)"
        by (metis append_Nil append_take_drop_id)
      then show ?thesis by blast
    next
      case 2
      with Cons.IH obtain ps ss where "cs = ps @ needle @ ss" by auto
      then have "c # cs = (c # ps) @ needle @ ss" by simp
      then show ?thesis by blast
    qed
  next
    assume "\<exists>ps ss. c # cs = ps @ needle @ ss"
    then obtain ps ss where eq: "c # cs = ps @ needle @ ss" by auto
    show "strstr (c # cs) needle"
    proof (cases ps)
      case Nil
      with eq have "take (length needle) (c # cs) = needle" by simp
      then show ?thesis by simp
    next
      case (Cons p ps')
      with eq have "cs = ps' @ needle @ ss" by simp
      with Cons.IH have "strstr cs needle" by blast
      then show ?thesis by simp
    qed
  qed
qed

text \<open>
  C8.  A script that has no owner (the script of a shared mailbox) gets no answer from
  either handler: both hand the NULL user id to \<open>make_sieve_db\<close>, whose \<open>strlcat\<close> reads
  through it, so the duplicate check yields neither "duplicate" nor "not a duplicate" and
  the duplicate track marks nothing.
\<close>

theorem sieve_duplicate_no_owner:
  "sieve_duplicate_check example_env example_dtc shared_sd 100 empty_world = Inl NullDeref
   \<and> sieve_duplicate_track example_env example_dtc shared_sd 100 empty_world = Inl NullDeref"
  by (simp add: sieve_duplicate_check_def sieve_duplicate_track_def shared_sd_def)

text \<open>
  With a script owner and a clock that is not before the epoch the two handlers do what is
  expected of them: sieve\_duplicate\_check answers 1 exactly when the ledger holds a
  record for the caller's id (under the sieve database name of the owner, with empty
  date) whose expiry is strictly greater than now, and leaves the ledger as it is;
  sieve\_duplicate\_track marks that key with now + seconds whatever the ledger held.
\<close>

lemma sieve_duplicate_check_track_owner:
  assumes "mbname_userid (sd_mbname sd) = Some user" and "0 \<le> now"
  shows "(\<exists>w'. sieve_duplicate_check e dtc sd now w =
            Inr ((if (\<exists>t. dupdb w \<lparr>dk_id = Some (dtc_id dtc), dk_to = Some (make_sieve_db e user),
                                    dk_date = Some ''''\<rparr> = Some t \<and> now < t) then 1 else 0), w')
          \<and> dupdb w' = dupdb w \<and> mboxlist w' = mboxlist w)
       \<and> sieve_duplicate_track e dtc sd now w =
            Inr (SIEVE_OK, w\<lparr>dupdb := (dupdb w)(\<lparr>dk_id = Some (dtc_id dtc),
                   dk_to = Some (make_sieve_db e user), dk_date = Some ''''\<rparr> \<mapsto> now + dtc_seconds dtc)\<rparr>)"
  using assms
  by (auto simp: sieve_duplicate_check_def sieve_duplicate_track_def duplicate_check_def
      duplicate_mark_def duplicate_log_def emit_def Let_def duplicate_ext_key_def
      DUPLICATE_INITIALIZER_def split: option.splits)

lemma sieve_duplicate_check_track_owner_example:
  "sieve_duplicate_track example_env \<lparr>dtc_id = ''k1'', dtc_seconds = 60\<rparr> example_sd 100 empty_world =
     Inr (SIEVE_OK, empty_world\<lparr>dupdb := [\<lparr>dk_id = Some ''k1'', dk_to = Some ''.ann.sieve.'', dk_date = Some ''''\<rparr> \<mapsto> 160]\<rparr>)
   \<and> (\<exists>w'. sieve_duplicate_check example_env \<lparr>dtc_id = ''k1'', dtc_seconds = 60\<rparr> example_sd 159
             (empty_world\<lparr>dupdb := [\<lparr>dk_id = Some ''k1'', dk_to = Some ''.ann.sieve.'', dk_date = Some ''''\<rparr> \<mapsto> 160]\<rparr>) = Inr (1, w'))
   \<and> (\<exists>w'. sieve_duplicate_check example_env \<lparr>dtc_id = ''k1'', dtc_seconds = 60\<rparr> example_sd 160
             (empty_world\<lparr>dupdb := [\<lparr>dk_id = Some ''k1'', dk_to = Some ''.ann.sieve.'', dk_date = Some ''''\<rparr> \<mapsto> 160]\<rparr>) = Inr (0, w'))"
proof -
  have u: "mbname_userid (sd_mbname example_sd) = Some ''ann''" by (simp add: example_sd_def)
  note a = sieve_duplicate_check_track_owner [OF u, of 100 example_env "\<lparr>dtc_id = ''k1'', dtc_seconds = 60\<rparr>" empty_world]
  note b = sieve_duplicate_check_track_owner [OF u, of 159 example_env "\<lparr>dtc_id = ''k1'', dtc_seconds = 60\<rparr>"
     "empty_world\<lparr>dupdb := [\<lparr>dk_id = Some ''k1'', dk_to = Some ''.ann.sieve.'', dk_date = Some ''''\<rparr> \<mapsto> 160]\<rparr>"]
  note c = sieve_duplicate_check_track_owner [OF u, of 160 example_env "\<lparr>dtc_id = ''k1'', dtc_seconds = 60\<rparr>"
     "empty_world\<lparr>dupdb := [\<lparr>dk_id = Some ''k1'', dk_to = Some ''.ann.sieve.'', dk_date = Some ''''\<rparr> \<mapsto> 160]\<rparr>"]
  show ?thesis using a b c by (auto simp: make_sieve_db_ann empty_world_def)
qed

text \<open>
  C10.  A script name that contains "../" makes getinclude fail at once: the result is
  SIEVE\_FAIL, no file name is computed, and the only call made is the log entry (no
  password, file system or rebuild call).  Hence whenever getinclude yields a file name,
  the script name contains no "../".
\<close>

theorem getinclude_rejects_parent_path:
  "((\<exists>ps ss. script = ps @ ''../'' @ ss) \<longrightarrow>
      (\<exists>logline. getinclude e sdata script isglobal sz w =
         Inr (SIEVE_FAIL, None, w\<lparr>trace := trace w @ [Ev_syslog logline
                [script, printf_s (mbname_userid (sd_mbname sdata))]]\<rparr>)))
   \<and> (\<forall>r fname w'. getinclude e sdata script isglobal sz w = Inr (r, Some fname, w') \<longrightarrow>
         \<not> (\<exists>ps ss. script = ps @ ''../'' @ ss))"
proof -
  have a: "strstr script ''../'' \<Longrightarrow> \<exists>logline. getinclude e sdata script isglobal sz w =
         Inr (SIEVE_FAIL, None, w\<lparr>trace := trace w @ [Ev_syslog logline
                [script, printf_s (mbname_userid (sd_mbname sdata))]]\<rparr>)"
    unfolding getinclude_def emit_def by (simp only: if_True) blast
  show ?thesis using a unfolding strstr_iff [symmetric] by fastforce
qed

theorem getinclude_rejects_parent_path_witness:
  "(\<exists>logline. getinclude example_env example_sd ''a/../../etc/passwd'' False 4097 empty_world =
      Inr (SIEVE_FAIL, None, empty_world\<lparr>trace := [Ev_syslog logline [''a/../../etc/passwd'', ''ann'']]\<rparr>))
   \<and> getinclude example_env example_sd ''lists'' False 4097 empty_world =
      Inr (SIEVE_OK, Some ''/var/lib/sieve/a/ann/lists.bc'',
           empty_world\<lparr>trace := [Ev_rebuild ''/var/lib/sieve/a/ann/lists.bc'']\<rparr>)"
proof -
  have s: "\<exists>ps ss. ''a/../../etc/passwd'' = ps @ ''../'' @ ss"
    by (rule exI [of _ "''a/''"], rule exI [of _ "''../etc/passwd''"]) simp
  have g: "getinclude example_env example_sd ''lists'' False 4097 empty_world =
      Inr (SIEVE_OK, Some ''/var/lib/sieve/a/ann/lists.bc'',
           empty_world\<lparr>trace := [Ev_rebuild ''/var/lib/sieve/a/ann/lists.bc'']\<rparr>)"
    by (simp add: getinclude_def sieve_find_script_def example_env_def example_cfg_def
        example_ans_def example_sd_def empty_world_def sieve_dir_def snprintf_at_def
        rebuild_bc_def emit_def)
  from getinclude_rejects_parent_path [of "''a/../../etc/passwd''" example_env example_sd False 4097 empty_world] s
  have "\<exists>logline. getinclude example_env example_sd ''a/../../etc/passwd'' False 4097 empty_world =
         Inr (SIEVE_FAIL, None, empty_world\<lparr>trace := trace empty_world @ [Ev_syslog logline
                [''a/../../etc/passwd'', printf_s (mbname_userid (sd_mbname example_sd))]]\<rparr>)"
    by blast
  then show ?thesis using g by (simp add: example_sd_def empty_world_def printf_s_def)
qed

lemma emit_simps [simp]:
  "trace (emit ev w) = trace w @ [ev]"
  "dupdb (emit ev w) = dupdb w"
  "mboxlist (emit ev w) = mboxlist w"
  "global_outgoing_count (emit ev w) = global_outgoing_count w"
  by (simp_all add: emit_def)

lemma smtp_sends_emit [simp]:
  "smtp_sends (emit ev w) = (if is_smtp_send ev then smtp_sends w @ [ev] else smtp_sends w)"
  by (simp add: smtp_sends_def)

lemma duplicate_mark_simps [simp]:
  "trace (duplicate_mark k t w) = trace w"
  "dupdb (duplicate_mark k t w) = (dupdb w)(k \<mapsto> t)"
  "mboxlist (duplicate_mark k t w) = mboxlist w"
  "global_outgoing_count (duplicate_mark k t w) = global_outgoing_count w"
  "smtp_sends (duplicate_mark k t w) = smtp_sends w"
  by (simp_all add: duplicate_mark_def smtp_sends_def)

lemma duplicate_log_simps [simp]:
  "dupdb (duplicate_log k a w) = dupdb w"
  "smtp_sends (duplicate_log k a w) = smtp_sends w"
  "trace (duplicate_log k a w) = trace w @ [Ev_duplicate_log k a]"
  by (simp_all add: duplicate_log_def)

lemma new_calls_same [simp]: "new_calls w w = []"
  by (simp add: new_calls_def)

lemma new_calls_append: "trace w' = trace w @ evs \<Longrightarrow> new_calls w w' = evs"
  by (simp add: new_calls_def)

lemma setup_special_delivery_world:
  "setup_special_delivery e mdata w = (r, w1) \<Longrightarrow>
     dupdb w1 = dupdb w \<and> smtp_sends w1 = smtp_sends w \<and> mboxlist w1 = mboxlist w"
  by (auto simp: setup_special_delivery_def Let_def split: if_splits)

lemma cleanup_special_delivery_simps [simp]:
  "dupdb (cleanup_special_delivery mdata w) = dupdb w"
  "smtp_sends (cleanup_special_delivery mdata w) = smtp_sends w"
  "mboxlist (cleanup_special_delivery mdata w) = mboxlist w"
  "trace (cleanup_special_delivery mdata w) = trace w @ [Ev_removestage (dd_stage mdata)]"
  by (simp_all add: cleanup_special_delivery_def)

lemma send_forward_world:
  "send_forward e rc ctx return_path file w = (res, w1) \<Longrightarrow>
     dupdb w1 = dupdb w \<and> mboxlist w1 = mboxlist w
     \<and> (res = SIEVE_OK \<longrightarrow> (\<exists>ev. is_smtp_send ev \<and> smtp_sends w1 = smtp_sends w @ [ev]))"
  by (auto simp: send_forward_def Let_def split: if_splits option.splits)

lemma redirect_finish:
  assumes f: "send_forward e rc ctx (m_return_path (dd_m mdata')) (m_f (dd_m mdata')) w1 = (res, w2)"
    and r: "(case send_forward e rc ctx (m_return_path (dd_m mdata')) (m_f (dd_m mdata')) w1 of
             (res, w2) \<Rightarrow>
               (let w3 = (if sd_edited_header sd then cleanup_special_delivery mdata' w2 else w2)
                in if res = SIEVE_OK then
                     (let w4 = (case dk of Some dkey \<Rightarrow> duplicate_mark dkey now w3
                                | None \<Rightarrow> w3);
                          w5 = emit (Ev_syslog ''sieve redirected: %s to: %s''
                                       [id_or_nomsgid (dd_m mdata'), rc_addr rc]) w4;
                          w6 = (if config_auditlog (cfg e)
                                then emit (Ev_syslog
                                  ''auditlog: redirect sessionid=<%s> message-id=%s target=<%s>''
                                  [session_id (ans e), id_or_nomsgid (dd_m mdata'), rc_addr rc]) w5
                                else w5)
                      in (SIEVE_OK, None, w6))
                   else if res = ERR (- 1)
                     then (SIEVE_FAIL, Some (Literal ''Could not spawn sendmail process''), w3)
                     else (SIEVE_FAIL, Some (Error_message res), w3))) = (r, em, w')"
  shows "dupdb w' = (if r = SIEVE_OK then (case dk of Some k \<Rightarrow> (dupdb w1)(k \<mapsto> now) | None \<Rightarrow> dupdb w1)
                     else dupdb w1)
         \<and> (r = SIEVE_OK \<longrightarrow> em = None \<and> (\<exists>ev. is_smtp_send ev \<and> smtp_sends w' = smtp_sends w1 @ [ev]))
         \<and> (r = SIEVE_OK \<or> r = SIEVE_FAIL)"
proof (cases "res = SIEVE_OK")
  case True
  from send_forward_world [OF f] True obtain ev where
    ev: "is_smtp_send ev" "smtp_sends w2 = smtp_sends w1 @ [ev]" and db: "dupdb w2 = dupdb w1"
    by auto
  from r True have "r = SIEVE_OK" "em = None" by (simp_all add: f Let_def)
  moreover from r True have "dupdb w' = (case dk of Some k \<Rightarrow> (dupdb w1)(k \<mapsto> now) | None \<Rightarrow> dupdb w1)"
    by (cases dk; cases "sd_edited_header sd"; cases "config_auditlog (cfg e)")
       (auto simp: f Let_def db)
  moreover from r True have "smtp_sends w' = smtp_sends w1 @ [ev]"
    by (cases dk; cases "sd_edited_header sd"; cases "config_auditlog (cfg e)")
       (auto simp: f Let_def ev)
  ultimately show ?thesis using ev by auto
next
  case False
  from send_forward_world [OF f] have db: "dupdb w2 = dupdb w1" by simp
  from r False have "r = SIEVE_FAIL" by (simp add: f Let_def split: if_splits)
  moreover from r False db have "dupdb w' = dupdb w1"
    by (cases "sd_edited_header sd") (auto simp: f Let_def split: if_splits)
  ultimately show ?thesis by simp
qed

lemma redirect_send_world:
  assumes "redirect_send e rc ctx sd mdata dk now w = (r, em, w')"
  shows "dupdb w' = (if r = SIEVE_OK then (case dk of Some k \<Rightarrow> (dupdb w)(k \<mapsto> now) | None \<Rightarrow> dupdb w)
                     else dupdb w)
         \<and> (r = SIEVE_OK \<longrightarrow> em = None \<and> (\<exists>ev. is_smtp_send ev \<and> smtp_sends w' = smtp_sends w @ [ev]))
         \<and> (r = SIEVE_OK \<or> r = SIEVE_FAIL)"
proof -
  obtain md1 w1 where s: "(if sd_edited_header sd then setup_special_delivery e mdata w else (Some mdata, w)) = (md1, w1)"
    by (cases "if sd_edited_header sd then setup_special_delivery e mdata w else (Some mdata, w)")
  have w1: "dupdb w1 = dupdb w" "smtp_sends w1 = smtp_sends w"
    using s setup_special_delivery_world [of e mdata w md1 w1] by (auto split: if_splits)
  show ?thesis
  proof (cases md1)
    case None
    with assms s w1 show ?thesis unfolding redirect_send_def by simp
  next
    case (Some mdata')
    obtain res w2 where f: "send_forward e rc ctx (m_return_path (dd_m mdata')) (m_f (dd_m mdata')) w1 = (res, w2)"
      by (cases "send_forward e rc ctx (m_return_path (dd_m mdata')) (m_f (dd_m mdata')) w1")
    from assms have "(case (md1, w1) of (None, w1) \<Rightarrow> (SIEVE_FAIL, None, w1)
      | (Some mdata', w1) \<Rightarrow>
          (let m = dd_m mdata' in
           case send_forward e rc ctx (m_return_path m) (m_f m) w1 of
             (res, w2) \<Rightarrow>
               (let w3 = (if sd_edited_header sd then cleanup_special_delivery mdata' w2 else w2)
                in if res = SIEVE_OK then
                     (let w4 = (case dk of Some dkey \<Rightarrow> duplicate_mark dkey now w3
                                | None \<Rightarrow> w3);
                          w5 = emit (Ev_syslog ''sieve redirected: %s to: %s''
                                       [id_or_nomsgid m, rc_addr rc]) w4;
                          w6 = (if config_auditlog (cfg e)
                                then emit (Ev_syslog
                                  ''auditlog: redirect sessionid=<%s> message-id=%s target=<%s>''
                                  [session_id (ans e), id_or_nomsgid m, rc_addr rc]) w5
                                else w5)
                      in (SIEVE_OK, None, w6))
                   else if res = ERR (- 1)
                     then (SIEVE_FAIL, Some (Literal ''Could not spawn sendmail process''), w3)
                     else (SIEVE_FAIL, Some (Error_message res), w3)))) = (r, em, w')"
      unfolding redirect_send_def s .
    then have "(case send_forward e rc ctx (m_return_path (dd_m mdata')) (m_f (dd_m mdata')) w1 of
             (res, w2) \<Rightarrow>
               (let w3 = (if sd_edited_header sd then cleanup_special_delivery mdata' w2 else w2)
                in if res = SIEVE_OK then
                     (let w4 = (case dk of Some dkey \<Rightarrow> duplicate_mark dkey now w3
                                | None \<Rightarrow> w3);
                          w5 = emit (Ev_syslog ''sieve redirected: %s to: %s''
                                       [id_or_nomsgid (dd_m mdata'), rc_addr rc]) w4;
                          w6 = (if config_auditlog (cfg e)
                                then emit (Ev_syslog
                                  ''auditlog: redirect sessionid=<%s> message-id=%s target=<%s>''
                                  [session_id (ans e), id_or_nomsgid (dd_m mdata'), rc_addr rc]) w5
                                else w5)
                      in (SIEVE_OK, None, w6))
                   else if res = ERR (- 1)
                     then (SIEVE_FAIL, Some (Literal ''Could not spawn sendmail process''), w3)
                     else (SIEVE_FAIL, Some (Error_message res), w3))) = (r, em, w')"
      unfolding Some by (simp add: Let_def)
    from redirect_finish [OF f this] show ?thesis unfolding w1 .
  qed
qed

text \<open>
  C2, amended.  For a message with an id and a script with an owner: when a redirect that
  was not yet recorded in the ledger returns Ok (at a clock other than 0), it has made
  exactly one outbound send, and a second redirect, for the same owner, of a message with
  the same id and the same date to the same target address returns Ok at once, with no
  further send and no change of the ledger.
\<close>

theorem redirect_twice_sends_once:
  assumes "m_id (dd_m mdata) = Some msgid"
      and "mbname_userid (sd_mbname sd) = Some user"
      and "dupdb w (redirect_key e (dd_m mdata) rc msgid user) = None"
      and "now \<noteq> 0"
      and "sieve_redirect e rc ctx sd mdata now w = Inr (SIEVE_OK, em, w1)"
      and "m_id (dd_m mdata2) = Some msgid"
      and "m_date (dd_m mdata2) = m_date (dd_m mdata)"
      and "rc_addr rc2 = rc_addr rc"
      and "mbname_userid (sd_mbname sd2) = Some user"
  shows "(\<exists>ev. is_smtp_send ev \<and> smtp_sends w1 = smtp_sends w @ [ev])
       \<and> (\<exists>w2. sieve_redirect e rc2 ctx2 sd2 mdata2 now2 w1 = Inr (SIEVE_OK, None, w2)
               \<and> smtp_sends w2 = smtp_sends w1 \<and> dupdb w2 = dupdb w1)"
proof -
  let ?k = "redirect_key e (dd_m mdata) rc msgid user"
  have k2: "redirect_key e (dd_m mdata2) rc2 msgid user = ?k"
    using assms(7,8) by (simp add: redirect_key_def)
  have first: "redirect_send e rc ctx sd mdata (Some ?k) now w = (SIEVE_OK, em, w1)"
    using assms(1,2,3,5) by (simp add: sieve_redirect_def duplicate_check_def Let_def)
  from redirect_send_world [OF first]
  have sent: "\<exists>ev. is_smtp_send ev \<and> smtp_sends w1 = smtp_sends w @ [ev]"
    and db: "dupdb w1 = (dupdb w)(?k \<mapsto> now)" by auto
  have chk: "duplicate_check ?k w1 \<noteq> 0" using db assms(4) by (simp add: duplicate_check_def)
  have "sieve_redirect e rc2 ctx2 sd2 mdata2 now2 w1 = Inr (SIEVE_OK, None, duplicate_log ?k ''redirect'' w1)"
    using assms(6,9) k2 chk by (simp add: sieve_redirect_def Let_def)
  with sent show ?thesis by simp
qed

lemma example_redirect_key:
  "redirect_key example_env example_m example_rc ''<m1@example.org>'' ''ann'' = example_key"
  by (simp add: redirect_key_def make_sieve_db_ann snprintf_def example_rc_def example_m_def
      example_key_def DUPLICATE_INITIALIZER_def)

lemma example_send_forward:
  "send_forward example_env example_rc example_ctx (Some ''carl@example.com'') (m_f example_m) w =
     (SIEVE_OK, emit (Ev_smtp_send (Some ''ann'')
        \<lparr>se_from = Some ''carl@example.com'', se_rcpts = [''bob@example.net'']\<rparr>
        (''Subject: hi'' @ CRLF @ CRLF @ ''text'' @ CRLF)) w)"
  by (simp add: send_forward_def example_env_def example_ans_def example_rc_def example_ctx_def
      example_m_def smtp_envelope_set_from_def smtp_envelope_add_rcpt_def
      SMTP_ENVELOPE_INITIALIZER_def CRLF_def CR_def LF_def lcase_def tolower_def)

lemma example_redirect:
  "sieve_redirect example_env example_rc example_ctx example_sd example_mc 1000 empty_world =
     Inr (SIEVE_OK, None,
       emit (Ev_syslog ''sieve redirected: %s to: %s'' [''<m1@example.org>'', ''bob@example.net''])
        (duplicate_mark example_key 1000
          (emit (Ev_smtp_send (Some ''ann'')
             \<lparr>se_from = Some ''carl@example.com'', se_rcpts = [''bob@example.net'']\<rparr>
             (''Subject: hi'' @ CRLF @ CRLF @ ''text'' @ CRLF)) empty_world)))"
proof -
  have m: "dd_m example_mc = example_m" "m_id example_m = Some ''<m1@example.org>''"
    "m_return_path example_m = Some ''carl@example.com''"
    "mbname_userid (sd_mbname example_sd) = Some ''ann''" "\<not> sd_edited_header example_sd"
    "\<not> config_auditlog (cfg example_env)" "rc_addr example_rc = ''bob@example.net''"
    "id_or_nomsgid example_m = ''<m1@example.org>''"
    by (simp_all add: example_mc_def example_m_def example_sd_def example_env_def example_cfg_def
        example_rc_def id_or_nomsgid_def)
  have c: "duplicate_check example_key empty_world = 0"
    by (simp add: duplicate_check_def empty_world_def)
  show ?thesis
    by (simp add: sieve_redirect_def redirect_send_def m example_redirect_key c example_send_forward
        Let_def)
qed

theorem redirect_twice_sends_once_witness:
  "\<exists>w1 ev. sieve_redirect example_env example_rc example_ctx example_sd example_mc 1000 empty_world
        = Inr (SIEVE_OK, None, w1)
      \<and> smtp_sends w1 = [ev]
      \<and> (\<exists>w2. sieve_redirect example_env example_rc example_ctx example_sd example_mc 2000 w1
                 = Inr (SIEVE_OK, None, w2) \<and> smtp_sends w2 = [ev])"
proof -
  let ?w1 = "emit (Ev_syslog ''sieve redirected: %s to: %s'' [''<m1@example.org>'', ''bob@example.net''])
        (duplicate_mark example_key 1000
          (emit (Ev_smtp_send (Some ''ann'')
             \<lparr>se_from = Some ''carl@example.com'', se_rcpts = [''bob@example.net'']\<rparr>
             (''Subject: hi'' @ CRLF @ CRLF @ ''text'' @ CRLF)) empty_world))"
  have a: "m_id (dd_m example_mc) = Some ''<m1@example.org>''"
    by (simp add: example_mc_def example_m_def)
  have b: "mbname_userid (sd_mbname example_sd) = Some ''ann''" by (simp add: example_sd_def)
  have c: "dupdb empty_world (redirect_key example_env (dd_m example_mc) example_rc ''<m1@example.org>'' ''ann'') = None"
    by (simp add: empty_world_def)
  have d: "(1000::int) \<noteq> 0" by simp
  have s0: "smtp_sends empty_world = []" by (simp add: smtp_sends_def empty_world_def)
  from redirect_twice_sends_once [OF a b c d example_redirect a refl refl b, of example_ctx 2000] s0
  show ?thesis using example_redirect by auto
qed

lemma make_sieve_db_eq:
  "0 < MAX_MAILBOX_PATH (cfg e) \<Longrightarrow>
     make_sieve_db e user = take (MAX_MAILBOX_PATH (cfg e)) (''.'' @ user @ ''.sieve.'')"
  by (simp add: make_sieve_db_def strlcat_def take_Cons')

lemma example_redirect_any:
  assumes "dupdb w example_key = None"
  shows "sieve_redirect example_env example_rc example_ctx example_sd example_mc 1000 w =
     Inr (SIEVE_OK, None,
       emit (Ev_syslog ''sieve redirected: %s to: %s'' [''<m1@example.org>'', ''bob@example.net''])
        (duplicate_mark example_key 1000
          (emit (Ev_smtp_send (Some ''ann'')
             \<lparr>se_from = Some ''carl@example.com'', se_rcpts = [''bob@example.net'']\<rparr>
             (''Subject: hi'' @ CRLF @ CRLF @ ''text'' @ CRLF)) w)))"
proof -
  have m: "dd_m example_mc = example_m" "m_id example_m = Some ''<m1@example.org>''"
    "m_return_path example_m = Some ''carl@example.com''"
    "mbname_userid (sd_mbname example_sd) = Some ''ann''" "\<not> sd_edited_header example_sd"
    "\<not> config_auditlog (cfg example_env)" "rc_addr example_rc = ''bob@example.net''"
    "id_or_nomsgid example_m = ''<m1@example.org>''"
    by (simp_all add: example_mc_def example_m_def example_sd_def example_env_def example_cfg_def
        example_rc_def id_or_nomsgid_def)
  have c: "duplicate_check example_key w = 0"
    using assms by (simp add: duplicate_check_def)
  show ?thesis
    by (simp add: sieve_redirect_def redirect_send_def m example_redirect_key c example_send_forward
        Let_def)
qed

lemma make_sieve_db_bob: "make_sieve_db example_env ''bob'' = ''.bob.sieve.''"
  by (simp add: make_sieve_db_def strlcat_def example_env_def example_cfg_def)

lemma example_send_forward_bob:
  "send_forward example_env example_rc example_ctx_bob (Some ''carl@example.com'') (m_f example_m) w =
     (SIEVE_OK, emit (Ev_smtp_send (Some ''bob'')
        \<lparr>se_from = Some ''carl@example.com'', se_rcpts = [''bob@example.net'']\<rparr>
        (''Subject: hi'' @ CRLF @ CRLF @ ''text'' @ CRLF)) w)"
  by (simp add: send_forward_def example_env_def example_ans_def example_rc_def example_ctx_bob_def
      example_m_def smtp_envelope_set_from_def smtp_envelope_add_rcpt_def
      SMTP_ENVELOPE_INITIALIZER_def CRLF_def CR_def LF_def lcase_def tolower_def)

lemma example_redirect_bob:
  assumes "dupdb w (example_key\<lparr>dk_to := Some ''.bob.sieve.''\<rparr>) = None"
  shows "sieve_redirect example_env example_rc example_ctx_bob example_sd_bob example_mc now w =
     Inr (SIEVE_OK, None,
       emit (Ev_syslog ''sieve redirected: %s to: %s'' [''<m1@example.org>'', ''bob@example.net''])
        (duplicate_mark (example_key\<lparr>dk_to := Some ''.bob.sieve.''\<rparr>) now
          (emit (Ev_smtp_send (Some ''bob'')
             \<lparr>se_from = Some ''carl@example.com'', se_rcpts = [''bob@example.net'']\<rparr>
             (''Subject: hi'' @ CRLF @ CRLF @ ''text'' @ CRLF)) w)))"
proof -
  have m: "dd_m example_mc = example_m" "m_id example_m = Some ''<m1@example.org>''"
    "m_return_path example_m = Some ''carl@example.com''"
    "mbname_userid (sd_mbname example_sd_bob) = Some ''bob''" "\<not> sd_edited_header example_sd_bob"
    "\<not> config_auditlog (cfg example_env)" "rc_addr example_rc = ''bob@example.net''"
    "id_or_nomsgid example_m = ''<m1@example.org>''"
    by (simp_all add: example_mc_def example_m_def example_sd_bob_def example_env_def example_cfg_def
        example_rc_def id_or_nomsgid_def)
  have k: "redirect_key example_env example_m example_rc ''<m1@example.org>'' ''bob''
             = example_key\<lparr>dk_to := Some ''.bob.sieve.''\<rparr>"
    by (simp add: redirect_key_def make_sieve_db_bob snprintf_def example_rc_def example_m_def
      example_key_def DUPLICATE_INITIALIZER_def)
  have c: "duplicate_check (example_key\<lparr>dk_to := Some ''.bob.sieve.''\<rparr>) w = 0"
    using assms by (simp add: duplicate_check_def)
  show ?thesis
    by (simp add: sieve_redirect_def redirect_send_def m k c example_send_forward_bob Let_def)
qed

text \<open>
  C2 as stated fails: the ledger key of a redirect also holds the owner of the script and
  the date of the message.  One message (one message id) delivered to two recipients whose
  scripts both redirect to \<open>bob@example.net\<close> is sent there twice: the redirect of the
  second script does not find the mark of the first.
\<close>

theorem redirect_other_owner_counterexample:
  "\<exists>w1 w2 ev1 ev2.
      sieve_redirect example_env example_rc example_ctx example_sd example_mc 1000 empty_world
        = Inr (SIEVE_OK, None, w1)
    \<and> smtp_sends w1 = [ev1]
    \<and> sieve_redirect example_env example_rc example_ctx_bob example_sd_bob example_mc 2000 w1
        = Inr (SIEVE_OK, None, w2)
    \<and> smtp_sends w2 = [ev1, ev2]"
proof -
  have a: "dupdb empty_world example_key = None" by (simp add: empty_world_def)
  let ?w1 = "emit (Ev_syslog ''sieve redirected: %s to: %s'' [''<m1@example.org>'', ''bob@example.net''])
        (duplicate_mark example_key 1000
          (emit (Ev_smtp_send (Some ''ann'')
             \<lparr>se_from = Some ''carl@example.com'', se_rcpts = [''bob@example.net'']\<rparr>
             (''Subject: hi'' @ CRLF @ CRLF @ ''text'' @ CRLF)) empty_world))"
  have b: "dupdb ?w1 (example_key\<lparr>dk_to := Some ''.bob.sieve.''\<rparr>) = None"
    by (simp add: empty_world_def example_key_def)
  let ?w2 = "emit (Ev_syslog ''sieve redirected: %s to: %s'' [''<m1@example.org>'', ''bob@example.net''])
        (duplicate_mark (example_key\<lparr>dk_to := Some ''.bob.sieve.''\<rparr>) 2000
          (emit (Ev_smtp_send (Some ''bob'')
             \<lparr>se_from = Some ''carl@example.com'', se_rcpts = [''bob@example.net'']\<rparr>
             (''Subject: hi'' @ CRLF @ CRLF @ ''text'' @ CRLF)) ?w1))"
  have s1: "\<exists>ev1. smtp_sends ?w1 = [ev1] \<and> (\<exists>ev2. smtp_sends ?w2 = [ev1, ev2])"
    by (simp add: smtp_sends_def emit_def duplicate_mark_def empty_world_def)
  from example_redirect_any [OF a] example_redirect_bob [OF b, of 2000] s1
  show ?thesis by blast
qed

text \<open>
  C3 as stated fails: after a redirect of message \<open><m1@example.org>\<close> to
  \<open>bob@example.net\<close> the ledger has no entry under (message id, target address, ""), and
  an entry under that key does not stop the redirect from being sent.
\<close>

theorem redirect_key_counterexample:
  "(\<exists>w'. sieve_redirect example_env example_rc example_ctx example_sd example_mc 1000 empty_world
           = Inr (SIEVE_OK, None, w')
         \<and> dupdb w' \<lparr>dk_id = Some ''<m1@example.org>'', dk_to = Some ''bob@example.net'',
                      dk_date = Some ''''\<rparr> = None
         \<and> dupdb w' \<lparr>dk_id = Some ''<m1@example.org>-bob@example.net'', dk_to = Some ''.ann.sieve.'',
                      dk_date = Some ''Thu, 01 Jan 1970 00:00:00 +0000''\<rparr> = Some 1000)
   \<and> (\<exists>w' ev. sieve_redirect example_env example_rc example_ctx example_sd example_mc 1000
           (empty_world\<lparr>dupdb := [\<lparr>dk_id = Some ''<m1@example.org>'', dk_to = Some ''bob@example.net'',
                                     dk_date = Some ''''\<rparr> \<mapsto> 500]\<rparr>)
           = Inr (SIEVE_OK, None, w') \<and> smtp_sends w' = [ev])"
proof -
  have a: "dupdb empty_world example_key = None" by (simp add: empty_world_def)
  have b: "dupdb (empty_world\<lparr>dupdb := [\<lparr>dk_id = Some ''<m1@example.org>'', dk_to = Some ''bob@example.net'',
                                     dk_date = Some ''''\<rparr> \<mapsto> 500]\<rparr>) example_key = None"
    by (simp add: empty_world_def example_key_def)
  show ?thesis
    unfolding example_redirect_any [OF a] example_redirect_any [OF b]
    by (simp add: example_key_def empty_world_def smtp_sends_def emit_def duplicate_mark_def)
qed

text \<open>
  C3, amended.  For a message with an id and a script with an owner, the key of the
  redirect's ledger check and mark has as id the message id, "-" and the target address
  (cut to the 8191 bytes of the buffer), as target the sieve database name of the owner
  ("." owner ".sieve.", cut to MAX\_MAILBOX\_PATH bytes) and as date the date of the
  message.  A non-zero entry under that key makes the redirect return Ok with nothing but
  a log entry; otherwise the ledger changes only when the redirect returns Ok, and then
  by a mark of that key with the current time.
\<close>

theorem sieve_redirect_ledger_key:
  assumes "m_id (dd_m mdata) = Some msgid" and "mbname_userid (sd_mbname sd) = Some user"
    and "0 < MAX_MAILBOX_PATH (cfg e)"
  shows "redirect_key e (dd_m mdata) rc msgid user =
           \<lparr>dk_id = Some (take 8191 (msgid @ ''-'' @ rc_addr rc)),
            dk_to = Some (take (MAX_MAILBOX_PATH (cfg e)) (''.'' @ user @ ''.sieve.'')),
            dk_date = m_date (dd_m mdata)\<rparr>
       \<and> (if duplicate_check (redirect_key e (dd_m mdata) rc msgid user) w \<noteq> 0
          then sieve_redirect e rc ctx sd mdata now w =
                 Inr (SIEVE_OK, None,
                      duplicate_log (redirect_key e (dd_m mdata) rc msgid user) ''redirect'' w)
          else (\<exists>r em w'. sieve_redirect e rc ctx sd mdata now w = Inr (r, em, w')
                  \<and> dupdb w' = (if r = SIEVE_OK
                                then (dupdb w)(redirect_key e (dd_m mdata) rc msgid user \<mapsto> now)
                                else dupdb w)))"
proof -
  let ?k = "redirect_key e (dd_m mdata) rc msgid user"
  have k: "?k = \<lparr>dk_id = Some (take 8191 (msgid @ ''-'' @ rc_addr rc)),
            dk_to = Some (take (MAX_MAILBOX_PATH (cfg e)) (''.'' @ user @ ''.sieve.'')),
            dk_date = m_date (dd_m mdata)\<rparr>"
    using make_sieve_db_eq [OF assms(3)]
    by (simp add: redirect_key_def snprintf_def DUPLICATE_INITIALIZER_def)
  have hit: "duplicate_check ?k w \<noteq> 0 \<Longrightarrow> sieve_redirect e rc ctx sd mdata now w =
                 Inr (SIEVE_OK, None, duplicate_log ?k ''redirect'' w)"
    using assms(1,2) by (simp add: sieve_redirect_def Let_def)
  have miss: "\<exists>r em w'. sieve_redirect e rc ctx sd mdata now w = Inr (r, em, w')
                  \<and> dupdb w' = (if r = SIEVE_OK then (dupdb w)(?k \<mapsto> now) else dupdb w)"
    if z: "duplicate_check ?k w = 0"
  proof -
    obtain r em w' where rs: "redirect_send e rc ctx sd mdata (Some ?k) now w = (r, em, w')"
      by (cases "redirect_send e rc ctx sd mdata (Some ?k) now w")
    have "sieve_redirect e rc ctx sd mdata now w = Inr (r, em, w')"
      using assms(1,2) z rs by (simp add: sieve_redirect_def Let_def)
    moreover from redirect_send_world [OF rs]
    have "dupdb w' = (if r = SIEVE_OK then (dupdb w)(?k \<mapsto> now) else dupdb w)" by simp
    ultimately show ?thesis by blast
  qed
  show ?thesis using k hit miss by (cases "duplicate_check ?k w = 0") simp_all
qed

theorem sieve_redirect_ledger_key_witness:
  "redirect_key example_env (dd_m example_mc) example_rc ''<m1@example.org>'' ''ann'' = example_key
   \<and> (\<exists>r em w'. sieve_redirect example_env example_rc example_ctx example_sd example_mc 1000 empty_world
          = Inr (r, em, w')
        \<and> dupdb w' = (if r = SIEVE_OK then [example_key \<mapsto> 1000] else Map.empty))"
proof -
  have a: "m_id (dd_m example_mc) = Some ''<m1@example.org>''"
    by (simp add: example_mc_def example_m_def)
  have b: "mbname_userid (sd_mbname example_sd) = Some ''ann''" by (simp add: example_sd_def)
  have c: "0 < MAX_MAILBOX_PATH (cfg example_env)" by (simp add: example_env_def example_cfg_def)
  have k: "redirect_key example_env (dd_m example_mc) example_rc ''<m1@example.org>'' ''ann'' = example_key"
    using example_redirect_key by (simp add: example_mc_def)
  have z: "duplicate_check example_key empty_world = 0"
    by (simp add: duplicate_check_def empty_world_def)
  have d: "dupdb empty_world = Map.empty" by (simp add: empty_world_def)
  from sieve_redirect_ledger_key [OF a b c, of example_rc empty_world example_ctx 1000]
  have "\<exists>r em w'. sieve_redirect example_env example_rc example_ctx example_sd example_mc 1000 empty_world
          = Inr (r, em, w')
        \<and> dupdb w' = (if r = SIEVE_OK then (dupdb empty_world)(example_key \<mapsto> 1000) else dupdb empty_world)"
    unfolding k by (simp only: z simp_thms if_False)
  then show ?thesis unfolding d using k by simp
qed

lemma reject_resp_eq:
  "reject_resp (Some cur) rest =
     map (\<lambda>l. ''550-5.7.1 '' @ l @ CRLF) (butlast (cur # rest))
     @ [''550 5.7.1 '' @ last (cur # rest) @ CRLF]"
  by (induction rest arbitrary: cur) (simp_all add: printf_s_def)

lemma lmtp_reject_resp_eq:
  "ls \<noteq> [] \<Longrightarrow> lmtp_reject_resp ls =
     map (\<lambda>l. ''550-5.7.1 '' @ l @ CRLF) (butlast ls) @ [''550 5.7.1 '' @ last ls @ CRLF]"
  by (cases ls) (simp_all add: lmtp_reject_resp_def reject_resp_eq del: reject_resp.simps)

lemma need_encode_iff: "need_encode msg \<longleftrightarrow> (\<exists>c \<in> set msg. 128 \<le> (of_char c :: nat))"
  by (auto simp: need_encode_def isascii_def list_ex_iff not_less)

lemma reject_by_mail_keeps_status:
  "reject_by_mail e rc ctx sd mydata now w = Inr (r, em, mydata', w') \<Longrightarrow> mydata' = mydata"
  by (auto simp: reject_by_mail_def Let_def split: option.splits if_splits sum.splits prod.splits)

lemma tok_split_line:
  "CR \<notin> set l \<Longrightarrow> LF \<notin> set l \<Longrightarrow> tok_split cur (l @ rest) = tok_split (cur @ l) rest"
  by (induction l arbitrary: cur) auto

lemma tok_split_CRLF:
  "tok_split cur (CRLF @ rest) = (if cur = [] then tok_split [] rest else cur # tok_split [] rest)"
  by (simp add: CRLF_def)

lemma tok_split_join:
  "\<forall>l \<in> set ls. CR \<notin> set l \<and> LF \<notin> set l \<Longrightarrow>
     tok_split cur (join_crlf ls) =
       (case ls of [] \<Rightarrow> (if cur = [] then [] else [cur])
        | l # ls' \<Rightarrow> filter (\<lambda>l. l \<noteq> []) ((cur @ l) # ls'))"
proof (induction ls arbitrary: cur rule: join_crlf.induct)
  case 1
  then show ?case by simp
next
  case (2 l)
  then show ?case using tok_split_line [of l cur "[]"] by simp
next
  case (3 l k ks)
  have "tok_split cur (join_crlf (l # k # ks)) = tok_split (cur @ l) (CRLF @ join_crlf (k # ks))"
    using 3 tok_split_line [of l cur "CRLF @ join_crlf (k # ks)"] by simp
  also have "\<dots> = (if cur @ l = [] then tok_split [] (join_crlf (k # ks))
                    else (cur @ l) # tok_split [] (join_crlf (k # ks)))"
    by (rule tok_split_CRLF)
  also have "tok_split [] (join_crlf (k # ks)) = filter (\<lambda>l. l \<noteq> []) (k # ks)"
    using 3 by simp
  finally show ?case by simp
qed

lemma tok_lines_join:
  "\<forall>l \<in> set ls. CR \<notin> set l \<and> LF \<notin> set l \<Longrightarrow>
     tok_lines (join_crlf ls) = filter (\<lambda>l. l \<noteq> []) ls"
  using tok_split_join [of ls "[]"] by (cases ls) (simp_all add: tok_lines_def)

lemma lmtp_reject_resp_Nil: "lmtp_reject_resp [] = [''550 5.7.1 (null)'' @ CRLF]"
  by (simp add: lmtp_reject_resp_def printf_s_def)

lemma sieve_reject_inline:
  assumes "rjc_is_extended rc \<or> (config_sieve_use_lmtp_reject (cfg e) \<and> \<not> need_encode (rjc_msg rc))"
  shows "\<exists>w'. sieve_reject e rc ctx sd mydata now w =
            Inr (SIEVE_OK, None,
                 mydata\<lparr>dd_m := (dd_m mydata)\<lparr>m_rcpt_status := (m_rcpt_status (dd_m mydata))
                    (dd_cur_rcpt mydata \<mapsto> (LMTP_MESSAGE_REJECTED,
                        lmtp_reject_resp (tok_lines (reject_text e rc))))\<rparr>\<rparr>, w')
          \<and> smtp_sends w' = smtp_sends w \<and> dupdb w' = dupdb w"
  using assms
  by (cases "config_auditlog (cfg e)")
     (simp_all add: sieve_reject_def Let_def msg_setrcpt_status_def reject_text_def)

lemma no_crlf_examples:
  "CR \<notin> set ''go away''" "LF \<notin> set ''go away''" "CR \<notin> set ''spammer''" "LF \<notin> set ''spammer''"
  by (simp_all add: CR_def LF_def)

text \<open>
  C4 as stated fails: an empty line of the reason gets no response line.  The reason
  "go away", "", "spammer" is answered by two lines, not three.
\<close>

theorem reject_blank_line_counterexample:
  "rjc_msg example_rjc_blank = join_crlf [''go away'', '''', ''spammer'']
   \<and> (\<exists>w'. sieve_reject example_env example_rjc_blank example_ctx example_sd example_mc 1000 empty_world =
       Inr (SIEVE_OK, None,
            example_mc\<lparr>dd_m := example_m\<lparr>m_rcpt_status :=
               [0 \<mapsto> (LMTP_MESSAGE_REJECTED,
                   [''550-5.7.1 go away'' @ CRLF, ''550 5.7.1 spammer'' @ CRLF])]\<rparr>\<rparr>, w'))"
proof -
  have j: "rjc_msg example_rjc_blank = join_crlf [''go away'', '''', ''spammer'']"
    by (simp add: example_rjc_blank_def)
  have n1: "\<not> need_encode (rjc_msg example_rjc_blank)"
    by (simp add: need_encode_def example_rjc_blank_def isascii_def CRLF_def CR_def LF_def)
  have c: "config_sieve_use_lmtp_reject (cfg example_env)"
    by (simp add: example_env_def example_cfg_def)
  have t: "tok_lines (reject_text example_env example_rjc_blank) = [''go away'', ''spammer'']"
    using n1 tok_lines_join [of "[''go away'', '''', ''spammer'']"] no_crlf_examples
    by (simp add: reject_text_def j)
  have m: "dd_m example_mc = example_m" "dd_cur_rcpt example_mc = 0" "m_rcpt_status example_m = Map.empty"
    by (simp_all add: example_mc_def example_m_def)
  from sieve_reject_inline [of example_rjc_blank example_env example_ctx example_sd example_mc 1000 empty_world]
    n1 c
  show ?thesis unfolding t by (auto simp add: j m lmtp_reject_resp_def printf_s_def)
qed

text \<open>
  C4, amended.  When the reject is of the extended form, or protocol rejection is enabled
  and the reason is pure ASCII, sieve\_reject returns Ok, sends nothing, and sets the
  status of the current recipient to rejected.  The response has one line per non-empty
  line of the reason text (the quoted-printable encoding of the reason when it is not
  pure ASCII), the text being cut at every CR and LF: "550-5.7.1 line" for every such
  line but the last, "550 5.7.1 line" for the last, each ended by CRLF; for a text made
  of lines joined by CRLF these are its lines without the empty ones.  (A text with no
  non-empty line at all is answered by the one line "550 5.7.1 (null)".)  A reason that
  is not pure ASCII, without the extended form, is handled by reject\_by\_mail, which
  never sets a recipient status.
\<close>

theorem sieve_reject_lmtp:
  "((rjc_is_extended rc \<or> (config_sieve_use_lmtp_reject (cfg e) \<and> \<not> need_encode (rjc_msg rc)))
     \<longrightarrow> (\<exists>resp w'. sieve_reject e rc ctx sd mydata now w =
            Inr (SIEVE_OK, None,
                 mydata\<lparr>dd_m := (dd_m mydata)\<lparr>m_rcpt_status := (m_rcpt_status (dd_m mydata))
                    (dd_cur_rcpt mydata \<mapsto> (LMTP_MESSAGE_REJECTED, resp))\<rparr>\<rparr>, w')
          \<and> smtp_sends w' = smtp_sends w \<and> dupdb w' = dupdb w
          \<and> (tok_lines (reject_text e rc) \<noteq> [] \<longrightarrow>
               resp = map (\<lambda>l. ''550-5.7.1 '' @ l @ CRLF) (butlast (tok_lines (reject_text e rc)))
                      @ [''550 5.7.1 '' @ last (tok_lines (reject_text e rc)) @ CRLF])
          \<and> (tok_lines (reject_text e rc) = [] \<longrightarrow> resp = [''550 5.7.1 (null)'' @ CRLF])))
   \<and> reject_text e rc = (if need_encode (rjc_msg rc)
                          then charset_qpencode_mimebody (ans e) (rjc_msg rc) else rjc_msg rc)
   \<and> ((\<forall>l \<in> set ls. CR \<notin> set l \<and> LF \<notin> set l)
        \<longrightarrow> tok_lines (join_crlf ls) = filter (\<lambda>l. l \<noteq> []) ls)
   \<and> (\<not> rjc_is_extended rc \<and> need_encode (rjc_msg rc)
     \<longrightarrow> sieve_reject e rc ctx sd mydata now w = reject_by_mail e rc ctx sd mydata now w
         \<and> (\<forall>r em mydata' w'. sieve_reject e rc ctx sd mydata now w = Inr (r, em, mydata', w')
               \<longrightarrow> mydata' = mydata))"
proof (intro conjI impI)
  assume c: "rjc_is_extended rc \<or> (config_sieve_use_lmtp_reject (cfg e) \<and> \<not> need_encode (rjc_msg rc))"
  from sieve_reject_inline [OF c, of ctx sd mydata now w]
  obtain w' where r: "sieve_reject e rc ctx sd mydata now w =
            Inr (SIEVE_OK, None,
                 mydata\<lparr>dd_m := (dd_m mydata)\<lparr>m_rcpt_status := (m_rcpt_status (dd_m mydata))
                    (dd_cur_rcpt mydata \<mapsto> (LMTP_MESSAGE_REJECTED,
                        lmtp_reject_resp (tok_lines (reject_text e rc))))\<rparr>\<rparr>, w')"
    "smtp_sends w' = smtp_sends w" "dupdb w' = dupdb w" by blast
  have a: "tok_lines (reject_text e rc) \<noteq> [] \<longrightarrow>
       lmtp_reject_resp (tok_lines (reject_text e rc)) =
         map (\<lambda>l. ''550-5.7.1 '' @ l @ CRLF) (butlast (tok_lines (reject_text e rc)))
                      @ [''550 5.7.1 '' @ last (tok_lines (reject_text e rc)) @ CRLF]"
    using lmtp_reject_resp_eq by blast
  have b: "tok_lines (reject_text e rc) = [] \<longrightarrow>
       lmtp_reject_resp (tok_lines (reject_text e rc)) = [''550 5.7.1 (null)'' @ CRLF]"
    using lmtp_reject_resp_Nil by simp
  from r a b show "\<exists>resp w'. sieve_reject e rc ctx sd mydata now w =
            Inr (SIEVE_OK, None,
                 mydata\<lparr>dd_m := (dd_m mydata)\<lparr>m_rcpt_status := (m_rcpt_status (dd_m mydata))
                    (dd_cur_rcpt mydata \<mapsto> (LMTP_MESSAGE_REJECTED, resp))\<rparr>\<rparr>, w')
          \<and> smtp_sends w' = smtp_sends w \<and> dupdb w' = dupdb w
          \<and> (tok_lines (reject_text e rc) \<noteq> [] \<longrightarrow>
               resp = map (\<lambda>l. ''550-5.7.1 '' @ l @ CRLF) (butlast (tok_lines (reject_text e rc)))
                      @ [''550 5.7.1 '' @ last (tok_lines (reject_text e rc)) @ CRLF])
          \<and> (tok_lines (reject_text e rc) = [] \<longrightarrow> resp = [''550 5.7.1 (null)'' @ CRLF])"
    by blast
next
  show "reject_text e rc = (if need_encode (rjc_msg rc)
                          then charset_qpencode_mimebody (ans e) (rjc_msg rc) else rjc_msg rc)"
    by (simp add: reject_text_def)
next
  assume "\<forall>l \<in> set ls. CR \<notin> set l \<and> LF \<notin> set l"
  then show "tok_lines (join_crlf ls) = filter (\<lambda>l. l \<noteq> []) ls" by (rule tok_lines_join)
next
  assume b: "\<not> rjc_is_extended rc \<and> need_encode (rjc_msg rc)"
  then show eq: "sieve_reject e rc ctx sd mydata now w = reject_by_mail e rc ctx sd mydata now w"
    by (simp add: sieve_reject_def)
  show "\<forall>r em mydata' w'. sieve_reject e rc ctx sd mydata now w = Inr (r, em, mydata', w')
               \<longrightarrow> mydata' = mydata"
    unfolding eq using reject_by_mail_keeps_status by blast
qed

lemma tok_lines_example:
  "tok_lines (''go away'' @ CRLF @ ''spammer'') = [''go away'', ''spammer'']"
  by (simp add: tok_lines_def CRLF_def CR_def LF_def)

theorem sieve_reject_lmtp_witness:
  "(\<exists>w'. sieve_reject example_env example_rjc example_ctx example_sd example_mc 1000 empty_world =
       Inr (SIEVE_OK, None,
            example_mc\<lparr>dd_m := example_m\<lparr>m_rcpt_status :=
               [0 \<mapsto> (LMTP_MESSAGE_REJECTED,
                   [''550-5.7.1 go away'' @ CRLF, ''550 5.7.1 spammer'' @ CRLF])]\<rparr>\<rparr>, w')
       \<and> smtp_sends w' = [])
   \<and> tok_lines (join_crlf [''go away'', '''', ''spammer'']) = [''go away'', ''spammer'']
   \<and> sieve_reject example_env example_rjc_8bit example_ctx example_sd
        (example_mc\<lparr>dd_m := example_m\<lparr>m_return_path := None\<rparr>\<rparr>) 1000 empty_world =
       Inr (SIEVE_FAIL, Some (Literal ''No return-path for reply''),
            example_mc\<lparr>dd_m := example_m\<lparr>m_return_path := None\<rparr>\<rparr>, empty_world)"
proof -
  have n1: "\<not> need_encode (rjc_msg example_rjc)"
    by (simp add: need_encode_def example_rjc_def isascii_def CRLF_def CR_def LF_def)
  have n2: "need_encode (rjc_msg example_rjc_8bit)" "\<not> rjc_is_extended example_rjc_8bit"
    by (simp_all add: need_encode_def example_rjc_8bit_def isascii_def)
  have c: "config_sieve_use_lmtp_reject (cfg example_env)"
    by (simp add: example_env_def example_cfg_def)
  have t: "tok_lines (reject_text example_env example_rjc) = [''go away'', ''spammer'']"
    using n1 tok_lines_example by (simp add: example_rjc_def reject_text_def)
  have s0: "smtp_sends empty_world = []" by (simp add: smtp_sends_def empty_world_def)
  have m: "dd_m example_mc = example_m" "dd_cur_rcpt example_mc = 0" "m_rcpt_status example_m = Map.empty"
    by (simp_all add: example_mc_def example_m_def)
  note T1 = sieve_reject_lmtp [of example_rjc example_env example_ctx example_sd example_mc 1000
      empty_world "[]", THEN conjunct1, rule_format]
  have p1: "\<exists>w'. sieve_reject example_env example_rjc example_ctx example_sd example_mc 1000 empty_world =
       Inr (SIEVE_OK, None,
            example_mc\<lparr>dd_m := example_m\<lparr>m_rcpt_status :=
               [0 \<mapsto> (LMTP_MESSAGE_REJECTED,
                   [''550-5.7.1 go away'' @ CRLF, ''550 5.7.1 spammer'' @ CRLF])]\<rparr>\<rparr>, w')
       \<and> smtp_sends w' = []"
    using T1 n1 c by (auto simp add: m s0 t)
  note T3 = sieve_reject_lmtp [of example_rjc example_env example_ctx example_sd example_mc 1000
      empty_world "[''go away'', '''', ''spammer'']", THEN conjunct2, THEN conjunct2, THEN conjunct1]
  have h: "\<forall>l \<in> set [''go away'', '''', ''spammer'']. CR \<notin> set l \<and> LF \<notin> set l"
    by (simp add: CR_def LF_def)
  have f: "filter (\<lambda>l. l \<noteq> []) [''go away'', '''', ''spammer''] = [''go away'', ''spammer'']"
    by simp
  have p3: "tok_lines (join_crlf [''go away'', '''', ''spammer'']) = [''go away'', ''spammer'']"
    using T3 [THEN mp, OF h] unfolding f .
  note T2 = sieve_reject_lmtp [of example_rjc_8bit example_env example_ctx example_sd
      "example_mc\<lparr>dd_m := example_m\<lparr>m_return_path := None\<rparr>\<rparr>" 1000 empty_world "[]",
      THEN conjunct2, THEN conjunct2, THEN conjunct2, rule_format, THEN conjunct1]
  have p2: "sieve_reject example_env example_rjc_8bit example_ctx example_sd
        (example_mc\<lparr>dd_m := example_m\<lparr>m_return_path := None\<rparr>\<rparr>) 1000 empty_world =
       Inr (SIEVE_FAIL, Some (Literal ''No return-path for reply''),
            example_mc\<lparr>dd_m := example_m\<lparr>m_return_path := None\<rparr>\<rparr>, empty_world)"
    using T2 n2 by (simp add: reject_by_mail_def)
  from p1 p2 p3 show ?thesis by blast
qed

text \<open>
  C5.  On the bounce-mail path of sieve\_reject (not extended, and protocol rejection
  disabled or the reason not pure ASCII): with an empty return path the handler returns
  Ok, the message and the ledger are as before and the only calls made are log entries
  (at least one); with no return path at all it returns Fail and nothing changes.
\<close>

theorem sieve_reject_bounce_return_path:
  assumes "\<not> rjc_is_extended rc"
      and "\<not> config_sieve_use_lmtp_reject (cfg e) \<or> need_encode (rjc_msg rc)"
  shows "(m_return_path (dd_m mydata) = Some [] \<longrightarrow>
            (\<exists>w'. sieve_reject e rc ctx sd mydata now w = Inr (SIEVE_OK, None, mydata, w')
               \<and> dupdb w' = dupdb w \<and> mboxlist w' = mboxlist w
               \<and> global_outgoing_count w' = global_outgoing_count w
               \<and> smtp_sends w' = smtp_sends w
               \<and> new_calls w w' \<noteq> [] \<and> list_all is_syslog (new_calls w w')))
       \<and> (m_return_path (dd_m mydata) = None \<longrightarrow>
            sieve_reject e rc ctx sd mydata now w =
              Inr (SIEVE_FAIL, Some (Literal ''No return-path for reply''), mydata, w))"
proof -
  have eq: "sieve_reject e rc ctx sd mydata now w = reject_by_mail e rc ctx sd mydata now w"
    using assms by (auto simp: sieve_reject_def)
  show ?thesis unfolding eq
    by (cases "config_auditlog (cfg e)")
       (auto simp: reject_by_mail_def Let_def new_calls_def)
qed

theorem sieve_reject_bounce_return_path_witness:
  "(\<exists>w'. sieve_reject (example_env\<lparr>cfg := example_cfg\<lparr>config_sieve_use_lmtp_reject := False\<rparr>\<rparr>)
            example_rjc example_ctx example_sd
            (example_mc\<lparr>dd_m := example_m\<lparr>m_return_path := Some []\<rparr>\<rparr>) 1000 empty_world =
          Inr (SIEVE_OK, None, example_mc\<lparr>dd_m := example_m\<lparr>m_return_path := Some []\<rparr>\<rparr>, w')
        \<and> dupdb w' = Map.empty \<and> smtp_sends w' = [] \<and> list_all is_syslog (trace w') \<and> trace w' \<noteq> [])
   \<and> sieve_reject (example_env\<lparr>cfg := example_cfg\<lparr>config_sieve_use_lmtp_reject := False\<rparr>\<rparr>)
        example_rjc example_ctx example_sd
        (example_mc\<lparr>dd_m := example_m\<lparr>m_return_path := None\<rparr>\<rparr>) 1000 empty_world =
      Inr (SIEVE_FAIL, Some (Literal ''No return-path for reply''),
           example_mc\<lparr>dd_m := example_m\<lparr>m_return_path := None\<rparr>\<rparr>, empty_world)"
proof -
  let ?e = "example_env\<lparr>cfg := example_cfg\<lparr>config_sieve_use_lmtp_reject := False\<rparr>\<rparr>"
  have a: "\<not> rjc_is_extended example_rjc" by (simp add: example_rjc_def)
  have b: "\<not> config_sieve_use_lmtp_reject (cfg ?e) \<or> need_encode (rjc_msg example_rjc)" by simp
  have w0: "dupdb empty_world = Map.empty" "smtp_sends empty_world = []" "trace empty_world = []"
    by (simp_all add: empty_world_def smtp_sends_def)
  note T1 = sieve_reject_bounce_return_path [OF a b, of "example_mc\<lparr>dd_m := example_m\<lparr>m_return_path := Some []\<rparr>\<rparr>"
     example_ctx example_sd 1000 empty_world, THEN conjunct1, rule_format]
  note T2 = sieve_reject_bounce_return_path [OF a b, of "example_mc\<lparr>dd_m := example_m\<lparr>m_return_path := None\<rparr>\<rparr>"
     example_ctx example_sd 1000 empty_world, THEN conjunct2, rule_format]
  have p1: "\<exists>w'. sieve_reject ?e example_rjc example_ctx example_sd
            (example_mc\<lparr>dd_m := example_m\<lparr>m_return_path := Some []\<rparr>\<rparr>) 1000 empty_world =
          Inr (SIEVE_OK, None, example_mc\<lparr>dd_m := example_m\<lparr>m_return_path := Some []\<rparr>\<rparr>, w')
        \<and> dupdb w' = Map.empty \<and> smtp_sends w' = [] \<and> list_all is_syslog (trace w') \<and> trace w' \<noteq> []"
    using T1 by (auto simp add: w0 new_calls_def)
  have p2: "sieve_reject ?e example_rjc example_ctx example_sd
        (example_mc\<lparr>dd_m := example_m\<lparr>m_return_path := None\<rparr>\<rparr>) 1000 empty_world =
      Inr (SIEVE_FAIL, Some (Literal ''No return-path for reply''),
           example_mc\<lparr>dd_m := example_m\<lparr>m_return_path := None\<rparr>\<rparr>, empty_world)"
    using T2 by simp
  from p1 p2 show ?thesis by blast
qed

lemma calls_emit [simp]:
  "deliver_mailbox_calls (emit ev w) = deliver_mailbox_calls w + (if is_deliver_mailbox ev then 1 else 0)"
  "createmailbox_calls (emit ev w) = createmailbox_calls w + (if is_createmailbox ev then 1 else 0)"
  by (simp_all add: deliver_mailbox_calls_def createmailbox_calls_def)

lemma calls_mboxlist_update [simp]:
  "deliver_mailbox_calls (w\<lparr>mboxlist := l\<rparr>) = deliver_mailbox_calls w"
  "createmailbox_calls (w\<lparr>mboxlist := l\<rparr>) = createmailbox_calls w"
  by (simp_all add: deliver_mailbox_calls_def createmailbox_calls_def)

lemma calls_cleanup [simp]:
  "deliver_mailbox_calls (cleanup_special_delivery md w) = deliver_mailbox_calls w"
  "createmailbox_calls (cleanup_special_delivery md w) = createmailbox_calls w"
  by (simp_all add: cleanup_special_delivery_def)

lemma calls_annotate [simp]:
  "deliver_mailbox_calls (annotate_specialuse e fc n w) = deliver_mailbox_calls w"
  "createmailbox_calls (annotate_specialuse e fc n w) = createmailbox_calls w"
  "mboxlist (annotate_specialuse e fc n w) = mboxlist w"
  by (simp_all add: annotate_specialuse_def annotatemore_write_def split: option.splits)

lemma setup_special_delivery_calls:
  "setup_special_delivery e mdata w = (r, w1) \<Longrightarrow>
     deliver_mailbox_calls w1 = deliver_mailbox_calls w \<and> createmailbox_calls w1 = createmailbox_calls w"
  by (auto simp: setup_special_delivery_def Let_def split: if_splits)

lemma append_result_emit [simp]: "append_result e name (emit ev w) = append_result e name w"
  by (simp add: append_result_def)

lemma append_result_annotate [simp]:
  "append_result e name (annotate_specialuse e' fc n w) = append_result e name w"
  by (simp add: append_result_def)

lemma append_result_exists:
  "name \<in> set (mboxlist w) \<Longrightarrow> append_result e name w = deliver_r (ans e) name"
  by (simp add: append_result_def)

lemma folder_listed_iff:
  "folder_listed e user iname c names \<longleftrightarrow>
     c \<or> list_ex (\<lambda>name. mboxname_user_mbox (ans e) user name = iname) names"
  by (induction names arbitrary: c) (auto simp: Let_def)

text \<open>What \<open>autosieve_createfolder\<close> does for a script with an owner, by the policy.\<close>

lemma autosieve_createfolder_owner:
  "\<exists>w'. autosieve_createfolder e (Some user) (Some intname) (fc_do_create fc) w =
     (if autocreate_policy e fc user intname then createmailbox_r (ans e) intname
      else IMAP_MAILBOX_NONEXISTENT, w')
   \<and> deliver_mailbox_calls w' = deliver_mailbox_calls w
   \<and> createmailbox_calls w' =
       createmailbox_calls w + (if autocreate_policy e fc user intname then 1 else 0)
   \<and> (autocreate_policy e fc user intname \<and> createmailbox_r (ans e) intname = SIEVE_OK
        \<longrightarrow> intname \<in> set (mboxlist w'))"
proof (cases "autocreate_policy e fc user intname")
  case True
  then have c: "(if config_anysievefolder (cfg e) then True
                  else (case config_autocreate_sieve_folders (cfg e) of
                          Some subf \<Rightarrow> folder_listed e user intname (fc_do_create fc) (strarray_split subf)
                        | None \<Rightarrow> fc_do_create fc))"
    by (auto simp: autocreate_policy_def folder_listed_iff split: option.splits)
  show ?thesis using True
    by (cases "createmailbox_r (ans e) intname = SIEVE_OK")
       (simp_all add: autosieve_createfolder_def c mboxlist_createmailbox_def Let_def)
next
  case False
  then have c: "\<not> (if config_anysievefolder (cfg e) then True
                  else (case config_autocreate_sieve_folders (cfg e) of
                          Some subf \<Rightarrow> folder_listed e user intname (fc_do_create fc) (strarray_split subf)
                        | None \<Rightarrow> fc_do_create fc))"
    by (auto simp: autocreate_policy_def folder_listed_iff split: option.splits)
  show ?thesis using False
    by (simp add: autosieve_createfolder_def c Let_def)
qed

text \<open>The same for any script: without an owner nothing is created.\<close>

lemma autosieve_createfolder_any:
  "\<exists>w'. autosieve_createfolder e userid (Some intname) (fc_do_create fc) w =
     (if autocreate_attempt e fc userid intname then createmailbox_r (ans e) intname
      else IMAP_MAILBOX_NONEXISTENT, w')
   \<and> deliver_mailbox_calls w' = deliver_mailbox_calls w
   \<and> createmailbox_calls w' =
       createmailbox_calls w + (if autocreate_attempt e fc userid intname then 1 else 0)
   \<and> (autocreate_attempt e fc userid intname \<and> createmailbox_r (ans e) intname = SIEVE_OK
        \<longrightarrow> intname \<in> set (mboxlist w'))"
proof (cases userid)
  case None
  then show ?thesis by (simp add: autosieve_createfolder_def autocreate_attempt_def)
next
  case (Some user)
  show ?thesis
    using autosieve_createfolder_owner [of e user intname fc w]
    by (simp add: Some autocreate_attempt_def)
qed

lemma fileinto_deliver_cases:
  assumes "fileinto_deliver e fc userid mdata intname w = (ret, w')"
  defines "r1 \<equiv> append_result e intname w"
  shows "(r1 \<noteq> IMAP_MAILBOX_NONEXISTENT \<longrightarrow>
            ret = r1 \<and> deliver_mailbox_calls w' = deliver_mailbox_calls w + 1
            \<and> createmailbox_calls w' = createmailbox_calls w)
       \<and> (r1 = IMAP_MAILBOX_NONEXISTENT \<and> \<not> autocreate_attempt e fc userid intname \<longrightarrow>
            ret = IMAP_MAILBOX_NONEXISTENT \<and> deliver_mailbox_calls w' = deliver_mailbox_calls w + 1
            \<and> createmailbox_calls w' = createmailbox_calls w)
       \<and> (r1 = IMAP_MAILBOX_NONEXISTENT \<and> autocreate_attempt e fc userid intname
            \<and> createmailbox_r (ans e) intname \<noteq> SIEVE_OK \<longrightarrow>
            ret = createmailbox_r (ans e) intname
            \<and> deliver_mailbox_calls w' = deliver_mailbox_calls w + 1
            \<and> createmailbox_calls w' = createmailbox_calls w + 1)
       \<and> (r1 = IMAP_MAILBOX_NONEXISTENT \<and> autocreate_attempt e fc userid intname
            \<and> createmailbox_r (ans e) intname = SIEVE_OK \<longrightarrow>
            ret = deliver_r (ans e) intname
            \<and> deliver_mailbox_calls w' = deliver_mailbox_calls w + 2
            \<and> createmailbox_calls w' = createmailbox_calls w + 1)"
proof -
  let ?w2 = "emit (Ev_deliver_mailbox (dd_stage mdata) intname (m_f (dd_m mdata))) w"
  obtain w3 where a: "autosieve_createfolder e userid (Some intname) (fc_do_create fc) ?w2 =
     (if autocreate_attempt e fc userid intname then createmailbox_r (ans e) intname
      else IMAP_MAILBOX_NONEXISTENT, w3)"
    and d3: "deliver_mailbox_calls w3 = deliver_mailbox_calls ?w2"
    and c3: "createmailbox_calls w3 =
       createmailbox_calls ?w2 + (if autocreate_attempt e fc userid intname then 1 else 0)"
    and m3: "autocreate_attempt e fc userid intname \<and> createmailbox_r (ans e) intname = SIEVE_OK
        \<longrightarrow> intname \<in> set (mboxlist w3)"
    using autosieve_createfolder_any [of e userid intname fc ?w2] by blast
  show ?thesis
  proof (cases "r1 = IMAP_MAILBOX_NONEXISTENT")
    case False
    with assms(1) show ?thesis
      unfolding r1_def by (auto simp: fileinto_deliver_def deliver_mailbox_def append_result_exists)
  next
    case True
    note nonex = True
    show ?thesis
    proof (cases "autocreate_attempt e fc userid intname")
      case False
      with assms(1) nonex a d3 c3 show ?thesis
        unfolding r1_def by (auto simp: fileinto_deliver_def deliver_mailbox_def append_result_exists)
    next
      case True
      note pol = True
      show ?thesis
      proof (cases "createmailbox_r (ans e) intname = SIEVE_OK")
        case False
        with assms(1) nonex pol a d3 c3 show ?thesis
          unfolding r1_def by (auto simp: fileinto_deliver_def deliver_mailbox_def append_result_exists)
      next
        case True
        with assms(1) nonex pol a d3 c3 m3 show ?thesis
          unfolding r1_def by (auto simp: fileinto_deliver_def deliver_mailbox_def append_result_exists)
      qed
    qed
  qed
qed

lemma fileinto_target_mboxlist:
  "mboxlist w1 = mboxlist w \<Longrightarrow> fileinto_target e fc userid w1 = fileinto_target e fc userid w"
  by (auto simp: fileinto_target_def mboxlist_lookup_def split: option.splits)

lemma append_result_mboxlist:
  "mboxlist w1 = mboxlist w \<Longrightarrow> append_result e name w1 = append_result e name w"
  by (simp add: append_result_def)

lemma sieve_fileinto_cases:
  assumes st: "sd_edited_header sd \<longrightarrow> newstage_ok (ans e)"
    and res: "sieve_fileinto e fc sd mdata w = (r, em, w')"
  defines "userid \<equiv> mbname_userid (sd_mbname sd)"
  defines "intname \<equiv> fileinto_target e fc userid w"
  defines "r1 \<equiv> append_result e intname w"
  defines "fin \<equiv> (\<lambda>ret. r = (if ret = SIEVE_OK then SIEVE_OK else SIEVE_FAIL)
                       \<and> em = (if ret = SIEVE_OK then None else Some (Error_message ret)))"
  shows "(r1 \<noteq> IMAP_MAILBOX_NONEXISTENT \<longrightarrow>
            fin r1 \<and> deliver_mailbox_calls w' = deliver_mailbox_calls w + 1
            \<and> createmailbox_calls w' = createmailbox_calls w)
       \<and> (r1 = IMAP_MAILBOX_NONEXISTENT \<and> \<not> autocreate_attempt e fc userid intname \<longrightarrow>
            fin IMAP_MAILBOX_NONEXISTENT \<and> deliver_mailbox_calls w' = deliver_mailbox_calls w + 1
            \<and> createmailbox_calls w' = createmailbox_calls w)
       \<and> (r1 = IMAP_MAILBOX_NONEXISTENT \<and> autocreate_attempt e fc userid intname
            \<and> createmailbox_r (ans e) intname \<noteq> SIEVE_OK \<longrightarrow>
            fin (createmailbox_r (ans e) intname)
            \<and> deliver_mailbox_calls w' = deliver_mailbox_calls w + 1
            \<and> createmailbox_calls w' = createmailbox_calls w + 1)
       \<and> (r1 = IMAP_MAILBOX_NONEXISTENT \<and> autocreate_attempt e fc userid intname
            \<and> createmailbox_r (ans e) intname = SIEVE_OK \<longrightarrow>
            fin (deliver_r (ans e) intname)
            \<and> deliver_mailbox_calls w' = deliver_mailbox_calls w + 2
            \<and> createmailbox_calls w' = createmailbox_calls w + 1)"
proof -
  obtain mdata' w1 where s: "(if sd_edited_header sd then setup_special_delivery e mdata w else (Some mdata, w)) = (Some mdata', w1)"
    and w1: "mboxlist w1 = mboxlist w" "deliver_mailbox_calls w1 = deliver_mailbox_calls w"
            "createmailbox_calls w1 = createmailbox_calls w"
    using st by (cases "sd_edited_header sd") (auto simp: setup_special_delivery_def Let_def)
  have it: "fileinto_target e fc userid w1 = intname"
    unfolding intname_def by (rule fileinto_target_mboxlist [OF w1(1)])
  have r1: "append_result e intname w1 = r1"
    unfolding r1_def by (rule append_result_mboxlist [OF w1(1)])
  obtain ret w4 where fd: "fileinto_deliver e fc userid mdata' intname w1 = (ret, w4)"
    by (cases "fileinto_deliver e fc userid mdata' intname w1")
  have "(case (Some mdata', w1) of
        (None, w1) \<Rightarrow> (SIEVE_FAIL, None, w1)
      | (Some mdata', w1) \<Rightarrow>
          (case fileinto_deliver e fc userid mdata' (fileinto_target e fc userid w1) w1 of
             (ret, w4) \<Rightarrow>
               (let w5 = (if sd_edited_header sd then cleanup_special_delivery mdata' w4 else w4)
                in if ret = SIEVE_OK then (SIEVE_OK, None, w5)
                   else (SIEVE_FAIL, Some (Error_message ret), w5)))) = (r, em, w')"
    using res unfolding sieve_fileinto_def Let_def userid_def s .
  then have fin0: "(if ret = SIEVE_OK
       then (SIEVE_OK, None, if sd_edited_header sd then cleanup_special_delivery mdata' w4 else w4)
       else (SIEVE_FAIL, Some (Error_message ret),
             if sd_edited_header sd then cleanup_special_delivery mdata' w4 else w4)) = (r, em, w')"
    by (simp add: it fd Let_def)
  have fin: "fin ret" unfolding fin_def using fin0 by (auto split: if_splits)
  have c: "deliver_mailbox_calls w' = deliver_mailbox_calls w4"
     "createmailbox_calls w' = createmailbox_calls w4"
    using fin0 by (auto split: if_splits)
  from fileinto_deliver_cases [OF fd] show ?thesis
    unfolding r1 c w1 using fin by auto
qed

text \<open>
  C6 as stated fails where the creation itself fails: with the per-rule create flag set
  and a store that refuses the create, autocreation is attempted once and the delivery is
  not retried.
\<close>

theorem fileinto_retry_counterexample:
  "autocreate_policy refusing_env (example_fc\<lparr>fc_do_create := True\<rparr>) ''ann'' ''user.ann.Lists''
   \<and> (\<exists>w'. sieve_fileinto refusing_env (example_fc\<lparr>fc_do_create := True\<rparr>) example_sd example_mc
                empty_world = (SIEVE_FAIL, Some (Error_message (ERR 13)), w')
            \<and> createmailbox_calls w' = 1 \<and> deliver_mailbox_calls w' = 1)"
proof -
  let ?fc = "example_fc\<lparr>fc_do_create := True\<rparr>"
  have p: "autocreate_policy refusing_env ?fc ''ann'' ''user.ann.Lists''"
    by (simp add: autocreate_policy_def)
  have u: "mbname_userid (sd_mbname example_sd) = Some ''ann''" by (simp add: example_sd_def)
  have p': "autocreate_attempt refusing_env ?fc (mbname_userid (sd_mbname example_sd)) ''user.ann.Lists''"
    using p by (simp add: autocreate_attempt_def u)
  have st: "sd_edited_header example_sd \<longrightarrow> newstage_ok (ans refusing_env)"
    by (simp add: example_sd_def)
  have it: "fileinto_target refusing_env ?fc (mbname_userid (sd_mbname example_sd)) empty_world = ''user.ann.Lists''"
    by (simp add: fileinto_target_def example_fc_def refusing_env_def example_env_def
        example_ans_def printf_s_def u)
  have r1: "append_result refusing_env ''user.ann.Lists'' empty_world = IMAP_MAILBOX_NONEXISTENT"
    by (simp add: append_result_def empty_world_def)
  have cr: "createmailbox_r (ans refusing_env) ''user.ann.Lists'' = ERR 13"
    by (simp add: refusing_env_def)
  have z: "createmailbox_calls empty_world = 0" "deliver_mailbox_calls empty_world = 0"
    by (simp_all add: createmailbox_calls_def deliver_mailbox_calls_def empty_world_def)
  obtain r em w' where res: "sieve_fileinto refusing_env ?fc example_sd example_mc empty_world = (r, em, w')"
    by (cases "sieve_fileinto refusing_env ?fc example_sd example_mc empty_world")
  from sieve_fileinto_cases [OF st res] p'
  have "r = SIEVE_FAIL \<and> em = Some (Error_message (ERR 13))
        \<and> createmailbox_calls w' = 1 \<and> deliver_mailbox_calls w' = 1"
    unfolding it r1 cr z by simp
  with res p show ?thesis by simp
qed

text \<open>
  C6, amended.  For a fileinto (the header-edited copy, when one is needed, being staged):
  when the first delivery answers "mailbox does not exist", a create is attempted exactly
  when the script has an owner and the policy holds (the global any-folder override, or
  the target is the owner's mailbox of a configured auto-create name, or the per-rule
  create flag), and then once; when the create succeeds the delivery is retried exactly
  once and its answer decides the action; when the create fails the action fails with the
  create's error and no retry; when no create is attempted (the policy does not hold, or
  the script has no owner) the action fails with "mailbox does not exist".  Any other
  failure of the first delivery is returned as Fail with that error, with no create and
  no retry.
\<close>

theorem sieve_fileinto_autocreate:
  assumes "sd_edited_header sd \<longrightarrow> newstage_ok (ans e)"
    and "sieve_fileinto e fc sd mdata w = (r, em, w')"
    and "mbname_userid (sd_mbname sd) = userid"
    and "fileinto_target e fc userid w = intname"
    and "append_result e intname w = r1"
  shows "(autocreate_attempt e fc userid intname \<longleftrightarrow>
            (\<exists>user. userid = Some user
               \<and> (config_anysievefolder (cfg e)
                  \<or> (\<exists>subf. config_autocreate_sieve_folders (cfg e) = Some subf
                        \<and> (\<exists>name \<in> set (strarray_split subf).
                               mboxname_user_mbox (ans e) user name = intname))
                  \<or> fc_do_create fc)))
       \<and> (r1 \<noteq> IMAP_MAILBOX_NONEXISTENT \<and> r1 \<noteq> SIEVE_OK \<longrightarrow>
            r = SIEVE_FAIL \<and> em = Some (Error_message r1)
            \<and> deliver_mailbox_calls w' = deliver_mailbox_calls w + 1
            \<and> createmailbox_calls w' = createmailbox_calls w)
       \<and> (r1 = IMAP_MAILBOX_NONEXISTENT \<and> \<not> autocreate_attempt e fc userid intname \<longrightarrow>
            r = SIEVE_FAIL \<and> em = Some (Error_message IMAP_MAILBOX_NONEXISTENT)
            \<and> deliver_mailbox_calls w' = deliver_mailbox_calls w + 1
            \<and> createmailbox_calls w' = createmailbox_calls w)
       \<and> (r1 = IMAP_MAILBOX_NONEXISTENT \<and> autocreate_attempt e fc userid intname
            \<and> createmailbox_r (ans e) intname \<noteq> SIEVE_OK \<longrightarrow>
            r = SIEVE_FAIL \<and> em = Some (Error_message (createmailbox_r (ans e) intname))
            \<and> deliver_mailbox_calls w' = deliver_mailbox_calls w + 1
            \<and> createmailbox_calls w' = createmailbox_calls w + 1)
       \<and> (r1 = IMAP_MAILBOX_NONEXISTENT \<and> autocreate_attempt e fc userid intname
            \<and> createmailbox_r (ans e) intname = SIEVE_OK \<longrightarrow>
            r = (if deliver_r (ans e) intname = SIEVE_OK then SIEVE_OK else SIEVE_FAIL)
            \<and> em = (if deliver_r (ans e) intname = SIEVE_OK then None
                      else Some (Error_message (deliver_r (ans e) intname)))
            \<and> deliver_mailbox_calls w' = deliver_mailbox_calls w + 2
            \<and> createmailbox_calls w' = createmailbox_calls w + 1)"
proof -
  have pol: "autocreate_attempt e fc userid intname \<longleftrightarrow>
            (\<exists>user. userid = Some user
               \<and> (config_anysievefolder (cfg e)
                  \<or> (\<exists>subf. config_autocreate_sieve_folders (cfg e) = Some subf
                        \<and> (\<exists>name \<in> set (strarray_split subf).
                               mboxname_user_mbox (ans e) user name = intname))
                  \<or> fc_do_create fc))"
    by (cases userid; cases "config_autocreate_sieve_folders (cfg e)")
       (auto simp: autocreate_attempt_def autocreate_policy_def list_ex_iff)
  from sieve_fileinto_cases [OF assms(1,2)] pol show ?thesis
    unfolding assms(3,4,5) by auto
qed

lemma strarray_split_example: "strarray_split ''Junk | Lists'' = [''Junk'', ''Lists'']"
  by (simp add: strarray_split_def trim_def isspace_def SP_def)

theorem sieve_fileinto_autocreate_witness:
  "(\<exists>w'. sieve_fileinto example_env example_fc example_sd example_mc empty_world = (SIEVE_OK, None, w')
         \<and> deliver_mailbox_calls w' = 2 \<and> createmailbox_calls w' = 1)
   \<and> (\<exists>w'. sieve_fileinto example_env (example_fc\<lparr>fc_mailbox := ''Other''\<rparr>) example_sd example_mc
               empty_world = (SIEVE_FAIL, Some (Error_message IMAP_MAILBOX_NONEXISTENT), w')
         \<and> deliver_mailbox_calls w' = 1 \<and> createmailbox_calls w' = 0)
   \<and> (\<exists>w'. sieve_fileinto example_env (example_fc\<lparr>fc_do_create := True\<rparr>) shared_sd example_mc
               empty_world = (SIEVE_FAIL, Some (Error_message IMAP_MAILBOX_NONEXISTENT), w')
         \<and> deliver_mailbox_calls w' = 1 \<and> createmailbox_calls w' = 0)"
proof -
  have u: "mbname_userid (sd_mbname example_sd) = Some ''ann''" by (simp add: example_sd_def)
  have u0: "mbname_userid (sd_mbname shared_sd) = None" by (simp add: shared_sd_def)
  have st: "sd_edited_header example_sd \<longrightarrow> newstage_ok (ans example_env)"
    by (simp add: example_sd_def)
  have st0: "sd_edited_header shared_sd \<longrightarrow> newstage_ok (ans example_env)"
    by (simp add: shared_sd_def)
  have it: "fileinto_target example_env example_fc (Some ''ann'') empty_world = ''user.ann.Lists''"
    "fileinto_target example_env (example_fc\<lparr>fc_mailbox := ''Other''\<rparr>) (Some ''ann'') empty_world
       = ''user.ann.Other''"
    "fileinto_target example_env (example_fc\<lparr>fc_do_create := True\<rparr>) None empty_world
       = ''user.(null).Lists''"
    by (simp_all add: fileinto_target_def example_fc_def example_env_def example_ans_def printf_s_def)
  have r1: "append_result example_env n empty_world = IMAP_MAILBOX_NONEXISTENT" for n
    by (simp add: append_result_def empty_world_def)
  have p1: "autocreate_attempt example_env example_fc (Some ''ann'') ''user.ann.Lists''"
    by (simp add: autocreate_attempt_def autocreate_policy_def example_env_def example_cfg_def
        example_ans_def strarray_split_example)
  have p2: "\<not> autocreate_attempt example_env (example_fc\<lparr>fc_mailbox := ''Other''\<rparr>) (Some ''ann'') ''user.ann.Other''"
    by (simp add: autocreate_attempt_def autocreate_policy_def example_env_def example_cfg_def
        example_ans_def strarray_split_example example_fc_def)
  have p3: "\<not> autocreate_attempt example_env (example_fc\<lparr>fc_do_create := True\<rparr>) None ''user.(null).Lists''"
    by (simp add: autocreate_attempt_def)
  have a: "createmailbox_r (ans example_env) n = SIEVE_OK" "deliver_r (ans example_env) n = SIEVE_OK" for n
    by (simp_all add: example_env_def example_ans_def)
  have z: "createmailbox_calls empty_world = 0" "deliver_mailbox_calls empty_world = 0"
    by (simp_all add: createmailbox_calls_def deliver_mailbox_calls_def empty_world_def)
  obtain r em w' where res1: "sieve_fileinto example_env example_fc example_sd example_mc empty_world = (r, em, w')"
    by (cases "sieve_fileinto example_env example_fc example_sd example_mc empty_world")
  from sieve_fileinto_autocreate [OF st res1 u it(1) r1] p1
  have c1: "r = SIEVE_OK \<and> em = None \<and> deliver_mailbox_calls w' = 2 \<and> createmailbox_calls w' = 1"
    by (simp add: a z)
  obtain r2 em2 w2 where res2: "sieve_fileinto example_env (example_fc\<lparr>fc_mailbox := ''Other''\<rparr>)
      example_sd example_mc empty_world = (r2, em2, w2)"
    by (cases "sieve_fileinto example_env (example_fc\<lparr>fc_mailbox := ''Other''\<rparr>) example_sd example_mc empty_world")
  from sieve_fileinto_autocreate [OF st res2 u it(2) r1] p2
  have c2: "r2 = SIEVE_FAIL \<and> em2 = Some (Error_message IMAP_MAILBOX_NONEXISTENT)
      \<and> deliver_mailbox_calls w2 = 1 \<and> createmailbox_calls w2 = 0"
    by (simp add: z)
  obtain r3 em3 w3 where res3: "sieve_fileinto example_env (example_fc\<lparr>fc_do_create := True\<rparr>)
      shared_sd example_mc empty_world = (r3, em3, w3)"
    by (cases "sieve_fileinto example_env (example_fc\<lparr>fc_do_create := True\<rparr>) shared_sd example_mc empty_world")
  from sieve_fileinto_autocreate [OF st0 res3 u0 it(3) r1] p3
  have c3: "r3 = SIEVE_FAIL \<and> em3 = Some (Error_message IMAP_MAILBOX_NONEXISTENT)
      \<and> deliver_mailbox_calls w3 = 1 \<and> createmailbox_calls w3 = 0"
    by (simp add: z)
  from res1 c1 res2 c2 res3 c3 show ?thesis by simp
qed




lemma annotate_specialuse_frame [simp]:
  "dupdb (annotate_specialuse e fc n w) = dupdb w"
  "smtp_sends (annotate_specialuse e fc n w) = smtp_sends w"
  by (simp_all add: annotate_specialuse_def annotatemore_write_def split: option.splits)

lemma smtp_sends_count_update [simp]:
  "smtp_sends (w\<lparr>global_outgoing_count := c\<rparr>) = smtp_sends w"
  "smtp_sends (w\<lparr>dupdb := d\<rparr>) = smtp_sends w"
  by (simp_all add: smtp_sends_def)










lemma printf_prec_take: "n < 2 ^ 31 \<Longrightarrow> printf_prec n s = take n s"
proof -
  assume n: "n < 2 ^ 31"
  have "signed_take_bit 31 (int n) = int n"
    using n by (intro signed_take_bit_int_eq_self) simp_all
  then have "sint (word_of_nat n :: 32 word) = int n"
    by (simp add: signed_of_nat)
  then show ?thesis by (simp add: printf_prec_def Let_def)
qed

lemma scan_stops_at_mark:
  assumes "fold_mark m j" "p \<le> j" "\<forall>i. p \<le> i \<and> i < j \<longrightarrow> \<not> fold_mark m i"
  shows "\<exists>l'. scan m mx p l = (j, l')"
  using assms
proof (induction "j - p" arbitrary: p l)
  case 0
  then have "p = j" by simp
  with "0.prems"(1) show ?case
    by (subst scan.simps) (auto simp: fold_mark_def)
next
  case (Suc n)
  then have lt: "p < j" and jl: "j < length m" by (auto simp: fold_mark_def)
  then have nm: "\<not> fold_mark m p" using Suc.prems(3) by auto
  have pl: "p < length m" using lt jl by simp
  have step: "\<exists>l''. scan m mx p l = scan m mx (Suc p) l''"
    using nm pl by (subst scan.simps) (auto simp: fold_mark_def)
  then obtain l'' where s: "scan m mx p l = scan m mx (Suc p) l''" by blast
  have "\<exists>l'. scan m mx (Suc p) l'' = (j, l')"
    using Suc.hyps(1) [of "Suc p" l''] Suc.hyps(2) Suc.prems lt by auto
  with s show ?case by simp
qed

lemma scan_no_blank:
  assumes "\<forall>i. p \<le> i \<and> i < length m \<longrightarrow> \<not> isblank (m ! i)" "p \<le> length m"
  shows "scan m mx p l = (length m, l)"
  using assms
proof (induction "length m - p" arbitrary: p)
  case 0
  then show ?case by (subst scan.simps) simp
next
  case (Suc n)
  then have pl: "p < length m" by simp
  with Suc.prems have nb: "m ! p \<noteq> SP" "m ! p \<noteq> HTAB" by (auto simp: isblank_def)
  have "scan m mx p l = scan m mx (Suc p) l"
    using pl nb by (subst scan.simps) simp
  moreover have "scan m mx (Suc p) l = (length m, l)"
    using Suc.hyps(1) [of "Suc p"] Suc.hyps(2) Suc.prems pl by auto
  ultimately show ?case by simp
qed

lemma scan_short:
  assumes "\<forall>i. p \<le> i \<and> i < length m \<longrightarrow> \<not> fold_mark m i" "p \<le> length m" "length m \<le> mx"
  shows "scan m mx p l = (length m, l)"
  using assms
proof (induction "length m - p" arbitrary: p)
  case 0
  then show ?case by (subst scan.simps) simp
next
  case (Suc n)
  then have pl: "p < length m" by simp
  with Suc.prems have nm: "\<not> fold_mark m p" by auto
  have "scan m mx p l = scan m mx (Suc p) l"
    using pl nm Suc.prems(3) by (subst scan.simps) (auto simp: fold_mark_def)
  moreover have "scan m mx (Suc p) l = (length m, l)"
    using Suc.hyps(1) [of "Suc p"] Suc.hyps(2) Suc.prems pl by auto
  ultimately show ?case by simp
qed

lemma scan_track_some:
  assumes "\<forall>i. p \<le> i \<and> i < length m \<longrightarrow> \<not> fold_mark m i" "p \<le> length m" "mx < length m"
    and "j \<le> mx"
  shows "\<exists>j'. scan m mx p (Some j) = (length m, Some j') \<and> j' \<le> mx
           \<and> (j' = j \<or> (p \<le> j' \<and> j' < length m \<and> m ! j' = SP))
           \<and> (\<forall>i. p \<le> i \<and> i < length m \<and> i \<le> mx \<and> m ! i = SP \<longrightarrow> i \<le> j')"
  using assms
proof (induction "length m - p" arbitrary: p j)
  case 0
  then have "scan m mx p (Some j) = (length m, Some j)" by (subst scan.simps) simp
  with 0 show ?case by auto
next
  case (Suc n)
  then have pl: "p < length m" by simp
  with Suc.prems have nm: "\<not> fold_mark m p" by auto
  have rest: "\<forall>i. Suc p \<le> i \<and> i < length m \<longrightarrow> \<not> fold_mark m i" using Suc.prems(1) by auto
  have n: "n = length m - Suc p" using Suc.hyps(2) by simp
  show ?case
  proof (cases "m ! p = SP \<and> p \<le> mx")
    case True
    have s: "scan m mx p (Some j) = scan m mx (Suc p) (Some p)"
      using pl nm True Suc.prems(3) by (subst scan.simps) (auto simp: fold_mark_def)
    from Suc.hyps(1) [OF n rest _ Suc.prems(3), of p] pl True
    obtain j' where j': "scan m mx (Suc p) (Some p) = (length m, Some j')" "j' \<le> mx"
      "j' = p \<or> (Suc p \<le> j' \<and> j' < length m \<and> m ! j' = SP)"
      "\<forall>i. Suc p \<le> i \<and> i < length m \<and> i \<le> mx \<and> m ! i = SP \<longrightarrow> i \<le> j'"
      by auto
    have "\<forall>i. p \<le> i \<and> i < length m \<and> i \<le> mx \<and> m ! i = SP \<longrightarrow> i \<le> j'"
    proof (intro allI impI)
      fix i assume i: "p \<le> i \<and> i < length m \<and> i \<le> mx \<and> m ! i = SP"
      show "i \<le> j'"
      proof (cases "i = p")
        case True
        then show ?thesis using j'(3) by auto
      next
        case False
        then show ?thesis using i j'(4) by auto
      qed
    qed
    with s j' True pl show ?thesis by auto
  next
    case False
    have s: "scan m mx p (Some j) = scan m mx (Suc p) (Some j)"
      using pl nm False Suc.prems(3) by (subst scan.simps) (auto simp: fold_mark_def)
    from Suc.hyps(1) [OF n rest _ Suc.prems(3) Suc.prems(4)] pl
    obtain j' where j': "scan m mx (Suc p) (Some j) = (length m, Some j')" "j' \<le> mx"
      "j' = j \<or> (Suc p \<le> j' \<and> j' < length m \<and> m ! j' = SP)"
      "\<forall>i. Suc p \<le> i \<and> i < length m \<and> i \<le> mx \<and> m ! i = SP \<longrightarrow> i \<le> j'"
      by auto
    have "\<forall>i. p \<le> i \<and> i < length m \<and> i \<le> mx \<and> m ! i = SP \<longrightarrow> i \<le> j'"
    proof (intro allI impI)
      fix i assume i: "p \<le> i \<and> i < length m \<and> i \<le> mx \<and> m ! i = SP"
      with False have "i \<noteq> p" by auto
      with i j'(4) show "i \<le> j'" by auto
    qed
    with s j' show ?thesis by auto
  qed
qed

lemma scan_track_none:
  assumes "\<forall>i. p \<le> i \<and> i < length m \<longrightarrow> \<not> fold_mark m i" "p \<le> length m" "mx < length m"
    and "\<exists>i. p \<le> i \<and> i < length m \<and> i \<le> mx \<and> m ! i = SP"
  shows "\<exists>j'. scan m mx p None = (length m, Some j') \<and> j' \<le> mx
           \<and> p \<le> j' \<and> j' < length m \<and> m ! j' = SP
           \<and> (\<forall>i. p \<le> i \<and> i < length m \<and> i \<le> mx \<and> m ! i = SP \<longrightarrow> i \<le> j')"
  using assms
proof (induction "length m - p" arbitrary: p)
  case 0
  then show ?case by auto
next
  case (Suc n)
  then have pl: "p < length m" by simp
  with Suc.prems have nm: "\<not> fold_mark m p" by auto
  have rest: "\<forall>i. Suc p \<le> i \<and> i < length m \<longrightarrow> \<not> fold_mark m i" using Suc.prems(1) by auto
  have n: "n = length m - Suc p" using Suc.hyps(2) by simp
  from Suc.prems(4) obtain i0 where i0: "p \<le> i0" "i0 < length m" "i0 \<le> mx" "m ! i0 = SP" by auto
  show ?case
  proof (cases "m ! p = SP")
    case True
    have pm: "p \<le> mx" using i0 by simp
    have s: "scan m mx p None = scan m mx (Suc p) (Some p)"
      using pl nm True Suc.prems(3) by (subst scan.simps) (auto simp: fold_mark_def)
    from scan_track_some [OF rest _ Suc.prems(3) pm] pl
    obtain j' where j': "scan m mx (Suc p) (Some p) = (length m, Some j')" "j' \<le> mx"
      "j' = p \<or> (Suc p \<le> j' \<and> j' < length m \<and> m ! j' = SP)"
      "\<forall>i. Suc p \<le> i \<and> i < length m \<and> i \<le> mx \<and> m ! i = SP \<longrightarrow> i \<le> j'"
      by auto
    have "\<forall>i. p \<le> i \<and> i < length m \<and> i \<le> mx \<and> m ! i = SP \<longrightarrow> i \<le> j'"
    proof (intro allI impI)
      fix i assume i: "p \<le> i \<and> i < length m \<and> i \<le> mx \<and> m ! i = SP"
      show "i \<le> j'"
      proof (cases "i = p")
        case True
        then show ?thesis using j'(3) by auto
      next
        case False
        then show ?thesis using i j'(4) by auto
      qed
    qed
    with s j' True pl show ?thesis by auto
  next
    case False
    have s: "scan m mx p None = scan m mx (Suc p) None"
      using pl nm False by (subst scan.simps) (auto simp: fold_mark_def)
    have ex: "\<exists>i. Suc p \<le> i \<and> i < length m \<and> i \<le> mx \<and> m ! i = SP"
    proof -
      from i0 False have "i0 \<noteq> p" by auto
      with i0 show ?thesis by (intro exI [of _ i0]) auto
    qed
    from Suc.hyps(1) [OF n rest _ Suc.prems(3) ex] pl
    obtain j' where j': "scan m mx (Suc p) None = (length m, Some j')" "j' \<le> mx"
      "Suc p \<le> j'" "j' < length m" "m ! j' = SP"
      "\<forall>i. Suc p \<le> i \<and> i < length m \<and> i \<le> mx \<and> m ! i = SP \<longrightarrow> i \<le> j'"
      by auto
    have "\<forall>i. p \<le> i \<and> i < length m \<and> i \<le> mx \<and> m ! i = SP \<longrightarrow> i \<le> j'"
    proof (intro allI impI)
      fix i assume i: "p \<le> i \<and> i < length m \<and> i \<le> mx \<and> m ! i = SP"
      with False have "i \<noteq> p" by auto
      with i j'(6) show "i \<le> j'" by auto
    qed
    with s j' show ?thesis by auto
  qed
qed

lemma scan_keep_beyond:
  assumes "\<forall>i. p \<le> i \<and> i < length m \<longrightarrow> \<not> fold_mark m i" "p \<le> length m" "mx < length m"
    and "\<forall>i. p \<le> i \<and> i < length m \<and> m ! i = SP \<longrightarrow> mx < i"
  shows "scan m mx p (Some j) = (length m, Some j)"
  using assms
proof (induction "length m - p" arbitrary: p)
  case 0
  then show ?case by (subst scan.simps) simp
next
  case (Suc n)
  then have pl: "p < length m" by simp
  with Suc.prems have nm: "\<not> fold_mark m p" by auto
  have far: "m ! p = SP \<longrightarrow> mx < p" using Suc.prems(4) pl by auto
  have "scan m mx p (Some j) = scan m mx (Suc p) (Some j)"
    using pl nm far Suc.prems(3) by (subst scan.simps) (auto simp: fold_mark_def)
  moreover have "scan m mx (Suc p) (Some j) = (length m, Some j)"
    using Suc.hyps(1) [of "Suc p"] Suc.hyps(2) Suc.prems pl by auto
  ultimately show ?case by simp
qed

lemma scan_first_beyond:
  assumes "\<forall>i. p \<le> i \<and> i < length m \<longrightarrow> \<not> fold_mark m i" "mx < length m"
    and "p \<le> k" "k < length m" "m ! k = SP" "mx < k"
    and "\<forall>i. p \<le> i \<and> i < k \<longrightarrow> m ! i \<noteq> SP"
  shows "scan m mx p None = (length m, Some k)"
  using assms
proof (induction "k - p" arbitrary: p)
  case 0
  then have pk: "p = k" by simp
  have nm: "\<not> fold_mark m k" using "0.prems"(1,4) pk by auto
  have "scan m mx k None = scan m mx (Suc k) (Some k)"
    using nm "0.prems"(2,4,5) by (subst scan.simps) (auto simp: fold_mark_def)
  moreover have "scan m mx (Suc k) (Some k) = (length m, Some k)"
  proof (rule scan_keep_beyond)
    show "\<forall>i. Suc k \<le> i \<and> i < length m \<longrightarrow> \<not> fold_mark m i" using "0.prems"(1) pk by auto
    show "Suc k \<le> length m" using "0.prems"(4) by simp
    show "mx < length m" by (rule "0.prems"(2))
    show "\<forall>i. Suc k \<le> i \<and> i < length m \<and> m ! i = SP \<longrightarrow> mx < i" using "0.prems"(6) by auto
  qed
  ultimately show ?case using pk by simp
next
  case (Suc n)
  then have lt: "p < k" by simp
  then have pl: "p < length m" using Suc.prems(4) by simp
  have nm: "\<not> fold_mark m p" using Suc.prems(1) pl by auto
  have ns: "m ! p \<noteq> SP" using Suc.prems(7) lt by auto
  have "scan m mx p None = scan m mx (Suc p) None"
    using pl nm ns by (subst scan.simps) (auto simp: fold_mark_def)
  moreover have "scan m mx (Suc p) None = (length m, Some k)"
    using Suc.hyps(1) [of "Suc p"] Suc.hyps(2) Suc.prems lt by auto
  ultimately show ?case by simp
qed

lemma fold_value_step:
  "m \<noteq> [] \<Longrightarrow> fold_value mx m =
     (if isblank (hd m) then CRLF else []) @ printf_prec (fold_point mx m) m
     @ fold_value 78 (drop (fold_point mx m) m)"
  by (subst fold_value.simps) simp

lemma fold_value_Nil [simp]: "fold_value mx [] = []"
  by (subst fold_value.simps) simp

lemma skip_fws_le: "skip_fws m \<le> length m"
proof (cases m)
  case Nil
  then show ?thesis by (simp add: skip_fws_def)
next
  case (Cons c cs)
  have "length (takeWhile isblank cs) \<le> length cs" by (rule length_takeWhile_le)
  with Cons show ?thesis by (simp add: skip_fws_def)
qed

lemma fold_point_mark:
  assumes "fold_mark m j" "skip_fws m \<le> j" "\<forall>i. skip_fws m \<le> i \<and> i < j \<longrightarrow> \<not> fold_mark m i"
  shows "fold_point mx m = j"
proof -
  from scan_stops_at_mark [OF assms, of mx None]
  obtain l' where "scan m mx (skip_fws m) None = (j, l')" by blast
  moreover have "j < length m" using assms(1) by (simp add: fold_mark_def)
  ultimately show ?thesis by (simp add: fold_point_def split: option.splits)
qed

lemma fold_point_single:
  assumes "\<forall>i. skip_fws m \<le> i \<longrightarrow> \<not> fold_mark m i" "mx < length m"
    and "skip_fws m \<le> k" "k \<le> mx" "k < length m" "m ! k = SP"
    and "\<forall>i. k < i \<and> i \<le> mx \<and> i < length m \<longrightarrow> m ! i \<noteq> SP"
  shows "fold_point mx m = k"
proof -
  have nm: "\<forall>i. skip_fws m \<le> i \<and> i < length m \<longrightarrow> \<not> fold_mark m i" using assms(1) by simp
  have ex: "\<exists>i. skip_fws m \<le> i \<and> i < length m \<and> i \<le> mx \<and> m ! i = SP"
    using assms(3-6) by blast
  from scan_track_none [OF nm skip_fws_le assms(2) ex]
  obtain j' where j': "scan m mx (skip_fws m) None = (length m, Some j')" "j' \<le> mx"
    "skip_fws m \<le> j'" "j' < length m" "m ! j' = SP"
    "\<forall>i. skip_fws m \<le> i \<and> i < length m \<and> i \<le> mx \<and> m ! i = SP \<longrightarrow> i \<le> j'"
    by blast
  have "k \<le> j'" using j'(6) assms(3-6) by blast
  moreover have "\<not> k < j'" using assms(7) j'(2,4,5) by blast
  ultimately have "j' = k" by simp
  with j'(1) show ?thesis by (simp add: fold_point_def)
qed

lemma fold_point_short:
  assumes "\<forall>i. skip_fws m \<le> i \<longrightarrow> \<not> fold_mark m i" "length m \<le> mx"
  shows "fold_point mx m = length m"
proof -
  have nm: "\<forall>i. skip_fws m \<le> i \<and> i < length m \<longrightarrow> \<not> fold_mark m i" using assms(1) by simp
  from scan_short [OF nm skip_fws_le assms(2), of None]
  show ?thesis by (simp add: fold_point_def)
qed

lemma fold_point_no_blank:
  assumes "\<forall>c \<in> set m. \<not> isblank c"
  shows "fold_point mx m = length m"
proof -
  have s: "skip_fws m = 0" using assms by (cases m) (simp_all add: skip_fws_def)
  have "\<forall>i. 0 \<le> i \<and> i < length m \<longrightarrow> \<not> isblank (m ! i)" using assms by simp
  from scan_no_blank [OF this, of mx None] show ?thesis by (simp add: fold_point_def s)
qed

lemma fold_point_beyond:
  assumes "\<forall>i. skip_fws m \<le> i \<longrightarrow> \<not> fold_mark m i" "mx < length m"
    and "skip_fws m \<le> k" "mx < k" "k < length m" "m ! k = SP"
    and "\<forall>i. skip_fws m \<le> i \<and> i < k \<longrightarrow> m ! i \<noteq> SP"
  shows "fold_point mx m = k"
proof -
  have nm: "\<forall>i. skip_fws m \<le> i \<and> i < length m \<longrightarrow> \<not> fold_mark m i" using assms(1) by simp
  from scan_first_beyond [OF nm assms(2) assms(3) assms(5) assms(6) assms(4) assms(7)]
  show ?thesis by (simp add: fold_point_def)
qed

lemma first_maxlen_eq: "length name + 2 \<le> 78 \<Longrightarrow> first_maxlen name = 78 - (length name + 2)"
proof -
  assume a: "length name + 2 \<le> 78"
  have "(78 :: 64 word) - (word_of_nat (length name) + 2) = word_of_nat (78 - (length name + 2))"
    using a by (simp add: of_nat_diff)
  moreover have "unat (word_of_nat (78 - (length name + 2)) :: 64 word) = 78 - (length name + 2)"
    by (simp add: unsigned_of_nat take_bit_nat_eq_self)
  ultimately show ?thesis by (simp add: first_maxlen_def)
qed

lemma first_maxlen_wrap:
  assumes "76 < length name" "length name < 2 ^ 64"
  shows "first_maxlen name = 2 ^ 64 + 76 - length name"
proof -
  define N where "N = (2 :: nat) ^ 64 + 76 - length name"
  have lt: "N < 2 ^ 64" using assms by (simp add: N_def)
  have sum: "N + (length name + 2) = 2 ^ 64 + 78" using assms by (simp add: N_def)
  have "(word_of_nat N :: 64 word) + (word_of_nat (length name) + 2) = word_of_nat (N + (length name + 2))"
    by simp
  also have "\<dots> = word_of_nat (2 ^ 64 + 78)" by (simp only: sum)
  also have "\<dots> = (78 :: 64 word)" by simp
  finally have "(78 :: 64 word) - (word_of_nat (length name) + 2) = word_of_nat N"
    by (simp add: algebra_simps)
  moreover have "unat (word_of_nat N :: 64 word) = N"
    using lt by (simp add: unsigned_of_nat take_bit_nat_eq_self)
  ultimately show ?thesis by (simp add: first_maxlen_def N_def)
qed

text \<open>
  C9, amended.  dump\_header writes the name, ": ", the folded text of the encoded value
  and CRLF; the first line may take the 78 columns less the name and ": " (for a name of
  at most 76 bytes; for a longer name the subtraction wraps around in \<open>size_t\<close>).  For a
  chunk of the text (the value, or what is left of it from a fold on, shorter than 2^31
  bytes): when it has no fold mark (HTAB, or SP before SP) after its leading white space
  and does not fit the allowed length, the chunk is cut at the last SP at or before that
  length when there is one, and otherwise at the first SP after it; when it has no fold
  mark and fits, it is written whole; when it has a fold mark, it is cut at the first
  one, whatever the allowed length and the single SPs before it; when it has no SP and no
  HTAB at all it is written whole however long it is.  What is left after a cut starts
  with white space and is written after a CRLF.
\<close>

theorem dump_header_folding:
  "dump_header e name val =
       name @ '': '' @ fold_value (first_maxlen name) (charset_encode_mimeheader (ans e) val) @ CRLF
   \<and> (length name + 2 \<le> 78 \<longrightarrow> first_maxlen name = 78 - (length name + 2))
   \<and> (m \<noteq> [] \<and> length m < 2 ^ 31 \<and> (\<forall>i. skip_fws m \<le> i \<longrightarrow> \<not> fold_mark m i)
        \<and> mx < length m \<and> skip_fws m \<le> k \<and> k \<le> mx \<and> k < length m \<and> m ! k = SP
        \<and> (\<forall>i. k < i \<and> i \<le> mx \<and> i < length m \<longrightarrow> m ! i \<noteq> SP)
      \<longrightarrow> fold_value mx m =
            (if isblank (hd m) then CRLF else []) @ take k m @ fold_value 78 (drop k m))
   \<and> (m \<noteq> [] \<and> length m < 2 ^ 31 \<and> (\<forall>i. skip_fws m \<le> i \<longrightarrow> \<not> fold_mark m i)
        \<and> length m \<le> mx
      \<longrightarrow> fold_value mx m = (if isblank (hd m) then CRLF else []) @ m)
   \<and> (m \<noteq> [] \<and> length m < 2 ^ 31 \<and> fold_mark m j \<and> skip_fws m \<le> j
        \<and> (\<forall>i. skip_fws m \<le> i \<and> i < j \<longrightarrow> \<not> fold_mark m i)
      \<longrightarrow> fold_value mx m =
            (if isblank (hd m) then CRLF else []) @ take j m @ fold_value 78 (drop j m))
   \<and> (length m < 2 ^ 31 \<and> (\<forall>c \<in> set m. \<not> isblank c) \<longrightarrow> fold_value mx m = m)
   \<and> (m \<noteq> [] \<and> isblank (hd m) \<longrightarrow> take 2 (fold_value mx m) = CRLF)
   \<and> (m \<noteq> [] \<and> length m < 2 ^ 31 \<and> (\<forall>i. skip_fws m \<le> i \<longrightarrow> \<not> fold_mark m i)
        \<and> mx < length m \<and> skip_fws m \<le> k \<and> mx < k \<and> k < length m \<and> m ! k = SP
        \<and> (\<forall>i. skip_fws m \<le> i \<and> i < k \<longrightarrow> m ! i \<noteq> SP)
      \<longrightarrow> fold_value mx m =
            (if isblank (hd m) then CRLF else []) @ take k m @ fold_value 78 (drop k m))
   \<and> (76 < length name \<and> length name < 2 ^ 64 \<longrightarrow> first_maxlen name = 2 ^ 64 + 76 - length name)"
proof (intro conjI impI)
  show "dump_header e name val =
       name @ '': '' @ fold_value (first_maxlen name) (charset_encode_mimeheader (ans e) val) @ CRLF"
    by (simp add: dump_header_def Let_def)
next
  assume "length name + 2 \<le> 78"
  then show "first_maxlen name = 78 - (length name + 2)" by (rule first_maxlen_eq)
next
  assume h: "m \<noteq> [] \<and> length m < 2 ^ 31 \<and> (\<forall>i. skip_fws m \<le> i \<longrightarrow> \<not> fold_mark m i)
        \<and> mx < length m \<and> skip_fws m \<le> k \<and> k \<le> mx \<and> k < length m \<and> m ! k = SP
        \<and> (\<forall>i. k < i \<and> i \<le> mx \<and> i < length m \<longrightarrow> m ! i \<noteq> SP)"
  then have fp: "fold_point mx m = k" by (intro fold_point_single) auto
  have "k < 2 ^ 31" using h by simp
  then show "fold_value mx m =
            (if isblank (hd m) then CRLF else []) @ take k m @ fold_value 78 (drop k m)"
    using h fold_value_step [of m mx] by (simp add: fp printf_prec_take)
next
  assume h: "m \<noteq> [] \<and> length m < 2 ^ 31 \<and> (\<forall>i. skip_fws m \<le> i \<longrightarrow> \<not> fold_mark m i)
        \<and> length m \<le> mx"
  then have fp: "fold_point mx m = length m" by (intro fold_point_short) auto
  show "fold_value mx m = (if isblank (hd m) then CRLF else []) @ m"
    using h fold_value_step [of m mx] by (simp add: fp printf_prec_take)
next
  assume h: "m \<noteq> [] \<and> length m < 2 ^ 31 \<and> fold_mark m j \<and> skip_fws m \<le> j
        \<and> (\<forall>i. skip_fws m \<le> i \<and> i < j \<longrightarrow> \<not> fold_mark m i)"
  then have fp: "fold_point mx m = j" by (intro fold_point_mark) auto
  have "j < 2 ^ 31" using h by (simp add: fold_mark_def)
  then show "fold_value mx m =
            (if isblank (hd m) then CRLF else []) @ take j m @ fold_value 78 (drop j m)"
    using h fold_value_step [of m mx] by (simp add: fp printf_prec_take)
next
  assume h: "length m < 2 ^ 31 \<and> (\<forall>c \<in> set m. \<not> isblank c)"
  show "fold_value mx m = m"
  proof (cases "m = []")
    case True
    then show ?thesis by simp
  next
    case False
    from h have fp: "fold_point mx m = length m" by (intro fold_point_no_blank) auto
    from h False have "\<not> isblank (hd m)" by (cases m) auto
    then show ?thesis using h False fold_value_step [of m mx] by (simp add: fp printf_prec_take)
  qed
next
  assume "m \<noteq> [] \<and> isblank (hd m)"
  then show "take 2 (fold_value mx m) = CRLF"
    using fold_value_step [of m mx] by (simp add: CRLF_def)
next
  assume h: "m \<noteq> [] \<and> length m < 2 ^ 31 \<and> (\<forall>i. skip_fws m \<le> i \<longrightarrow> \<not> fold_mark m i)
        \<and> mx < length m \<and> skip_fws m \<le> k \<and> mx < k \<and> k < length m \<and> m ! k = SP
        \<and> (\<forall>i. skip_fws m \<le> i \<and> i < k \<longrightarrow> m ! i \<noteq> SP)"
  then have fp: "fold_point mx m = k" by (intro fold_point_beyond) auto
  have "k < 2 ^ 31" using h by simp
  then show "fold_value mx m =
            (if isblank (hd m) then CRLF else []) @ take k m @ fold_value 78 (drop k m)"
    using h fold_value_step [of m mx] by (simp add: fp printf_prec_take)
next
  assume "76 < length name \<and> length name < 2 ^ 64"
  then show "first_maxlen name = 2 ^ 64 + 76 - length name" by (intro first_maxlen_wrap) auto
qed

lemma fold_mark_Cons:
  "fold_mark (c # cs) i \<longleftrightarrow>
     (case i of 0 \<Rightarrow> c = HTAB \<or> (c = SP \<and> cs \<noteq> [] \<and> hd cs = SP) | Suc i' \<Rightarrow> fold_mark cs i')"
  by (cases i; cases cs) (auto simp: fold_mark_def)

lemma has_mark_iff: "has_mark m \<longleftrightarrow> (\<exists>i. fold_mark m i)"
proof (induction m)
  case Nil
  then show ?case by (simp add: fold_mark_def)
next
  case (Cons c cs)
  have "(\<exists>i. fold_mark (c # cs) i) \<longleftrightarrow>
          (c = HTAB \<or> (c = SP \<and> cs \<noteq> [] \<and> hd cs = SP)) \<or> (\<exists>i'. fold_mark cs i')"
  proof
    assume "\<exists>i. fold_mark (c # cs) i"
    then obtain i where i: "fold_mark (c # cs) i" by blast
    then show "(c = HTAB \<or> (c = SP \<and> cs \<noteq> [] \<and> hd cs = SP)) \<or> (\<exists>i'. fold_mark cs i')"
      by (cases i) (auto simp: fold_mark_Cons)
  next
    assume a: "(c = HTAB \<or> (c = SP \<and> cs \<noteq> [] \<and> hd cs = SP)) \<or> (\<exists>i'. fold_mark cs i')"
    then show "\<exists>i. fold_mark (c # cs) i"
    proof
      assume "c = HTAB \<or> (c = SP \<and> cs \<noteq> [] \<and> hd cs = SP)"
      then have "fold_mark (c # cs) 0" by (simp add: fold_mark_Cons)
      then show ?thesis by blast
    next
      assume "\<exists>i'. fold_mark cs i'"
      then obtain i' where "fold_mark cs i'" by blast
      then have "fold_mark (c # cs) (Suc i')" by (simp add: fold_mark_Cons)
      then show ?thesis by blast
    qed
  qed
  with Cons.IH show ?case by simp
qed

lemma no_mark_from: "\<not> has_mark m \<Longrightarrow> \<forall>i. s \<le> i \<longrightarrow> \<not> fold_mark m i"
  by (simp add: has_mark_iff)

lemma no_sp_between:
  assumes "SP \<notin> set (take (mx - k) (drop (Suc k) m))"
  shows "\<forall>i. k < i \<and> i \<le> mx \<and> i < length m \<longrightarrow> m ! i \<noteq> SP"
proof (intro allI impI)
  fix i assume i: "k < i \<and> i \<le> mx \<and> i < length m"
  let ?j = "i - Suc k"
  have j: "?j < mx - k" "?j < length (drop (Suc k) m)" using i by auto
  then have "take (mx - k) (drop (Suc k) m) ! ?j = m ! i" using i by simp
  moreover have "?j < length (take (mx - k) (drop (Suc k) m))" using j by simp
  ultimately have "m ! i \<in> set (take (mx - k) (drop (Suc k) m))" by (metis nth_mem)
  with assms show "m ! i \<noteq> SP" by auto
qed

lemma example_value_facts:
  "length example_value = 100" "\<not> has_mark example_value" "skip_fws example_value = 0"
  "example_value ! 60 = SP" "SP \<notin> set (take (69 - 60) (drop (Suc 60) example_value))"
  "\<not> isblank (hd example_value)" "example_value \<noteq> []"
  by (simp_all add: example_value_def SP_def HTAB_def skip_fws_def isblank_def)

lemma example_rest_facts:
  "length (drop 60 example_value) = 40" "\<not> has_mark (drop 60 example_value)"
  "isblank (hd (drop 60 example_value))" "drop 60 example_value \<noteq> []"
  by (simp_all add: example_value_def SP_def HTAB_def isblank_def)

lemma example_long_word_facts:
  "length example_long_word = 91" "\<not> has_mark example_long_word" "skip_fws example_long_word = 0"
  "example_long_word ! 80 = SP" "SP \<notin> set (take 80 example_long_word)"
  "\<not> isblank (hd example_long_word)" "example_long_word \<noteq> []"
  "drop 80 example_long_word = '' yyyyyyyyyy''"
  by (simp_all add: example_long_word_def SP_def HTAB_def skip_fws_def isblank_def)

lemma no_sp_before:
  assumes "SP \<notin> set (take k m)" "k \<le> length m"
  shows "\<forall>i. s \<le> i \<and> i < k \<longrightarrow> m ! i \<noteq> SP"
proof (intro allI impI)
  fix i assume i: "s \<le> i \<and> i < k"
  then have "take k m ! i = m ! i" "i < length (take k m)" using assms(2) by simp_all
  then have "m ! i \<in> set (take k m)" by (metis nth_mem)
  with assms(1) show "m ! i \<noteq> SP" by auto
qed

lemma fold_value_short:
  assumes "m \<noteq> []" "length m < 2 ^ 31" "\<forall>i. skip_fws m \<le> i \<longrightarrow> \<not> fold_mark m i" "length m \<le> mx"
  shows "fold_value mx m = (if isblank (hd m) then CRLF else []) @ m"
proof -
  from assms(3,4) have fp: "fold_point mx m = length m" by (intro fold_point_short) auto
  show ?thesis using assms fold_value_step [of m mx] by (simp add: fp printf_prec_take)
qed

text \<open>
  C9 as stated fails: a value that does not fit and whose first single SP comes after the
  allowed length is not folded at or before column 78 but at that SP.  Under "Subject" a
  value of 80 bytes, a SP and 10 bytes gives a first line of 89 columns.
\<close>

theorem fold_beyond_counterexample:
  "dump_header example_env ''Subject'' example_long_word =
     ''Subject: '' @ take 80 example_long_word @ CRLF @ '' yyyyyyyyyy'' @ CRLF
   \<and> length (''Subject: '' @ take 80 example_long_word) = 89
   \<and> SP \<notin> set (take 80 example_long_word) \<and> example_long_word ! 80 = SP
   \<and> \<not> has_mark example_long_word"
proof -
  have enc: "charset_encode_mimeheader (ans example_env) v = v" for v
    by (simp add: example_env_def example_ans_def)
  have mx: "first_maxlen ''Subject'' = 69" using first_maxlen_eq [of "''Subject''"] by simp
  have fp: "fold_point 69 example_long_word = 80"
    using fold_point_beyond [of example_long_word 69 80] example_long_word_facts
      no_mark_from [of example_long_word "skip_fws example_long_word"]
      no_sp_before [of 80 example_long_word "skip_fws example_long_word"]
    by simp
  have a1: "fold_value 69 example_long_word =
      take 80 example_long_word @ fold_value 78 '' yyyyyyyyyy''"
    using fold_value_step [of example_long_word 69] example_long_word_facts
    by (simp add: fp printf_prec_take)
  have r: "skip_fws '' yyyyyyyyyy'' = 1" "isblank (hd '' yyyyyyyyyy'')" "\<not> has_mark ''yyyyyyyyyy''"
    by (simp_all add: skip_fws_def isblank_def SP_def HTAB_def)
  have rn: "\<forall>i. skip_fws '' yyyyyyyyyy'' \<le> i \<longrightarrow> \<not> fold_mark '' yyyyyyyyyy'' i"
  proof (intro allI impI)
    fix i assume "skip_fws '' yyyyyyyyyy'' \<le> i"
    then obtain i' where "i = Suc i'" using r(1) by (cases i) auto
    then show "\<not> fold_mark '' yyyyyyyyyy'' i"
      using r(3) by (simp add: fold_mark_Cons has_mark_iff)
  qed
  have a2: "fold_value 78 '' yyyyyyyyyy'' = CRLF @ '' yyyyyyyyyy''"
    using fold_value_short [of "'' yyyyyyyyyy''" 78] rn r(2) by simp
  have p1: "dump_header example_env ''Subject'' example_long_word =
     ''Subject: '' @ take 80 example_long_word @ CRLF @ '' yyyyyyyyyy'' @ CRLF"
    by (simp add: dump_header_def Let_def enc mx a1 a2)
  have p2: "length (''Subject: '' @ take 80 example_long_word) = 89"
    using example_long_word_facts(1) by simp
  from p1 p2 example_long_word_facts show ?thesis by blast
qed

theorem dump_header_folding_witness:
  "dump_header example_env ''Subject'' example_value =
     ''Subject: '' @ take 60 example_value @ CRLF @ drop 60 example_value @ CRLF
   \<and> length (''Subject: '' @ take 60 example_value) = 69
   \<and> dump_header example_env ''Subject'' (''aaa bbb'' @ [HTAB] @ ''ccc'') =
       ''Subject: aaa bbb'' @ CRLF @ [HTAB] @ ''ccc'' @ CRLF
   \<and> dump_header example_env ''Subject'' (replicate 100 (CHR ''x'')) =
       ''Subject: '' @ replicate 100 (CHR ''x'') @ CRLF
   \<and> fold_value 69 example_long_word =
       take 80 example_long_word @ fold_value 78 (drop 80 example_long_word)
   \<and> first_maxlen (replicate 77 (CHR ''n'')) = 2 ^ 64 - 1"
proof -
  have enc: "charset_encode_mimeheader (ans example_env) v = v" for v
    by (simp add: example_env_def example_ans_def)
  have mx: "first_maxlen ''Subject'' = 69"
    using dump_header_folding [of example_env "''Subject''" "[]" "[]" 0 0 0,
        THEN conjunct2, THEN conjunct1] by simp
  note shape = dump_header_folding [THEN conjunct1, of example_env "''Subject''"]
  note single = dump_header_folding [THEN conjunct2, THEN conjunct2, THEN conjunct1, rule_format]
  note fits = dump_header_folding [THEN conjunct2, THEN conjunct2, THEN conjunct2, THEN conjunct1,
      rule_format]
  note mark = dump_header_folding [THEN conjunct2, THEN conjunct2, THEN conjunct2, THEN conjunct2,
      THEN conjunct1, rule_format]
  note noblank = dump_header_folding [THEN conjunct2, THEN conjunct2, THEN conjunct2, THEN conjunct2,
      THEN conjunct2, THEN conjunct1, rule_format]
  \<comment> \<open>a value of 100 bytes with single spaces at 60 and 75\<close>
  have a1: "fold_value 69 example_value = take 60 example_value @ fold_value 78 (drop 60 example_value)"
    using single [of example_value 69 60] example_value_facts
      no_mark_from [of example_value "skip_fws example_value"]
      no_sp_between [of 69 60 example_value]
    by simp
  have a2: "fold_value 78 (drop 60 example_value) = CRLF @ drop 60 example_value"
    using fits [of "drop 60 example_value" 78] example_rest_facts
      no_mark_from [of "drop 60 example_value" "skip_fws (drop 60 example_value)"]
    by simp
  have p1: "dump_header example_env ''Subject'' example_value =
     ''Subject: '' @ take 60 example_value @ CRLF @ drop 60 example_value @ CRLF"
    unfolding shape enc mx a1 a2 by simp
  have p1': "length (''Subject: '' @ take 60 example_value) = 69"
    using example_value_facts(1) by simp
  \<comment> \<open>a short value with a single space and a HTAB\<close>
  let ?t = "''aaa bbb'' @ [HTAB] @ ''ccc''"
  have t: "fold_mark ?t 7" "skip_fws ?t = 0" "\<not> has_mark (take 7 ?t)" "?t \<noteq> []"
    "\<not> isblank (hd ?t)" "take 7 ?t = ''aaa bbb''" "drop 7 ?t = [HTAB] @ ''ccc''"
    by (simp_all add: fold_mark_def skip_fws_def isblank_def SP_def HTAB_def)
  have tn: "\<forall>i. skip_fws ?t \<le> i \<and> i < 7 \<longrightarrow> \<not> fold_mark ?t i"
  proof (intro allI impI)
    fix i assume "skip_fws ?t \<le> i \<and> i < 7"
    then have "i \<in> {0, 1, 2, 3, 4, 5, 6}" by auto
    then show "\<not> fold_mark ?t i"
      by (auto simp: fold_mark_def SP_def HTAB_def)
  qed
  have b1: "fold_value 69 ?t = ''aaa bbb'' @ fold_value 78 ([HTAB] @ ''ccc'')"
    using mark [of ?t 7 69] t tn by simp
  have r: "skip_fws ([HTAB] @ ''ccc'') = 1" "isblank (hd ([HTAB] @ ''ccc''))" "\<not> has_mark ''ccc''"
    by (simp_all add: skip_fws_def isblank_def SP_def HTAB_def)
  have rn: "\<forall>i. skip_fws ([HTAB] @ ''ccc'') \<le> i \<longrightarrow> \<not> fold_mark ([HTAB] @ ''ccc'') i"
  proof (intro allI impI)
    fix i assume "skip_fws ([HTAB] @ ''ccc'') \<le> i"
    then obtain i' where "i = Suc i'" using r(1) by (cases i) auto
    then show "\<not> fold_mark ([HTAB] @ ''ccc'') i"
      using r(3) by (simp add: fold_mark_Cons has_mark_iff)
  qed
  have b2: "fold_value 78 ([HTAB] @ ''ccc'') = CRLF @ [HTAB] @ ''ccc''"
    using fits [of "[HTAB] @ ''ccc''" 78] rn r(2) by simp
  have p2: "dump_header example_env ''Subject'' ?t =
       ''Subject: aaa bbb'' @ CRLF @ [HTAB] @ ''ccc'' @ CRLF"
    unfolding shape enc mx b1 b2 by simp
  \<comment> \<open>a value of 100 bytes without white space\<close>
  have c1: "fold_value 69 (replicate 100 (CHR ''x'')) = replicate 100 (CHR ''x'')"
    using noblank [of "replicate 100 (CHR ''x'')" 69] by (simp add: isblank_def SP_def HTAB_def)
  have p3: "dump_header example_env ''Subject'' (replicate 100 (CHR ''x'')) =
       ''Subject: '' @ replicate 100 (CHR ''x'') @ CRLF"
    unfolding shape enc mx c1 by simp
  \<comment> \<open>a value whose only SP comes after the allowed length\<close>
  note beyond = dump_header_folding [THEN conjunct2, THEN conjunct2, THEN conjunct2, THEN conjunct2,
      THEN conjunct2, THEN conjunct2, THEN conjunct2, THEN conjunct1, rule_format]
  have p4: "fold_value 69 example_long_word =
       take 80 example_long_word @ fold_value 78 (drop 80 example_long_word)"
    using beyond [of example_long_word 69 80] example_long_word_facts
      no_mark_from [of example_long_word "skip_fws example_long_word"]
      no_sp_before [of 80 example_long_word "skip_fws example_long_word"]
    by simp
  \<comment> \<open>a name of 77 bytes\<close>
  have p5: "first_maxlen (replicate 77 (CHR ''n'')) = 2 ^ 64 - 1"
    using dump_header_folding [of example_env "replicate 77 (CHR ''n'')" "[]" "[]" 0 0 0,
        THEN conjunct2, THEN conjunct2, THEN conjunct2, THEN conjunct2,
        THEN conjunct2, THEN conjunct2, THEN conjunct2, THEN conjunct2] by simp
  from p1 p1' p2 p3 p4 p5 show ?thesis by blast
qed



















end
